theory Spec2Isabelle
  imports Main "HOL-Library.Sublist" "HOL-Library.AList" "HOL-Library.Char_ord"
    "HOL-Library.List_Lexorder"
begin

section \<open>Configuration values and \<open>validate_cfg\<close>\<close>

text \<open>
  The module-level dictionary \<open>CFG\<close> of \<open>replicant_v1.2.py\<close> maps keys to Python values.
  \<open>PyBool\<close> is kept apart from \<open>PyInt\<close> because \<open>isinstance(True, int)\<close> holds in Python;
  \<open>PyOther\<close> stands for any value that is neither \<open>None\<close>, a bool, an int nor a str.
\<close>

datatype pyval = PyNone | PyBool bool | PyInt int | PyStr string | PyOther

type_synonym cfg = "string \<Rightarrow> pyval option"

definition CFG :: cfg where
  "CFG = [''sandbox'' \<mapsto> PyStr ''sandbox_w'',
          ''replica_dir'' \<mapsto> PyStr ''replicas'',
          ''hosts_root'' \<mapsto> PyStr ''hosts'',
          ''host_count'' \<mapsto> PyInt 3,
          ''limit'' \<mapsto> PyInt 3,
          ''marker'' \<mapsto> PyStr ''STOP'',
          ''logfile'' \<mapsto> PyStr ''w_demo.log'']"

definition RESERVED_NAMES :: "string list" where
  "RESERVED_NAMES = [''CON'', ''PRN'', ''AUX'', ''NUL'', ''COM1'', ''LPT1'']"

definition separators :: string where
  "separators = [CHR ''/'', CHR 0x5C]"

text \<open>\<open>CFG.get(k)\<close>: a missing key reads as \<open>None\<close>.\<close>

definition cfg_get :: "cfg \<Rightarrow> string \<Rightarrow> pyval" where
  "cfg_get c k = (case c k of None \<Rightarrow> PyNone | Some v \<Rightarrow> v)"

fun is_int :: "pyval \<Rightarrow> bool" where
  "is_int (PyInt i) = True"
| "is_int (PyBool b) = True"
| "is_int v = False"

fun int_of :: "pyval \<Rightarrow> int" where
  "int_of (PyInt i) = i"
| "int_of (PyBool b) = (if b then 1 else 0)"
| "int_of v = 0"

definition quoted_key :: "string \<Rightarrow> string" where
  "quoted_key k = ''CFG['' @ [CHR 0x27] @ k @ [CHR 0x27] @ '']''"

text \<open>One round of the \<open>for k in (...)\<close> loop of \<open>validate_cfg\<close>; \<open>Inl\<close> is the raised
  \<open>ValueError\<close> with its message.\<close>

definition check_name :: "cfg \<Rightarrow> string \<Rightarrow> string + unit" where
  "check_name c k =
     (case cfg_get c k of
        PyStr v \<Rightarrow>
          if v \<in> set RESERVED_NAMES then Inl (quoted_key k @ '' invalid.'')
          else if (\<exists>ch \<in> set separators. ch \<in> set v)
               then Inl (quoted_key k @ '' must not contain path separators.'')
               else Inr ()
      | _ \<Rightarrow> Inl (quoted_key k @ '' invalid.''))"

fun check_names :: "cfg \<Rightarrow> string list \<Rightarrow> string + unit" where
  "check_names c [] = Inr ()"
| "check_names c (k # ks) =
     (case check_name c k of Inl e \<Rightarrow> Inl e | Inr u \<Rightarrow> check_names c ks)"

definition name_keys :: "string list" where
  "name_keys = [''sandbox'', ''replica_dir'', ''hosts_root'', ''marker'', ''logfile'']"

definition validate_cfg :: "cfg \<Rightarrow> string + unit" where
  "validate_cfg c =
     (if \<not> is_int (cfg_get c ''limit'') \<or> int_of (cfg_get c ''limit'') < 0
        then Inl (quoted_key ''limit'' @ '' must be non-negative int.'')
      else if \<not> is_int (cfg_get c ''host_count'') \<or> int_of (cfg_get c ''host_count'') < 0
                \<or> int_of (cfg_get c ''host_count'') > 10
        then Inl (quoted_key ''host_count'' @ '' must be 0..10.'')
      else check_names c name_keys)"

text \<open>
  The validator of the previous revision, \<open>validate_config\<close> of \<open>legacy/replicant_v1.1.py\<close>:
  \<open>not val\<close> rejects \<open>None\<close>, the empty string, \<open>0\<close> and \<open>False\<close>; \<open>str(val)\<close> is searched
  for separators (for a non-string value the printed form contains none).
\<close>

fun py_falsy :: "pyval \<Rightarrow> bool" where
  "py_falsy PyNone = True"
| "py_falsy (PyBool b) = (\<not> b)"
| "py_falsy (PyInt i) = (i = 0)"
| "py_falsy (PyStr s) = (s = [])"
| "py_falsy PyOther = False"

definition check_name_v11 :: "cfg \<Rightarrow> string \<Rightarrow> string + unit" where
  "check_name_v11 c k =
     (let val = cfg_get c k in
      if py_falsy val \<or> (case val of PyStr v \<Rightarrow> (\<exists>ch \<in> set separators. ch \<in> set v) | _ \<Rightarrow> False)
      then Inl (''Config '' @ [CHR 0x27] @ k @ [CHR 0x27]
                @ '' must be a simple name without path separators.'')
      else Inr ())"

fun check_names_v11 :: "cfg \<Rightarrow> string list \<Rightarrow> string + unit" where
  "check_names_v11 c [] = Inr ()"
| "check_names_v11 c (k # ks) =
     (case check_name_v11 c k of Inl e \<Rightarrow> Inl e | Inr u \<Rightarrow> check_names_v11 c ks)"

definition validate_config_v11 :: "cfg \<Rightarrow> string + unit" where
  "validate_config_v11 c =
     (if \<not> is_int (cfg_get c ''limit'') \<or> int_of (cfg_get c ''limit'') < 0
        then Inl ''Config 'limit' must be a non-negative integer.''
      else check_names_v11 c [''sandbox'', ''replica_dir'', ''marker''])"

text \<open>
  The engine reads the dictionary with \<open>self.cfg[...]\<close>; it is built only after
  \<open>validate_cfg\<close> has passed, so every name is a \<open>str\<close> and both numbers are ints.
  \<open>read_cfg\<close> gives the typed view and fails where Python would raise a \<open>TypeError\<close>.
\<close>

record config =
  sandbox_name :: string
  replica_dir :: string
  hosts_root_name :: string
  host_count :: int
  limit :: pyval
  marker_name :: string
  logfile :: string

definition read_cfg :: "cfg \<Rightarrow> config option" where
  "read_cfg c =
     (case (cfg_get c ''sandbox'', cfg_get c ''replica_dir'', cfg_get c ''hosts_root'',
            cfg_get c ''marker'', cfg_get c ''logfile'') of
        (PyStr s, PyStr r, PyStr h, PyStr m, PyStr l) \<Rightarrow>
          if is_int (cfg_get c ''host_count'') \<and> is_int (cfg_get c ''limit'')
          then Some \<lparr>sandbox_name = s, replica_dir = r, hosts_root_name = h,
                      host_count = int_of (cfg_get c ''host_count''),
                      limit = cfg_get c ''limit'', marker_name = m, logfile = l\<rparr>
          else None
      | _ \<Rightarrow> None)"

section \<open>Rendering of numbers\<close>

fun digits :: "nat \<Rightarrow> string" where
  "digits n = (if n < 10 then [''0123456789'' ! n]
               else digits (n div 10) @ [''0123456789'' ! (n mod 10)])"

declare digits.simps [simp del]

definition str_int :: "int \<Rightarrow> string" where
  "str_int i = (if i < 0 then ''-'' @ digits (nat (- i)) else digits (nat i))"

text \<open>\<open>str(v)\<close> and \<open>json.dumps(v)\<close> for the value stored under \<open>limit\<close>.\<close>

fun py_str :: "pyval \<Rightarrow> string" where
  "py_str (PyInt i) = str_int i"
| "py_str (PyBool b) = (if b then ''True'' else ''False'')"
| "py_str (PyStr s) = s"
| "py_str PyNone = ''None''"
| "py_str PyOther = ''?''"

fun json_val :: "pyval \<Rightarrow> string" where
  "json_val (PyInt i) = str_int i"
| "json_val (PyBool b) = (if b then ''true'' else ''false'')"
| "json_val (PyStr s) = [CHR 0x22] @ s @ [CHR 0x22]"
| "json_val PyNone = ''null''"
| "json_val PyOther = ''?''"

section \<open>Paths (\<open>pathlib\<close>, POSIX flavour)\<close>

text \<open>
  A \<open>Path\<close> object is its anchor (absolute or not) and its list of components.
  The constructor splits at \<open>/\<close> and drops empty and \<open>.\<close> components; \<open>..\<close> is kept.
\<close>

datatype ppath = PPath (is_abs: bool) (parts: "string list")

fun split_sep :: "string \<Rightarrow> string \<Rightarrow> string list" where
  "split_sep acc [] = [rev acc]"
| "split_sep acc (x # xs) =
     (if x = CHR ''/'' then rev acc # split_sep [] xs else split_sep (x # acc) xs)"

definition Path :: "string \<Rightarrow> ppath" where
  "Path s = PPath (s \<noteq> [] \<and> hd s = CHR ''/'')
                  (filter (\<lambda>p. p \<noteq> [] \<and> p \<noteq> ''.'') (split_sep [] s))"

text \<open>\<open>p / s\<close>: an absolute right operand replaces the left one.\<close>

definition joinp :: "ppath \<Rightarrow> string \<Rightarrow> ppath" where
  "joinp p s = (if is_abs (Path s) then Path s
                else PPath (is_abs p) (parts p @ parts (Path s)))"

definition parent :: "ppath \<Rightarrow> ppath" where
  "parent p = PPath (is_abs p) (butlast (parts p))"

definition path_name :: "ppath \<Rightarrow> string" where
  "path_name p = (if parts p = [] then [] else last (parts p))"

fun join_slash :: "string list \<Rightarrow> string" where
  "join_slash [] = []"
| "join_slash [x] = x"
| "join_slash (x # y # ys) = x @ ''/'' @ join_slash (y # ys)"

definition path_str :: "ppath \<Rightarrow> string" where
  "path_str p = (if is_abs p then ''/'' @ join_slash (parts p)
                 else if parts p = [] then ''.'' else join_slash (parts p))"

text \<open>
  \<open>Path.resolve()\<close> on a file system without symbolic links: the path is made absolute
  with the working directory and \<open>..\<close> is removed lexically (the parent of the root is
  the root).
\<close>

definition normalize :: "string list \<Rightarrow> string list" where
  "normalize ps = foldl (\<lambda>acc c. if c = ''..'' then butlast acc else acc @ [c]) [] ps"

definition resolve :: "string list \<Rightarrow> ppath \<Rightarrow> ppath" where
  "resolve wd p = PPath True (normalize (if is_abs p then parts p else wd @ parts p))"

text \<open>\<open>is_within\<close>: \<open>relative_to\<close> succeeds exactly when the resolved parent is a prefix of
  the resolved child (equality included).\<close>

definition is_within :: "string list \<Rightarrow> ppath \<Rightarrow> ppath \<Rightarrow> bool" where
  "is_within wd child par = prefix (parts (resolve wd par)) (parts (resolve wd child))"

section \<open>The file system\<close>

text \<open>
  A file system is a finite table from absolute, normalised paths to nodes; the root
  \<open>[]\<close> is always a directory. There are no symbolic links, owners or permissions, and
  the disk is never full: the only failures are those of the name lookup and of the
  kind of node found.
\<close>

datatype node = Dir | File string

type_synonym filesystem = "(string list \<times> node) list"

datatype oserror = ENOENT | ENOTDIR | EEXIST | EISDIR | ENOTEMPTY | EINVAL

definition strerror :: "oserror \<Rightarrow> string" where
  "strerror e = (case e of ENOENT \<Rightarrow> ''[Errno 2] No such file or directory''
                 | ENOTDIR \<Rightarrow> ''[Errno 20] Not a directory''
                 | EEXIST \<Rightarrow> ''[Errno 17] File exists''
                 | EISDIR \<Rightarrow> ''[Errno 21] Is a directory''
                 | ENOTEMPTY \<Rightarrow> ''[Errno 39] Directory not empty''
                 | EINVAL \<Rightarrow> ''[Errno 22] Invalid argument'')"

definition node_at :: "filesystem \<Rightarrow> string list \<Rightarrow> node option" where
  "node_at f q = (if q = [] then Some Dir else map_of f q)"

definition step :: "string list \<Rightarrow> string \<Rightarrow> string list" where
  "step cur c = (if c = ''..'' then butlast cur else cur @ [c])"

text \<open>
  The kernel's name lookup: every component is looked up in the directory reached so
  far, which has to exist and be a directory. The node named by the last component
  need not exist.
\<close>

fun walk :: "filesystem \<Rightarrow> string list \<Rightarrow> string list \<Rightarrow> oserror + string list" where
  "walk f cur [] = Inr cur"
| "walk f cur (c # cs) =
     (case node_at f cur of
        Some Dir \<Rightarrow> walk f (step cur c) cs
      | Some (File b) \<Rightarrow> Inl ENOTDIR
      | None \<Rightarrow> Inl ENOENT)"

definition locate :: "filesystem \<Rightarrow> string list \<Rightarrow> ppath \<Rightarrow> oserror + string list" where
  "locate f wd p = walk f (if is_abs p then [] else wd) (parts p)"

definition path_exists :: "filesystem \<Rightarrow> string list \<Rightarrow> ppath \<Rightarrow> bool" where
  "path_exists f wd p =
     (case locate f wd p of Inl e \<Rightarrow> False | Inr q \<Rightarrow> node_at f q \<noteq> None)"

definition is_dir :: "filesystem \<Rightarrow> string list \<Rightarrow> ppath \<Rightarrow> bool" where
  "is_dir f wd p =
     (case locate f wd p of Inl e \<Rightarrow> False | Inr q \<Rightarrow> node_at f q = Some Dir)"

text \<open>\<open>os.mkdir\<close>.\<close>

definition os_mkdir :: "string list \<Rightarrow> ppath \<Rightarrow> filesystem \<Rightarrow> oserror + filesystem" where
  "os_mkdir wd p f =
     (case locate f wd p of
        Inl e \<Rightarrow> Inl e
      | Inr q \<Rightarrow> if node_at f q \<noteq> None then Inl EEXIST else Inr (AList.update q Dir f))"

text \<open>\<open>Path.mkdir(parents=False, exist_ok=True)\<close>.\<close>

definition mkdir_exist_ok :: "string list \<Rightarrow> ppath \<Rightarrow> filesystem \<Rightarrow> (oserror + unit) \<times> filesystem" where
  "mkdir_exist_ok wd p f =
     (case os_mkdir wd p f of
        Inr f' \<Rightarrow> (Inr (), f')
      | Inl ENOENT \<Rightarrow> (Inl ENOENT, f)
      | Inl e \<Rightarrow> if is_dir f wd p then (Inr (), f) else (Inl e, f))"

text \<open>\<open>Path.mkdir(parents=True, exist_ok=True)\<close>: on \<open>FileNotFoundError\<close> the parent is made
  first, then the directory itself; any other error is forgiven when the path is a
  directory already.\<close>

function mkdir_p :: "string list \<Rightarrow> ppath \<Rightarrow> filesystem \<Rightarrow> (oserror + unit) \<times> filesystem" where
  "mkdir_p wd p f =
     (case os_mkdir wd p f of
        Inr f' \<Rightarrow> (Inr (), f')
      | Inl ENOENT \<Rightarrow>
          if parts p = [] then (Inl ENOENT, f)
          else (case mkdir_p wd (parent p) f of
                  (Inl e, f1) \<Rightarrow> (Inl e, f1)
                | (Inr u, f1) \<Rightarrow> mkdir_exist_ok wd p f1)
      | Inl e \<Rightarrow> if is_dir f wd p then (Inr (), f) else (Inl e, f))"
  by pat_completeness auto
termination
  by (relation "measure (\<lambda>(wd, p, f). length (parts p))") (auto simp: parent_def)

declare mkdir_p.simps [simp del]

text \<open>\<open>open(p, "w")\<close> followed by the write: \<open>write_text\<close>, \<open>write_bytes\<close>.\<close>

definition write_file :: "string list \<Rightarrow> ppath \<Rightarrow> string \<Rightarrow> filesystem \<Rightarrow> oserror + filesystem" where
  "write_file wd p data f =
     (case locate f wd p of
        Inl e \<Rightarrow> Inl e
      | Inr q \<Rightarrow> if node_at f q = Some Dir then Inl EISDIR
                 else Inr (AList.update q (File data) f))"

definition read_file :: "string list \<Rightarrow> ppath \<Rightarrow> filesystem \<Rightarrow> oserror + string" where
  "read_file wd p f =
     (case locate f wd p of
        Inl e \<Rightarrow> Inl e
      | Inr q \<Rightarrow> (case node_at f q of
                    None \<Rightarrow> Inl ENOENT
                  | Some Dir \<Rightarrow> Inl EISDIR
                  | Some (File b) \<Rightarrow> Inr b))"

text \<open>\<open>Path.unlink(missing_ok=True)\<close>: only \<open>FileNotFoundError\<close> is forgiven.\<close>

definition unlink_missing_ok :: "string list \<Rightarrow> ppath \<Rightarrow> filesystem \<Rightarrow> oserror + filesystem" where
  "unlink_missing_ok wd p f =
     (case locate f wd p of
        Inl ENOENT \<Rightarrow> Inr f
      | Inl e \<Rightarrow> Inl e
      | Inr q \<Rightarrow> (case node_at f q of
                    None \<Rightarrow> Inr f
                  | Some Dir \<Rightarrow> Inl EISDIR
                  | Some (File b) \<Rightarrow> Inr (AList.delete q f)))"

text \<open>
  \<open>tempfile.NamedTemporaryFile(dir=d, delete=False)\<close>: the candidate names are tried in
  order, each opened with \<open>O_EXCL\<close>; a name that exists is skipped, any other error is
  raised, and running out of candidates raises \<open>FileExistsError\<close>. The result is the new
  empty file's path.
\<close>

fun mkstemp :: "string list \<Rightarrow> ppath \<Rightarrow> string list \<Rightarrow> filesystem
                \<Rightarrow> (oserror + ppath) \<times> filesystem" where
  "mkstemp wd d [] f = (Inl EEXIST, f)"
| "mkstemp wd d (n # ns) f =
     (let t = PPath (is_abs d) (parts d @ [''tmp'' @ n]) in
      case locate f wd t of
        Inl e \<Rightarrow> (Inl e, f)
      | Inr q \<Rightarrow> if node_at f q \<noteq> None then mkstemp wd d ns f
                 else (Inr t, AList.update q (File []) f))"

text \<open>\<open>os.replace(src, dst)\<close> for a source that is a regular file.\<close>

definition os_replace :: "string list \<Rightarrow> ppath \<Rightarrow> ppath \<Rightarrow> filesystem \<Rightarrow> oserror + filesystem" where
  "os_replace wd src dst f =
     (case locate f wd src of
        Inl e \<Rightarrow> Inl e
      | Inr qs \<Rightarrow>
          (case node_at f qs of
             None \<Rightarrow> Inl ENOENT
           | Some Dir \<Rightarrow> Inl EISDIR
           | Some (File b) \<Rightarrow>
               (case locate f wd dst of
                  Inl e \<Rightarrow> Inl e
                | Inr qd \<Rightarrow>
                    if node_at f qd = Some Dir then Inl EISDIR
                    else if qd = qs then Inr f
                    else Inr (AList.update qd (File b) (AList.delete qs f)))))"

text \<open>The names in a directory, and \<open>fnmatch\<close> against \<open>w_copy_*.py\<close> and \<open>host_*\<close>.\<close>

definition listdir :: "filesystem \<Rightarrow> string list \<Rightarrow> string list" where
  "listdir f q = map last (filter (\<lambda>k. k \<noteq> [] \<and> butlast k = q) (map fst f))"

definition is_copy_name :: "string \<Rightarrow> bool" where
  "is_copy_name n = (10 \<le> length n \<and> take 7 n = ''w_copy_'' \<and> drop (length n - 3) n = ''.py'')"

definition is_host_name :: "string \<Rightarrow> bool" where
  "is_host_name n = (take 5 n = ''host_'')"

text \<open>\<open>Path.glob(pattern)\<close> with a one-component pattern: nothing when the path is not a
  directory.\<close>

definition glob :: "filesystem \<Rightarrow> string list \<Rightarrow> ppath \<Rightarrow> (string \<Rightarrow> bool) \<Rightarrow> string list" where
  "glob f wd p matches =
     (case locate f wd p of
        Inl e \<Rightarrow> []
      | Inr q \<Rightarrow> if node_at f q = Some Dir then filter matches (listdir f q) else [])"

text \<open>
  \<open>shutil.rmtree(p)\<close>: a path that is not a directory raises; otherwise everything below
  the directory is removed, and then \<open>os.rmdir(p)\<close> looks the name up again.
\<close>

definition os_rmdir :: "string list \<Rightarrow> ppath \<Rightarrow> filesystem \<Rightarrow> oserror + filesystem" where
  "os_rmdir wd p f =
     (case locate f wd p of
        Inl e \<Rightarrow> Inl e
      | Inr q \<Rightarrow>
          if parts p = [] then Inl EINVAL
          else if last (parts p) = ''..'' then Inl ENOTEMPTY
          else (case node_at f q of
                  None \<Rightarrow> Inl ENOENT
                | Some (File b) \<Rightarrow> Inl ENOTDIR
                | Some Dir \<Rightarrow> if listdir f q \<noteq> [] then Inl ENOTEMPTY
                              else Inr (AList.delete q f)))"

definition rmtree :: "string list \<Rightarrow> ppath \<Rightarrow> filesystem \<Rightarrow> (oserror + unit) \<times> filesystem" where
  "rmtree wd p f =
     (case locate f wd p of
        Inl e \<Rightarrow> (Inl e, f)
      | Inr q \<Rightarrow>
          (case node_at f q of
             None \<Rightarrow> (Inl ENOENT, f)
           | Some (File b) \<Rightarrow> (Inl ENOTDIR, f)
           | Some Dir \<Rightarrow>
               (let f1 = filter (\<lambda>(k, n). \<not> strict_prefix q k) f in
                case os_rmdir wd p f1 of
                  Inl e \<Rightarrow> (Inl e, f1)
                | Inr f2 \<Rightarrow> (Inr (), f2))))"

section \<open>Environment, process state and logging\<close>

text \<open>
  What a run takes from outside the file system: the working directory, the bytes of
  the running script and its file name (\<open>__file__\<close>, which lies outside the modelled tree and is always
  readable), the clock, the draw of \<open>random.randint(10000, 99999)\<close>, the candidate names
  of \<open>tempfile\<close>, whether \<open>colorama\<close> was imported, and the digest function of \<open>hashlib\<close>.
\<close>

record env =
  cwd :: "string list"
  script :: string
  script_name :: string
  asctime :: string
  strftime :: string
  token :: nat
  tmp_names :: "string list"
  colorama :: bool
  sha256 :: "string \<Rightarrow> string"

text \<open>
  The state of the process: the file system, the \<open>baseFilename\<close> of the attached
  \<open>FileHandler\<close> (if any), and the lines written to standard output. The logger's level is
  the default \<open>INFO\<close>.
\<close>

record state =
  fs :: filesystem
  handler :: "string list option"
  out :: "string list"

datatype level = INFO | WARNING | ERROR

datatype outcome = Returned | Exit nat | Uncaught string

definition level_name :: "level \<Rightarrow> string" where
  "level_name l = (case l of INFO \<Rightarrow> ''INFO'' | WARNING \<Rightarrow> ''WARNING'' | ERROR \<Rightarrow> ''ERROR'')"

text \<open>A write through the handler's open descriptor: it reaches the file still found at
  the handler's path.\<close>

definition append_file :: "string list \<Rightarrow> string \<Rightarrow> filesystem \<Rightarrow> filesystem" where
  "append_file q txt f =
     (case node_at f q of
        Some (File b) \<Rightarrow> AList.update q (File (b @ txt)) f
      | _ \<Rightarrow> f)"

definition emit :: "env \<Rightarrow> level \<Rightarrow> string \<Rightarrow> state \<Rightarrow> state" where
  "emit e l msg st =
     st\<lparr>out := out st @ [''['' @ level_name l @ ''] '' @ msg],
        fs := (case handler st of
                 None \<Rightarrow> fs st
               | Some q \<Rightarrow> append_file q (asctime e @ '' ['' @ level_name l @ ''] '' @ msg @ ''\<newline>'')
                             (fs st))\<rparr>"

definition print :: "string \<Rightarrow> state \<Rightarrow> state" where
  "print line st = st\<lparr>out := out st @ [line]\<rparr>"

text \<open>Code that may raise an \<open>OSError\<close>: the state is returned in both cases, since what was
  written before the exception stays written.\<close>

type_synonym 'a io = "state \<Rightarrow> (oserror + 'a) \<times> state"

definition io_ret :: "'a \<Rightarrow> 'a io" where
  "io_ret x st = (Inr x, st)"

definition io_bind :: "'a io \<Rightarrow> ('a \<Rightarrow> 'b io) \<Rightarrow> 'b io" where
  "io_bind m k st = (case m st of (Inl e, st') \<Rightarrow> (Inl e, st') | (Inr x, st') \<Rightarrow> k x st')"

definition io_then :: "unit io \<Rightarrow> 'b io \<Rightarrow> 'b io" where
  "io_then m n = io_bind m (\<lambda>u. n)"

definition fs_op :: "(filesystem \<Rightarrow> oserror + filesystem) \<Rightarrow> unit io" where
  "fs_op g st = (case g (fs st) of Inl e \<Rightarrow> (Inl e, st) | Inr f' \<Rightarrow> (Inr (), st\<lparr>fs := f'\<rparr>))"

definition fs_run :: "(filesystem \<Rightarrow> (oserror + 'a) \<times> filesystem) \<Rightarrow> 'a io" where
  "fs_run g st = (case g (fs st) of (r, f') \<Rightarrow> (r, st\<lparr>fs := f'\<rparr>))"

definition fs_read :: "(filesystem \<Rightarrow> oserror + 'a) \<Rightarrow> 'a io" where
  "fs_read g st = (g (fs st), st)"

definition log :: "env \<Rightarrow> level \<Rightarrow> string \<Rightarrow> unit io" where
  "log e l msg st = (Inr (), emit e l msg st)"

definition io_when :: "bool \<Rightarrow> unit io \<Rightarrow> unit io" where
  "io_when b m = (if b then m else io_ret ())"

section \<open>\<open>WormDemo\<close>\<close>

text \<open>\<open>_paths\<close>.\<close>

definition sandbox :: "config \<Rightarrow> ppath" where
  "sandbox c = Path (sandbox_name c)"

definition replicas :: "config \<Rightarrow> ppath" where
  "replicas c = joinp (sandbox c) (replica_dir c)"

definition marker :: "config \<Rightarrow> ppath" where
  "marker c = joinp (sandbox c) (marker_name c)"

definition hosts_root :: "config \<Rightarrow> ppath" where
  "hosts_root c = joinp (sandbox c) (hosts_root_name c)"

text \<open>
  \<open>logging.FileHandler(log_path)\<close>: the handler's \<open>baseFilename\<close> is
  \<open>os.path.abspath(log_path)\<close>, which is opened for appending (and created when missing).
\<close>

definition open_append :: "string list \<Rightarrow> ppath \<Rightarrow> filesystem
                           \<Rightarrow> oserror + (string list \<times> filesystem)" where
  "open_append wd p f =
     (case locate f wd (resolve wd p) of
        Inl e \<Rightarrow> Inl e
      | Inr q \<Rightarrow> (case node_at f q of
                    Some Dir \<Rightarrow> Inl EISDIR
                  | Some (File b) \<Rightarrow> Inr (q, f)
                  | None \<Rightarrow> Inr (q, AList.update q (File []) f)))"

text \<open>
  \<open>_attach_file_logger\<close>, run by the constructor. No \<open>FileHandler\<close> is attached before the
  (single) construction of a process, so the guard of the \<open>if\<close> holds. Every exception ends
  in the two warnings.
\<close>

definition not_attached :: "env \<Rightarrow> oserror \<Rightarrow> state \<Rightarrow> state" where
  "not_attached e err st =
     emit e WARNING (''File logger not attached: '' @ strerror err)
       (emit e WARNING (''File logger not attached: '' @ strerror err) st)"

definition attach_file_logger :: "env \<Rightarrow> config \<Rightarrow> state \<Rightarrow> state" where
  "attach_file_logger e c st =
     (case mkdir_p (cwd e) (sandbox c) (fs st) of
        (Inl err, f1) \<Rightarrow> not_attached e err (st\<lparr>fs := f1\<rparr>)
      | (Inr u, f1) \<Rightarrow>
          (let log_path = joinp (sandbox c) (logfile c) in
           case open_append (cwd e) log_path f1 of
             Inl err \<Rightarrow> not_attached e err (st\<lparr>fs := f1\<rparr>)
           | Inr (q, f2) \<Rightarrow>
               emit e INFO (''Log file: '' @ path_str log_path)
                 (st\<lparr>fs := f2, handler := Some q\<rparr>)))"

text \<open>The colour codes: empty without \<open>colorama\<close>.\<close>

definition C_OK :: "env \<Rightarrow> string" where
  "C_OK e = (if colorama e then [CHR 0x1B] @ ''[32m'' else [])"

definition C_ERR :: "env \<Rightarrow> string" where
  "C_ERR e = (if colorama e then [CHR 0x1B] @ ''[31m'' else [])"

definition C_DIM :: "env \<Rightarrow> string" where
  "C_DIM e = (if colorama e then [CHR 0x1B] @ ''[2m'' else [])"

definition C_RST :: "env \<Rightarrow> string" where
  "C_RST e = (if colorama e then [CHR 0x1B] @ ''[0m'' else [])"

text \<open>\<open>init\<close>.\<close>

definition manifest :: "env \<Rightarrow> config \<Rightarrow> string" where
  "manifest e c =
     ''{\<newline>  '' @ json_val (PyStr ''purpose'') @ '': ''
       @ json_val (PyStr ''Training-only harmless self-replication demo'') @ '',\<newline>  ''
     @ json_val (PyStr ''safety'') @ '': {\<newline>    ''
     @ json_val (PyStr ''network'') @ '': false,\<newline>    ''
     @ json_val (PyStr ''persistence'') @ '': false,\<newline>    ''
     @ json_val (PyStr ''privilege_escalation'') @ '': false\<newline>  },\<newline>  ''
     @ json_val (PyStr ''limit'') @ '': '' @ json_val (limit c) @ '',\<newline>  ''
     @ json_val (PyStr ''created'') @ '': '' @ json_val (PyStr (strftime e)) @ ''\<newline>}''"

definition stop_text :: "config \<Rightarrow> string" where
  "stop_text c = ''This STOP file prevents replication. Remove it to allow up to ''
                 @ py_str (limit c) @ '' harmless copies.\<newline>''"

text \<open>\<open>range(1, self.cfg["host_count"] + 1)\<close>.\<close>

definition host_indices :: "config \<Rightarrow> nat list" where
  "host_indices c = map nat [1 .. host_count c]"

definition host_dir :: "config \<Rightarrow> nat \<Rightarrow> ppath" where
  "host_dir c i = joinp (joinp (hosts_root c) (''host_'' @ digits i)) (replica_dir c)"

fun make_hosts :: "env \<Rightarrow> config \<Rightarrow> nat list \<Rightarrow> unit io" where
  "make_hosts e c [] = io_ret ()"
| "make_hosts e c (i # is) =
     io_then (fs_run (mkdir_p (cwd e) (host_dir c i))) (make_hosts e c is)"

definition init_body :: "env \<Rightarrow> config \<Rightarrow> unit io" where
  "init_body e c =
     io_then (fs_run (mkdir_p (cwd e) (sandbox c)))
    (io_then (fs_op (write_file (cwd e) (joinp (sandbox c) ''manifest.json'') (manifest e c)))
    (io_then (\<lambda>st. io_when (\<not> path_exists (fs st) (cwd e) (marker c))
                     (fs_op (write_file (cwd e) (marker c) (stop_text c))) st)
    (io_then (fs_run (mkdir_p (cwd e) (hosts_root c)))
    (io_then (make_hosts e c (host_indices c))
             (log e INFO (''Sandbox ready at ./'' @ path_str (sandbox c) @ ''. '' @ C_OK e
                          @ ''STOP present.'' @ C_RST e))))))"

definition init :: "env \<Rightarrow> config \<Rightarrow> state \<Rightarrow> outcome \<times> state" where
  "init e c st =
     (case init_body e c st of
        (Inr u, st') \<Rightarrow> (Returned, st')
      | (Inl err, st') \<Rightarrow> (Exit 1, emit e ERROR (''Init failed: '' @ strerror err) st'))"

text \<open>\<open>_atomic_write\<close>.\<close>

definition atomic_write :: "env \<Rightarrow> ppath \<Rightarrow> ppath \<Rightarrow> unit io" where
  "atomic_write e src dst =
     io_then (fs_run (mkdir_p (cwd e) (parent dst)))
    (io_bind (fs_run (mkstemp (cwd e) (parent dst) (tmp_names e))) (\<lambda>tmp.
     io_bind (fs_read (read_file (cwd e) src)) (\<lambda>b.
     io_then (fs_op (write_file (cwd e) tmp b))
             (fs_op (os_replace (cwd e) tmp dst)))))"

text \<open>\<open>_make_polymorph\<close>, with the draw of \<open>random.randint\<close> as an argument.\<close>

definition make_polymorph :: "nat \<Rightarrow> string \<Rightarrow> string" where
  "make_polymorph r base_bytes =
     base_bytes @ ''\<newline># POLY:'' @ digits r @ '' unused comment to vary hash\<newline>''"

text \<open>\<open>_payload\<close>: every exception is caught.\<close>

definition payload_text :: string where
  "payload_text = ''Hello from the harmless demo payload. Stay safe.\<newline>''"

definition payload :: "env \<Rightarrow> ppath \<Rightarrow> state \<Rightarrow> state" where
  "payload e target_dir st =
     (case write_file (cwd e) (joinp target_dir ''friendly_note.txt'') payload_text (fs st) of
        Inr f' \<Rightarrow> emit e INFO (''Payload note written at ''
                               @ path_str (joinp target_dir ''friendly_note.txt''))
                   (st\<lparr>fs := f'\<rparr>)
      | Inl err \<Rightarrow> emit e WARNING (''Payload write failed: '' @ strerror err) st)"

definition replica_name :: "nat \<Rightarrow> string" where
  "replica_name idx = ''w_copy_'' @ digits idx @ ''.py''"

definition next_index :: "env \<Rightarrow> config \<Rightarrow> filesystem \<Rightarrow> nat" where
  "next_index e c f = length (glob f (cwd e) (replicas c) is_copy_name) + 1"

text \<open>One round of the loop over the mock hosts in \<open>demo\<close>.\<close>

definition spread_host :: "env \<Rightarrow> config \<Rightarrow> nat \<Rightarrow> string \<Rightarrow> bool \<Rightarrow> nat \<Rightarrow> unit io" where
  "spread_host e c idx data with_payload i =
     (let host_rep_dir = resolve (cwd e) (host_dir c i) in
      if \<not> is_within (cwd e) host_rep_dir (sandbox c)
      then log e WARNING ''Host path escaped sandbox; skipping.''
      else
        (let host_dst = joinp host_rep_dir (replica_name idx);
             tmp_host_src = joinp (sandbox c)
                              (''.tmp_host_'' @ digits i @ ''_'' @ digits idx @ ''.py'')
         in io_then (fs_op (write_file (cwd e) tmp_host_src data))
           (io_then (atomic_write e tmp_host_src host_dst)
           (io_then (fs_op (unlink_missing_ok (cwd e) tmp_host_src))
           (io_then (log e INFO (''(simulated) spread -> host_'' @ digits i @ ''/''
                                 @ replica_dir c @ ''/'' @ path_name host_dst))
                    (io_when with_payload (\<lambda>st. (Inr (), payload e host_rep_dir st))))))))"

fun spread_hosts :: "env \<Rightarrow> config \<Rightarrow> nat \<Rightarrow> string \<Rightarrow> bool \<Rightarrow> nat list \<Rightarrow> unit io" where
  "spread_hosts e c idx data with_payload [] = io_ret ()"
| "spread_hosts e c idx data with_payload (i # is) =
     io_then (spread_host e c idx data with_payload i)
             (spread_hosts e c idx data with_payload is)"

text \<open>The body of the \<open>try\<close> block of \<open>demo\<close>.\<close>

definition replica_data :: "env \<Rightarrow> bool \<Rightarrow> string" where
  "replica_data e polymorph = (if polymorph then make_polymorph (token e) (script e) else script e)"

definition demo_body :: "env \<Rightarrow> config \<Rightarrow> bool \<Rightarrow> bool \<Rightarrow> bool \<Rightarrow> nat \<Rightarrow> unit io" where
  "demo_body e c polymorph simulate_spread with_payload idx =
     (let dst = resolve (cwd e) (joinp (replicas c) (replica_name idx)) in
      if is_within (cwd e) dst (sandbox c)
      then
        (let data = replica_data e polymorph;
             tmp_src = joinp (sandbox c) (''.tmp_replica_'' @ digits idx @ ''.py'')
         in io_then (fs_op (write_file (cwd e) tmp_src data))
           (io_then (atomic_write e tmp_src dst)
           (io_then (fs_op (unlink_missing_ok (cwd e) tmp_src))
           (io_then (log e INFO (''Replicated -> '' @ path_name dst))
           (io_bind (fs_read (read_file (cwd e) dst)) (\<lambda>b.
            io_then (log e INFO (''src sha256='' @ sha256 e (script e)
                                 @ ''   dst sha256='' @ sha256 e b))
           (io_then (io_when with_payload (\<lambda>st. (Inr (), payload e (replicas c) st)))
                    (io_when (simulate_spread \<and> host_count c > 0)
                       (spread_hosts e c idx data with_payload (host_indices c))))))))))
      else log e ERROR ''Replica destination escaped sandbox; replication aborted.'')"

definition demo :: "env \<Rightarrow> config \<Rightarrow> bool \<Rightarrow> bool \<Rightarrow> bool \<Rightarrow> state \<Rightarrow> outcome \<times> state" where
  "demo e c polymorph simulate_spread with_payload st =
     (if \<not> path_exists (fs st) (cwd e) (sandbox c)
      then (Exit 2, emit e ERROR ''Sandbox not initialized. Run --init first.'' st)
      else if path_exists (fs st) (cwd e) (marker c)
      then (Returned, emit e INFO ''STOP present; replication blocked.'' st)
      else
        (case demo_body e c polymorph simulate_spread with_payload
                (next_index e c (fs st)) st of
           (Inr u, st') \<Rightarrow> (Returned, st')
         | (Inl err, st') \<Rightarrow>
             (Exit 4, emit e ERROR (''Replication failed: '' @ strerror err) st')))"

text \<open>
  \<open>status\<close>. It only prints; an \<open>OSError\<close> from \<open>sha256(c)\<close> (a directory whose name matches
  the pattern) is caught nowhere and ends the process with a traceback.
\<close>

definition io_print :: "string \<Rightarrow> unit io" where
  "io_print line st = (Inr (), print line st)"

definition py_bool :: "bool \<Rightarrow> string" where
  "py_bool b = (if b then ''True'' else ''False'')"

fun print_copies :: "env \<Rightarrow> config \<Rightarrow> string list \<Rightarrow> unit io" where
  "print_copies e c [] = io_ret ()"
| "print_copies e c (n # ns) =
     io_bind (fs_read (read_file (cwd e) (joinp (replicas c) n))) (\<lambda>b.
     io_then (io_print ('' - '' @ n @ ''  sha256='' @ sha256 e b))
             (print_copies e c ns))"

definition host_line :: "env \<Rightarrow> config \<Rightarrow> filesystem \<Rightarrow> string \<Rightarrow> string" where
  "host_line e c f h =
     (let rep = joinp (joinp (hosts_root c) h) (replica_dir c);
          count = (if path_exists f (cwd e) rep
                   then length (glob f (cwd e) rep is_copy_name) else 0)
      in '' - '' @ h @ '': '' @ digits count @ '' replicas'')"

definition status_report :: "env \<Rightarrow> config \<Rightarrow> string list \<Rightarrow> unit io" where
  "status_report e c copies =
     io_then (io_print ''=== STATUS ==='')
    (io_then (io_print (''sandbox: '' @ path_str (resolve (cwd e) (sandbox c))))
    (io_then (\<lambda>st. io_print (''STOP present: ''
                              @ py_bool (path_exists (fs st) (cwd e) (marker c))) st)
    (io_then (io_print (''limit: '' @ py_str (limit c)))
    (io_then (io_print (''replicas: '' @ digits (length copies)))
    (io_then (print_copies e c copies)
             (\<lambda>st. if path_exists (fs st) (cwd e) (hosts_root c)
                   then (Inr (), foldl (\<lambda>s h. print (host_line e c (fs st) h) s)
                                   (print ''hosts:'' st)
                                   (sort (glob (fs st) (cwd e) (hosts_root c) is_host_name)))
                   else (Inr (), st)))))))"

definition status :: "env \<Rightarrow> config \<Rightarrow> state \<Rightarrow> outcome \<times> state" where
  "status e c st =
     (if \<not> path_exists (fs st) (cwd e) (sandbox c)
      then (Returned, print ''Status: sandbox not initialized.'' st)
      else
        (let copies = (if path_exists (fs st) (cwd e) (replicas c)
                       then sort (glob (fs st) (cwd e) (replicas c) is_copy_name) else [])
         in if colorama e
            then (Returned,
                  print (''STOP present: ''
                         @ (if path_exists (fs st) (cwd e) (marker c) then C_OK e else C_ERR e)
                         @ py_bool (path_exists (fs st) (cwd e) (marker c)) @ C_RST e)
                    (print (''sandbox: '' @ path_str (resolve (cwd e) (sandbox c)))
                       (print (C_DIM e @ ''=== STATUS ==='' @ C_RST e) st)))
            else (case status_report e c copies st of
                    (Inr u, st') \<Rightarrow> (Returned, st')
                  | (Inl err, st') \<Rightarrow> (Uncaught (strerror err), st'))))"

text \<open>\<open>cleanup\<close>.\<close>

definition cleanup_body :: "env \<Rightarrow> config \<Rightarrow> unit io" where
  "cleanup_body e c =
     io_then (fs_op (write_file (cwd e) (marker c) ''STOP\<newline>''))
    (io_then (\<lambda>st. io_when (path_exists (fs st) (cwd e) (replicas c))
                     (fs_run (rmtree (cwd e) (replicas c))) st)
    (io_then (\<lambda>st. io_when (path_exists (fs st) (cwd e) (hosts_root c))
                     (io_then (fs_run (rmtree (cwd e) (hosts_root c)))
                              (fs_run (mkdir_p (cwd e) (hosts_root c)))) st)
             (log e INFO ''Cleanup done. STOP restored.'')))"

definition cleanup :: "env \<Rightarrow> config \<Rightarrow> state \<Rightarrow> outcome \<times> state" where
  "cleanup e c st =
     (case cleanup_body e c st of
        (Inr u, st') \<Rightarrow> (Returned, st')
      | (Inl err, st') \<Rightarrow> (Exit 5, emit e ERROR (''Cleanup failed: '' @ strerror err) st'))"

section \<open>\<open>main\<close>\<close>

record args =
  arg_init :: bool
  arg_demo :: bool
  arg_status :: bool
  arg_cleanup :: bool
  arg_polymorph :: bool
  arg_simulate_spread :: bool
  arg_payload :: bool

text \<open>
  \<open>main\<close>: the configuration is validated, the \<open>WormDemo\<close> object is constructed (which
  runs \<open>_attach_file_logger\<close>), and the first flag set among \<open>--init\<close>, \<open>--demo\<close>,
  \<open>--status\<close>, \<open>--cleanup\<close> selects the method.
\<close>

definition main :: "env \<Rightarrow> cfg \<Rightarrow> args \<Rightarrow> state \<Rightarrow> outcome \<times> state" where
  "main e raw a st =
     (case validate_cfg raw of
        Inl msg \<Rightarrow> (Exit 10, emit e ERROR (''Configuration error: '' @ msg) st)
      | Inr u \<Rightarrow>
          (case read_cfg raw of
             None \<Rightarrow> (Uncaught ''TypeError'', st)
           | Some c \<Rightarrow>
               (let st1 = attach_file_logger e c st in
                if arg_init a then init e c st1
                else if arg_demo a
                  then demo e c (arg_polymorph a) (arg_simulate_spread a) (arg_payload a) st1
                else if arg_status a then status e c st1
                else if arg_cleanup a then cleanup e c st1
                else (Returned,
                      print ''Example: python replicant_v1.2.py --demo --polymorph --simulate-spread --payload''
                        (print ''Available flags: --init --demo --status --cleanup --polymorph --simulate-spread --payload''
                           st1)))))"

text \<open>A process starts with no file handler and nothing printed.\<close>

definition start :: "filesystem \<Rightarrow> state" where
  "start f = \<lparr>fs = f, handler = None, out = []\<rparr>"

section \<open>The previous revision: \<open>cmd_demo\<close> of \<open>legacy/replicant_v1.1.py\<close>\<close>

text \<open>\<open>add_file_logger\<close> of revision 1.1 makes no directory.\<close>

definition add_file_logger_v11 :: "env \<Rightarrow> config \<Rightarrow> state \<Rightarrow> state" where
  "add_file_logger_v11 e c st =
     (let logfile_path = joinp (sandbox c) (logfile c) in
      case open_append (cwd e) logfile_path (fs st) of
        Inl err \<Rightarrow> emit e WARNING (''Could not attach file logger: '' @ strerror err) st
      | Inr (q, f2) \<Rightarrow>
          emit e INFO (''Log file: '' @ path_str logfile_path) (st\<lparr>fs := f2, handler := Some q\<rparr>))"

text \<open>\<open>atomic_copy(src, dst)\<close> with \<open>src\<close> the running script.\<close>

definition atomic_copy_v11 :: "env \<Rightarrow> ppath \<Rightarrow> unit io" where
  "atomic_copy_v11 e dst =
     io_then (fs_run (mkdir_p (cwd e) (parent dst)))
    (io_bind (fs_run (mkstemp (cwd e) (parent dst) (tmp_names e))) (\<lambda>tmp.
     io_then (fs_op (write_file (cwd e) tmp (script e)))
             (fs_op (os_replace (cwd e) tmp dst))))"

definition cmd_demo_v11 :: "env \<Rightarrow> config \<Rightarrow> state \<Rightarrow> outcome \<times> state" where
  "cmd_demo_v11 e c st =
     (if \<not> path_exists (fs st) (cwd e) (sandbox c)
      then (Exit 2, emit e ERROR ''Sandbox not initialized. Run: w_demo_v2.py --init'' st)
      else
        (let st1 = add_file_logger_v11 e c st in
         if path_exists (fs st1) (cwd e) (marker c)
         then (Returned, emit e INFO ''STOP present; replication blocked.'' st1)
         else
           (case mkdir_p (cwd e) (replicas c) (fs st1) of
              (Inl err, f1) \<Rightarrow> (Uncaught (strerror err), st1\<lparr>fs := f1\<rparr>)
            | (Inr u, f1) \<Rightarrow>
                (let st2 = st1\<lparr>fs := f1\<rparr>;
                     idx = length (glob f1 (cwd e) (replicas c) is_copy_name) + 1
                 in if int idx > int_of (limit c)
                    then (Returned, emit e INFO ''Replication limit reached; no action taken.'' st2)
                    else
                      (let dst = resolve (cwd e) (joinp (replicas c) (replica_name idx)) in
                       if \<not> is_within (cwd e) dst (sandbox c)
                       then (Exit 3, emit e ERROR ''Refusing to write outside sandbox.'' st2)
                       else
                         (case (io_then (atomic_copy_v11 e dst)
                                 (io_then (log e INFO (''Replicated: '' @ script_name e @ '' -> ''
                                                       @ path_str dst))
                                 (io_then (log e INFO (''src sha256='' @ sha256 e (script e)))
                                 (io_bind (fs_read (read_file (cwd e) dst)) (\<lambda>b.
                                    log e INFO (''dst sha256='' @ sha256 e b)))))) st2 of
                            (Inr u, st') \<Rightarrow> (Returned, st')
                          | (Inl err, st') \<Rightarrow>
                              (Exit 4, emit e ERROR (''Copy failed: '' @ strerror err) st')))))))"

section \<open>Example runs: environment, file systems, configurations\<close>

text \<open>
  A concrete environment: the working directory is \<open>/work\<close>, the script is one line long,
  and the digest is the identity (two files have the same digest under it only if they
  have the same bytes).
\<close>

definition example_env :: env where
  "example_env = \<lparr>cwd = [''work''], script = ''main()\<newline>'', script_name = ''replicant_v1.2.py'',
     asctime = ''12:00'', strftime = ''12:00'', token = 12345, tmp_names = [''abc''],
     colorama = False, sha256 = (\<lambda>b. b)\<rparr>"

definition fresh_fs :: filesystem where
  "fresh_fs = [([''work''], Dir)]"

definition no_args :: args where
  "no_args = \<lparr>arg_init = False, arg_demo = False, arg_status = False, arg_cleanup = False,
               arg_polymorph = False, arg_simulate_spread = False, arg_payload = False\<rparr>"

definition init_args :: args where
  "init_args = no_args\<lparr>arg_init := True\<rparr>"

definition demo_args :: args where
  "demo_args = no_args\<lparr>arg_demo := True\<rparr>"

definition status_args :: args where
  "status_args = no_args\<lparr>arg_status := True\<rparr>"

definition polymorph_args :: args where
  "polymorph_args = no_args\<lparr>arg_demo := True, arg_polymorph := True\<rparr>"

definition spread_args :: args where
  "spread_args = no_args\<lparr>arg_demo := True, arg_simulate_spread := True\<rparr>"

definition default_config :: config where
  "default_config = \<lparr>sandbox_name = ''sandbox_w'', replica_dir = ''replicas'',
     hosts_root_name = ''hosts'', host_count = 3, limit = PyInt 3, marker_name = ''STOP'',
     logfile = ''w_demo.log''\<rparr>"

text \<open>The sandbox that \<open>--init\<close> leaves in \<open>/work\<close> under \<open>CFG\<close>, and the same with the
  \<open>STOP\<close> file removed by hand, as the runbook says.\<close>

definition log_after_init :: string where
  "log_after_init = ''12:00 [INFO] Log file: sandbox_w/w_demo.log\<newline>''
                    @ ''12:00 [INFO] Sandbox ready at ./sandbox_w. STOP present.\<newline>''"

definition host_tree :: filesystem where
  "host_tree =
     [([''work'', ''sandbox_w'', ''hosts''], Dir),
      ([''work'', ''sandbox_w'', ''hosts'', ''host_1''], Dir),
      ([''work'', ''sandbox_w'', ''hosts'', ''host_1'', ''replicas''], Dir),
      ([''work'', ''sandbox_w'', ''hosts'', ''host_2''], Dir),
      ([''work'', ''sandbox_w'', ''hosts'', ''host_2'', ''replicas''], Dir),
      ([''work'', ''sandbox_w'', ''hosts'', ''host_3''], Dir),
      ([''work'', ''sandbox_w'', ''hosts'', ''host_3'', ''replicas''], Dir)]"

definition initialised_fs :: filesystem where
  "initialised_fs =
     [([''work''], Dir),
      ([''work'', ''sandbox_w''], Dir),
      ([''work'', ''sandbox_w'', ''w_demo.log''], File log_after_init),
      ([''work'', ''sandbox_w'', ''manifest.json''], File (manifest example_env default_config)),
      ([''work'', ''sandbox_w'', ''STOP''], File (stop_text default_config))] @ host_tree"

definition armed_fs :: filesystem where
  "armed_fs =
     [([''work''], Dir),
      ([''work'', ''sandbox_w''], Dir),
      ([''work'', ''sandbox_w'', ''w_demo.log''], File log_after_init),
      ([''work'', ''sandbox_w'', ''manifest.json''], File (manifest example_env default_config))]
     @ host_tree"

text \<open>Configurations that differ from \<open>CFG\<close> in one or two keys.\<close>

definition escape_cfg :: cfg where
  "escape_cfg = CFG(''sandbox'' \<mapsto> PyStr ''w_copy_2.py'', ''replica_dir'' \<mapsto> PyStr ''..'')"

definition dotdot_hosts_cfg :: cfg where
  "dotdot_hosts_cfg = CFG(''hosts_root'' \<mapsto> PyStr ''..'')"

definition dotdot_replicas_cfg :: cfg where
  "dotdot_replicas_cfg = CFG(''replica_dir'' \<mapsto> PyStr ''..'')"

definition limit1_cfg :: cfg where
  "limit1_cfg = CFG(''limit'' \<mapsto> PyInt 1)"

definition two_hosts_cfg :: cfg where
  "two_hosts_cfg = CFG(''host_count'' \<mapsto> PyInt 2)"

definition empty_name_cfg :: cfg where
  "empty_name_cfg = CFG(''sandbox'' \<mapsto> PyStr [])"

text \<open>The armed sandbox after one replication without options.\<close>

definition one_replica_fs :: filesystem where
  "one_replica_fs =
     [([''work''], Dir),
      ([''work'', ''sandbox_w''], Dir),
      ([''work'', ''sandbox_w'', ''w_demo.log''],
       File (log_after_init
             @ ''12:00 [INFO] Log file: sandbox_w/w_demo.log\<newline>''
             @ ''12:00 [INFO] Replicated -> w_copy_1.py\<newline>''
             @ ''12:00 [INFO] src sha256=main()\<newline>   dst sha256=main()\<newline>\<newline>'')),
      ([''work'', ''sandbox_w'', ''manifest.json''], File (manifest example_env default_config))]
     @ host_tree @
     [([''work'', ''sandbox_w'', ''replicas''], Dir),
      ([''work'', ''sandbox_w'', ''replicas'', ''w_copy_1.py''], File ''main()\<newline>'')]"

text \<open>The armed sandbox after one replication with \<open>--polymorph\<close>, the draw being 12345.\<close>

definition one_polymorph_fs :: filesystem where
  "one_polymorph_fs =
     [([''work''], Dir),
      ([''work'', ''sandbox_w''], Dir),
      ([''work'', ''sandbox_w'', ''w_demo.log''],
       File (log_after_init
             @ ''12:00 [INFO] Log file: sandbox_w/w_demo.log\<newline>''
             @ ''12:00 [INFO] Replicated -> w_copy_1.py\<newline>''
             @ ''12:00 [INFO] src sha256=main()\<newline>   dst sha256=''
             @ make_polymorph 12345 ''main()\<newline>'' @ ''\<newline>'')),
      ([''work'', ''sandbox_w'', ''manifest.json''], File (manifest example_env default_config))]
     @ host_tree @
     [([''work'', ''sandbox_w'', ''replicas''], Dir),
      ([''work'', ''sandbox_w'', ''replicas'', ''w_copy_1.py''],
       File (make_polymorph 12345 ''main()\<newline>''))]"

text \<open>An armed sandbox with two hosts in which \<open>hosts/host_1\<close> is a regular file.\<close>

definition blocked_host_fs :: filesystem where
  "blocked_host_fs =
     [([''work''], Dir),
      ([''work'', ''sandbox_w''], Dir),
      ([''work'', ''sandbox_w'', ''hosts''], Dir),
      ([''work'', ''sandbox_w'', ''hosts'', ''host_1''], File ''x''),
      ([''work'', ''sandbox_w'', ''hosts'', ''host_2''], Dir),
      ([''work'', ''sandbox_w'', ''hosts'', ''host_2'', ''replicas''], Dir)]"

text \<open>A process whose handler is attached, in the sandbox as \<open>--init\<close> left it.\<close>

definition stopped_state :: state where
  "stopped_state = \<lparr>fs = initialised_fs, handler = Some [''work'', ''sandbox_w'', ''w_demo.log''],
                     out = []\<rparr>"


text \<open>A process whose handler is attached, in the armed sandbox, and the state that one
  call of \<open>demo\<close> with \<open>simulate_spread\<close> leaves.\<close>

definition armed_state :: state where
  "armed_state = \<lparr>fs = armed_fs, handler = Some [''work'', ''sandbox_w'', ''w_demo.log''],
                   out = []\<rparr>"

definition after_spread :: state where
  "after_spread =
     \<lparr>fs = [([''work''], Dir),
            ([''work'', ''sandbox_w''], Dir),
            ([''work'', ''sandbox_w'', ''w_demo.log''],
             File (log_after_init
                   @ ''12:00 [INFO] Replicated -> w_copy_1.py\<newline>''
                   @ ''12:00 [INFO] src sha256=main()\<newline>   dst sha256=main()\<newline>\<newline>''
                   @ ''12:00 [INFO] (simulated) spread -> host_1/replicas/w_copy_1.py\<newline>''
                   @ ''12:00 [INFO] (simulated) spread -> host_2/replicas/w_copy_1.py\<newline>''
                   @ ''12:00 [INFO] (simulated) spread -> host_3/replicas/w_copy_1.py\<newline>'')),
            ([''work'', ''sandbox_w'', ''manifest.json''],
             File (manifest example_env default_config))]
           @ host_tree @
            [([''work'', ''sandbox_w'', ''replicas''], Dir),
             ([''work'', ''sandbox_w'', ''replicas'', ''w_copy_1.py''], File ''main()\<newline>''),
             ([''work'', ''sandbox_w'', ''hosts'', ''host_1'', ''replicas'', ''w_copy_1.py''],
              File ''main()\<newline>''),
             ([''work'', ''sandbox_w'', ''hosts'', ''host_2'', ''replicas'', ''w_copy_1.py''],
              File ''main()\<newline>''),
             ([''work'', ''sandbox_w'', ''hosts'', ''host_3'', ''replicas'', ''w_copy_1.py''],
              File ''main()\<newline>'')],
      handler = Some [''work'', ''sandbox_w'', ''w_demo.log''],
      out = [''[INFO] Replicated -> w_copy_1.py'',
             ''[INFO] src sha256=main()\<newline>   dst sha256=main()\<newline>'',
             ''[INFO] (simulated) spread -> host_1/replicas/w_copy_1.py'',
             ''[INFO] (simulated) spread -> host_2/replicas/w_copy_1.py'',
             ''[INFO] (simulated) spread -> host_3/replicas/w_copy_1.py'']\<rparr>"

text \<open>A working directory in which the constructor cannot make the sandbox: its path
  holds a regular file, so that \<open>mkdir\<close> raises.\<close>

definition blocked_cwd_fs :: filesystem where
  "blocked_cwd_fs = [([''work''], File ''x'')]"

text \<open>The sandbox with the blocked host as the constructor leaves it, after the primary
  replica has been written, and at the moment the round of \<open>host_1\<close> raises.\<close>

definition blocked_attached :: state where
  "blocked_attached =
     \<lparr>fs = blocked_host_fs @
            [([''work'', ''sandbox_w'', ''w_demo.log''],
              File ''12:00 [INFO] Log file: sandbox_w/w_demo.log\<newline>'')],
      handler = Some [''work'', ''sandbox_w'', ''w_demo.log''],
      out = [''[INFO] Log file: sandbox_w/w_demo.log'']\<rparr>"

definition primary_done :: state where
  "primary_done =
     \<lparr>fs = blocked_host_fs @
            [([''work'', ''sandbox_w'', ''w_demo.log''],
              File (''12:00 [INFO] Log file: sandbox_w/w_demo.log\<newline>''
                    @ ''12:00 [INFO] Replicated -> w_copy_1.py\<newline>''
                    @ ''12:00 [INFO] src sha256=main()\<newline>   dst sha256=main()\<newline>\<newline>'')),
             ([''work'', ''sandbox_w'', ''replicas''], Dir),
             ([''work'', ''sandbox_w'', ''replicas'', ''w_copy_1.py''], File ''main()\<newline>'')],
      handler = Some [''work'', ''sandbox_w'', ''w_demo.log''],
      out = [''[INFO] Log file: sandbox_w/w_demo.log'',
             ''[INFO] Replicated -> w_copy_1.py'',
             ''[INFO] src sha256=main()\<newline>   dst sha256=main()\<newline>'']\<rparr>"

definition host_1_failed :: state where
  "host_1_failed =
     \<lparr>fs = blocked_host_fs @
            [([''work'', ''sandbox_w'', ''w_demo.log''],
              File (''12:00 [INFO] Log file: sandbox_w/w_demo.log\<newline>''
                    @ ''12:00 [INFO] Replicated -> w_copy_1.py\<newline>''
                    @ ''12:00 [INFO] src sha256=main()\<newline>   dst sha256=main()\<newline>\<newline>'')),
             ([''work'', ''sandbox_w'', ''replicas''], Dir),
             ([''work'', ''sandbox_w'', ''replicas'', ''w_copy_1.py''], File ''main()\<newline>''),
             ([''work'', ''sandbox_w'', ''.tmp_host_1_1.py''], File ''main()\<newline>'')],
      handler = Some [''work'', ''sandbox_w'', ''w_demo.log''],
      out = [''[INFO] Log file: sandbox_w/w_demo.log'',
             ''[INFO] Replicated -> w_copy_1.py'',
             ''[INFO] src sha256=main()\<newline>   dst sha256=main()\<newline>'']\<rparr>"

section \<open>Relations between file systems\<close>

text \<open>Every directory of the first file system is a directory of the second.\<close>

definition dirs_kept :: "filesystem \<Rightarrow> filesystem \<Rightarrow> bool" where
  "dirs_kept f f' = (\<forall>p. node_at f p = Some Dir \<longrightarrow> node_at f' p = Some Dir)"

text \<open>Every node of the first file system is in the second, unchanged.\<close>

definition extends :: "filesystem \<Rightarrow> filesystem \<Rightarrow> bool" where
  "extends f f' = (\<forall>q n. node_at f q = Some n \<longrightarrow> node_at f' q = Some n)"

text \<open>The second file system is the first with some directories added.\<close>

definition only_adds_dirs :: "filesystem \<Rightarrow> filesystem \<Rightarrow> bool" where
  "only_adds_dirs f f' =
     (\<forall>q. node_at f' q = node_at f q \<or> (node_at f q = None \<and> node_at f' q = Some Dir))"

text \<open>Directories stay, and so does every file named \<open>rn\<close> that holds \<open>data\<close>.\<close>

definition keeps :: "string \<Rightarrow> string \<Rightarrow> filesystem \<Rightarrow> filesystem \<Rightarrow> bool" where
  "keeps rn data f f' =
     (dirs_kept f f' \<and>
      (\<forall>p. p \<noteq> [] \<and> last p = rn \<and> node_at f p = Some (File data)
           \<longrightarrow> node_at f' p = Some (File data)))"

text \<open>The attached log file, if any, is not named \<open>rn\<close>.\<close>

definition log_apart :: "string \<Rightarrow> state \<Rightarrow> bool" where
  "log_apart rn st = (\<forall>l. handler st = Some l \<longrightarrow> l = [] \<or> last l \<noteq> rn)"

text \<open>The \<open>baseFilename\<close> of the handler that \<open>_attach_file_logger\<close> opens.\<close>

definition log_path :: "env \<Rightarrow> config \<Rightarrow> string list" where
  "log_path e c = parts (resolve (cwd e) (joinp (sandbox c) (logfile c)))"

section \<open>Evaluation of concrete runs\<close>

lemma digits_small: "n < 10 \<Longrightarrow> digits n = [''0123456789'' ! n]"
  by (subst digits.simps) simp

lemma digits_large:
  "\<not> n < 10 \<Longrightarrow> digits n = digits (n div 10) @ [''0123456789'' ! (n mod 10)]"
  by (subst digits.simps) simp

lemmas cfg_eval = CFG_def validate_cfg_def cfg_get_def check_name_def name_keys_def
  RESERVED_NAMES_def separators_def read_cfg_def quoted_key_def validate_config_v11_def
  check_name_v11_def

lemmas path_eval = Path_def joinp_def parent_def path_name_def path_str_def normalize_def
  resolve_def is_within_def sandbox_def replicas_def marker_def hosts_root_def host_dir_def
  replica_name_def

lemmas fs_eval = node_at_def step_def locate_def path_exists_def is_dir_def os_mkdir_def
  mkdir_exist_ok_def mkdir_p.simps write_file_def read_file_def unlink_missing_ok_def
  os_replace_def listdir_def is_copy_name_def is_host_name_def glob_def open_append_def
  append_file_def

lemmas io_eval = io_ret_def io_bind_def io_then_def fs_op_def fs_run_def fs_read_def log_def
  io_when_def emit_def print_def level_name_def strerror_def Let_def digits_small
  digits_large str_int_def upto_rec1

lemmas worm_eval = attach_file_logger_def not_attached_def demo_def demo_body_def
  atomic_write_def next_index_def replica_data_def make_polymorph_def payload_def
  payload_text_def spread_host_def host_indices_def start_def init_def init_body_def
  C_OK_def C_RST_def

lemmas example_eval = example_env_def fresh_fs_def default_config_def no_args_def
  init_args_def demo_args_def status_args_def polymorph_args_def spread_args_def
  log_after_init_def host_tree_def initialised_fs_def armed_fs_def one_replica_fs_def
  one_polymorph_fs_def blocked_host_fs_def

lemmas run_eval = path_eval fs_eval io_eval worm_eval example_eval

text \<open>Once the configuration has passed \<open>validate_cfg\<close>, \<open>main\<close> is the constructor followed
  by the selected method.\<close>

lemma main_valid:
  "validate_cfg raw = Inr () \<Longrightarrow> read_cfg raw = Some c \<Longrightarrow>
   main e raw a st =
     (if arg_init a then init e c (attach_file_logger e c st)
      else if arg_demo a
        then demo e c (arg_polymorph a) (arg_simulate_spread a) (arg_payload a)
               (attach_file_logger e c st)
      else if arg_status a then status e c (attach_file_logger e c st)
      else if arg_cleanup a then cleanup e c (attach_file_logger e c st)
      else (Returned,
            print ''Example: python replicant_v1.2.py --demo --polymorph --simulate-spread --payload''
              (print ''Available flags: --init --demo --status --cleanup --polymorph --simulate-spread --payload''
                 (attach_file_logger e c st))))"
  by (simp add: main_def Let_def)

lemma CFG_valid: "validate_cfg CFG = Inr ()" "read_cfg CFG = Some default_config"
  by (simp_all add: cfg_eval default_config_def)

lemma escape_cfg_valid:
  "validate_cfg escape_cfg = Inr ()"
  "read_cfg escape_cfg = Some (default_config\<lparr>sandbox_name := ''w_copy_2.py'', replica_dir := ''..''\<rparr>)"
  by (simp_all add: cfg_eval default_config_def escape_cfg_def)

lemma dotdot_replicas_cfg_valid:
  "validate_cfg dotdot_replicas_cfg = Inr ()"
  "read_cfg dotdot_replicas_cfg = Some (default_config\<lparr>replica_dir := ''..''\<rparr>)"
  by (simp_all add: cfg_eval default_config_def dotdot_replicas_cfg_def)

lemma dotdot_hosts_cfg_valid:
  "validate_cfg dotdot_hosts_cfg = Inr ()"
  "read_cfg dotdot_hosts_cfg = Some (default_config\<lparr>hosts_root_name := ''..''\<rparr>)"
  by (simp_all add: cfg_eval default_config_def dotdot_hosts_cfg_def)

lemma limit1_cfg_valid:
  "validate_cfg limit1_cfg = Inr ()"
  "read_cfg limit1_cfg = Some (default_config\<lparr>limit := PyInt 1\<rparr>)"
  by (simp_all add: cfg_eval default_config_def limit1_cfg_def)

lemma two_hosts_cfg_valid:
  "validate_cfg two_hosts_cfg = Inr ()"
  "read_cfg two_hosts_cfg = Some (default_config\<lparr>host_count := 2\<rparr>)"
  by (simp_all add: cfg_eval default_config_def two_hosts_cfg_def)

text \<open>\<open>--init\<close> in an empty working directory gives \<open>initialised_fs\<close>; removing \<open>STOP\<close> from
  it gives \<open>armed_fs\<close>.\<close>

lemma init_fresh:
  "main example_env CFG init_args (start fresh_fs) =
     (Returned, \<lparr>fs = initialised_fs, handler = Some [''work'', ''sandbox_w'', ''w_demo.log''],
                 out = [''[INFO] Log file: sandbox_w/w_demo.log'',
                        ''[INFO] Sandbox ready at ./sandbox_w. STOP present.'']\<rparr>)"
  unfolding main_valid [OF CFG_valid] by (simp add: run_eval stop_text_def)

lemma armed_fs_reached:
  "AList.delete [''work'', ''sandbox_w'', ''STOP''] initialised_fs = armed_fs"
  by (simp add: example_eval)

section \<open>Runs of the program on concrete inputs\<close>

lemma first_demo_on_armed:
  "main example_env limit1_cfg demo_args (start armed_fs) =
     (Returned, \<lparr>fs = one_replica_fs, handler = Some [''work'', ''sandbox_w'', ''w_demo.log''],
                 out = [''[INFO] Log file: sandbox_w/w_demo.log'',
                        ''[INFO] Replicated -> w_copy_1.py'',
                        ''[INFO] src sha256=main()\<newline>   dst sha256=main()\<newline>'']\<rparr>)"
  unfolding main_valid [OF limit1_cfg_valid] by (simp add: run_eval)

lemma second_demo_beyond_limit:
  "main example_env limit1_cfg demo_args (start one_replica_fs) =
     (Returned,
      \<lparr>fs = [([''work''], Dir),
              ([''work'', ''sandbox_w''], Dir),
              ([''work'', ''sandbox_w'', ''w_demo.log''],
               File (log_after_init
                     @ ''12:00 [INFO] Log file: sandbox_w/w_demo.log\<newline>''
                     @ ''12:00 [INFO] Replicated -> w_copy_1.py\<newline>''
                     @ ''12:00 [INFO] src sha256=main()\<newline>   dst sha256=main()\<newline>\<newline>''
                     @ ''12:00 [INFO] Log file: sandbox_w/w_demo.log\<newline>''
                     @ ''12:00 [INFO] Replicated -> w_copy_2.py\<newline>''
                     @ ''12:00 [INFO] src sha256=main()\<newline>   dst sha256=main()\<newline>\<newline>'')),
              ([''work'', ''sandbox_w'', ''manifest.json''],
               File (manifest example_env default_config))]
             @ host_tree @
             [([''work'', ''sandbox_w'', ''replicas''], Dir),
              ([''work'', ''sandbox_w'', ''replicas'', ''w_copy_1.py''], File ''main()\<newline>''),
              ([''work'', ''sandbox_w'', ''replicas'', ''w_copy_2.py''], File ''main()\<newline>'')],
        handler = Some [''work'', ''sandbox_w'', ''w_demo.log''],
        out = [''[INFO] Log file: sandbox_w/w_demo.log'',
               ''[INFO] Replicated -> w_copy_2.py'',
               ''[INFO] src sha256=main()\<newline>   dst sha256=main()\<newline>'']\<rparr>)"
  unfolding main_valid [OF limit1_cfg_valid] by (simp add: run_eval)

lemma cmd_demo_v11_limit_reached:
  "cmd_demo_v11 example_env (default_config\<lparr>limit := PyInt 1\<rparr>) (start one_replica_fs) =
     (Returned,
      \<lparr>fs = [([''work''], Dir),
              ([''work'', ''sandbox_w''], Dir),
              ([''work'', ''sandbox_w'', ''w_demo.log''],
               File (log_after_init
                     @ ''12:00 [INFO] Log file: sandbox_w/w_demo.log\<newline>''
                     @ ''12:00 [INFO] Replicated -> w_copy_1.py\<newline>''
                     @ ''12:00 [INFO] src sha256=main()\<newline>   dst sha256=main()\<newline>\<newline>''
                     @ ''12:00 [INFO] Log file: sandbox_w/w_demo.log\<newline>''
                     @ ''12:00 [INFO] Replication limit reached; no action taken.\<newline>'')),
              ([''work'', ''sandbox_w'', ''manifest.json''],
               File (manifest example_env default_config))]
             @ host_tree @
             [([''work'', ''sandbox_w'', ''replicas''], Dir),
              ([''work'', ''sandbox_w'', ''replicas'', ''w_copy_1.py''], File ''main()\<newline>'')],
        handler = Some [''work'', ''sandbox_w'', ''w_demo.log''],
        out = [''[INFO] Log file: sandbox_w/w_demo.log'',
               ''[INFO] Replication limit reached; no action taken.'']\<rparr>)"
  by (simp add: run_eval cmd_demo_v11_def add_file_logger_v11_def)

lemma cmd_demo_v11_not_initialised:
  "cmd_demo_v11 example_env default_config (start fresh_fs) =
     (Exit 2, \<lparr>fs = fresh_fs, handler = None,
               out = [''[ERROR] Sandbox not initialized. Run: w_demo_v2.py --init'']\<rparr>)"
  by (simp add: run_eval cmd_demo_v11_def)

lemma cmd_demo_v11_refuses_escape:
  "cmd_demo_v11 example_env (default_config\<lparr>replica_dir := ''..''\<rparr>) (start armed_fs) =
     (Exit 3,
      \<lparr>fs = [([''work''], Dir),
              ([''work'', ''sandbox_w''], Dir),
              ([''work'', ''sandbox_w'', ''w_demo.log''],
               File (log_after_init
                     @ ''12:00 [INFO] Log file: sandbox_w/w_demo.log\<newline>''
                     @ ''12:00 [ERROR] Refusing to write outside sandbox.\<newline>'')),
              ([''work'', ''sandbox_w'', ''manifest.json''],
               File (manifest example_env default_config))]
             @ host_tree,
        handler = Some [''work'', ''sandbox_w'', ''w_demo.log''],
        out = [''[INFO] Log file: sandbox_w/w_demo.log'',
               ''[ERROR] Refusing to write outside sandbox.'']\<rparr>)"
  by (simp add: run_eval cmd_demo_v11_def add_file_logger_v11_def)

lemma first_polymorph_on_armed:
  "main example_env CFG polymorph_args (start armed_fs) =
     (Returned, \<lparr>fs = one_polymorph_fs, handler = Some [''work'', ''sandbox_w'', ''w_demo.log''],
                 out = [''[INFO] Log file: sandbox_w/w_demo.log'',
                        ''[INFO] Replicated -> w_copy_1.py'',
                        ''[INFO] src sha256=main()\<newline>   dst sha256=''
                        @ make_polymorph 12345 ''main()\<newline>'']\<rparr>)"
  unfolding main_valid [OF CFG_valid] by (simp add: run_eval)

lemma second_polymorph_same_token:
  "main example_env CFG polymorph_args (start one_polymorph_fs) =
     (Returned,
      \<lparr>fs = [([''work''], Dir),
              ([''work'', ''sandbox_w''], Dir),
              ([''work'', ''sandbox_w'', ''w_demo.log''],
               File (log_after_init
                     @ ''12:00 [INFO] Log file: sandbox_w/w_demo.log\<newline>''
                     @ ''12:00 [INFO] Replicated -> w_copy_1.py\<newline>''
                     @ ''12:00 [INFO] src sha256=main()\<newline>   dst sha256=''
                     @ make_polymorph 12345 ''main()\<newline>'' @ ''\<newline>''
                     @ ''12:00 [INFO] Log file: sandbox_w/w_demo.log\<newline>''
                     @ ''12:00 [INFO] Replicated -> w_copy_2.py\<newline>''
                     @ ''12:00 [INFO] src sha256=main()\<newline>   dst sha256=''
                     @ make_polymorph 12345 ''main()\<newline>'' @ ''\<newline>'')),
              ([''work'', ''sandbox_w'', ''manifest.json''],
               File (manifest example_env default_config))]
             @ host_tree @
             [([''work'', ''sandbox_w'', ''replicas''], Dir),
              ([''work'', ''sandbox_w'', ''replicas'', ''w_copy_1.py''],
               File (make_polymorph 12345 ''main()\<newline>'')),
              ([''work'', ''sandbox_w'', ''replicas'', ''w_copy_2.py''],
               File (make_polymorph 12345 ''main()\<newline>''))],
        handler = Some [''work'', ''sandbox_w'', ''w_demo.log''],
        out = [''[INFO] Log file: sandbox_w/w_demo.log'',
               ''[INFO] Replicated -> w_copy_2.py'',
               ''[INFO] src sha256=main()\<newline>   dst sha256=''
               @ make_polymorph 12345 ''main()\<newline>'']\<rparr>)"
  unfolding main_valid [OF CFG_valid] by (simp add: run_eval)

section \<open>What the file-system operations change\<close>

lemma node_at_update:
  "node_at (AList.update q n f) p =
     (if p = [] then Some Dir else if p = q then Some n else node_at f p)"
  by (simp add: node_at_def update_conv')

lemma node_at_delete:
  "node_at (AList.delete q f) p =
     (if p = [] then Some Dir else if p = q then None else node_at f p)"
  by (simp add: node_at_def delete_conv')

lemma node_at_root [simp]: "node_at f [] = Some Dir"
  by (simp add: node_at_def)

text \<open>A lookup without \<open>..\<close> ends at the path it spells.\<close>

lemma walk_plain:
  "''..'' \<notin> set ps \<Longrightarrow> walk f cur ps = Inr q \<Longrightarrow> q = cur @ ps"
proof (induction ps arbitrary: cur)
  case Nil
  then show ?case by simp
next
  case (Cons c cs)
  from Cons.prems have c: "c \<noteq> ''..''" and cs: "''..'' \<notin> set cs" by auto
  from Cons.prems(2) have "walk f (step cur c) cs = Inr q"
    by (auto split: option.splits node.splits)
  with Cons.IH [OF cs] have "q = step cur c @ cs" by blast
  with c show ?case by (simp add: step_def)
qed

lemma walk_last:
  "n \<noteq> ''..'' \<Longrightarrow> walk f cur (ps @ [n]) = Inr q \<Longrightarrow> q \<noteq> [] \<and> last q = n"
proof (induction ps arbitrary: cur)
  case Nil
  then show ?case
    by (auto simp: step_def split: option.splits node.splits)
next
  case (Cons c cs)
  then show ?case
    by (auto split: option.splits node.splits)
qed

text \<open>A lookup that succeeds keeps succeeding, with the same result, as long as every
  directory stays a directory.\<close>

lemma walk_dirs_kept:
  "dirs_kept f f' \<Longrightarrow> walk f cur ps = Inr q \<Longrightarrow> walk f' cur ps = Inr q"
proof (induction ps arbitrary: cur)
  case Nil
  then show ?case by simp
next
  case (Cons c cs)
  from Cons.prems(2) have d: "node_at f cur = Some Dir"
    by (auto split: option.splits node.splits)
  with Cons.prems(1) have d': "node_at f' cur = Some Dir"
    by (simp add: dirs_kept_def)
  from Cons.prems(2) d have "walk f (step cur c) cs = Inr q" by simp
  with Cons.IH [OF Cons.prems(1)] have "walk f' (step cur c) cs = Inr q" by blast
  with d' show ?case by simp
qed

lemma normalize_snoc:
  "normalize (ps @ [n]) = (if n = ''..'' then butlast (normalize ps) else normalize ps @ [n])"
  by (simp add: normalize_def)

lemma normalize_plain: "''..'' \<notin> set (normalize ps)"
proof (induction ps rule: rev_induct)
  case Nil
  then show ?case by (simp add: normalize_def)
next
  case (snoc x xs)
  then show ?case
    by (auto simp: normalize_snoc dest: in_set_butlastD)
qed

lemma locate_resolved:
  "locate f wd (resolve wd p) = Inr q \<Longrightarrow> q = parts (resolve wd p)"
  using walk_plain [of "parts (resolve wd p)" f "[]" q] normalize_plain
  by (simp add: locate_def resolve_def)

subsection \<open>Logging\<close>

lemma emit_handler [simp]: "handler (emit e l msg st) = handler st"
  by (simp add: emit_def)

lemma emit_out:
  "out (emit e l msg st) = out st @ [''['' @ level_name l @ ''] '' @ msg]"
  by (simp add: emit_def)

lemma append_file_other: "p \<noteq> q \<Longrightarrow> node_at (append_file q txt f) p = node_at f p"
  by (auto simp: append_file_def node_at_update split: option.splits node.splits)

lemma emit_node_other:
  "handler st \<noteq> Some q \<Longrightarrow> node_at (fs (emit e l msg st)) q = node_at (fs st) q"
  by (cases "handler st") (auto simp: emit_def append_file_other)

lemma emit_no_handler: "handler st = None \<Longrightarrow> fs (emit e l msg st) = fs st"
  by (simp add: emit_def)

subsection \<open>Relations between file systems\<close>

lemma dirs_kept_refl [simp]: "dirs_kept f f"
  by (simp add: dirs_kept_def)

lemma dirs_kept_trans: "dirs_kept f g \<Longrightarrow> dirs_kept g h \<Longrightarrow> dirs_kept f h"
  by (simp add: dirs_kept_def)

lemma extends_refl [simp]: "extends f f"
  by (simp add: extends_def)

lemma extends_trans: "extends f g \<Longrightarrow> extends g h \<Longrightarrow> extends f h"
  by (simp add: extends_def)

lemma extends_dirs_kept: "extends f f' \<Longrightarrow> dirs_kept f f'"
  by (simp add: extends_def dirs_kept_def)

lemma only_adds_dirs_refl [simp]: "only_adds_dirs f f"
  by (simp add: only_adds_dirs_def)

lemma only_adds_dirs_trans:
  assumes "only_adds_dirs f g" and "only_adds_dirs g h"
  shows "only_adds_dirs f h"
  unfolding only_adds_dirs_def
proof
  fix q
  from assms(1) have a: "node_at g q = node_at f q \<or> (node_at f q = None \<and> node_at g q = Some Dir)"
    by (simp add: only_adds_dirs_def)
  from assms(2) have b: "node_at h q = node_at g q \<or> (node_at g q = None \<and> node_at h q = Some Dir)"
    by (simp add: only_adds_dirs_def)
  from a b show "node_at h q = node_at f q \<or> (node_at f q = None \<and> node_at h q = Some Dir)"
    by auto
qed

lemma only_adds_dirs_extends: "only_adds_dirs f f' \<Longrightarrow> extends f f'"
  unfolding only_adds_dirs_def extends_def
  by (metis option.distinct(1))

lemma keeps_refl [simp]: "keeps rn data f f"
  by (simp add: keeps_def)

lemma keeps_trans: "keeps rn data f g \<Longrightarrow> keeps rn data g h \<Longrightarrow> keeps rn data f h"
  unfolding keeps_def by (blast intro: dirs_kept_trans)

lemma extends_keeps: "extends f f' \<Longrightarrow> keeps rn data f f'"
  by (simp add: keeps_def extends_def dirs_kept_def)

text \<open>Writing a file at a place that is not a directory, and removing a file.\<close>

lemma update_file_dirs_kept:
  "node_at f q \<noteq> Some Dir \<Longrightarrow> dirs_kept f (AList.update q (File d) f)"
  by (auto simp: dirs_kept_def node_at_update)

lemma update_file_keeps:
  "node_at f q \<noteq> Some Dir \<Longrightarrow> (last q = rn \<longrightarrow> d = data)
   \<Longrightarrow> keeps rn data f (AList.update q (File d) f)"
  by (auto simp: keeps_def dirs_kept_def node_at_update)

lemma update_fresh_extends:
  "node_at f q = None \<Longrightarrow> extends f (AList.update q n f)"
  by (auto simp: extends_def node_at_update)

lemma delete_file_keeps:
  "node_at f q = Some (File b) \<Longrightarrow> last q \<noteq> rn \<Longrightarrow> keeps rn data f (AList.delete q f)"
  by (auto simp: keeps_def dirs_kept_def node_at_delete)

subsection \<open>Directories\<close>

lemma os_mkdir_adds: "os_mkdir wd p f = Inr f' \<Longrightarrow> only_adds_dirs f f'"
  by (auto simp: os_mkdir_def only_adds_dirs_def node_at_update split: sum.splits if_splits)

lemma mkdir_exist_ok_adds: "mkdir_exist_ok wd p f = (r, f') \<Longrightarrow> only_adds_dirs f f'"
  by (auto simp: mkdir_exist_ok_def split: sum.splits oserror.splits if_splits
           dest: os_mkdir_adds)

lemma mkdir_p_adds: "mkdir_p wd p f = (r, f') \<Longrightarrow> only_adds_dirs f f'"
proof (induction wd p f arbitrary: r f' rule: mkdir_p.induct)
  case (1 wd p f)
  show ?case
  proof (cases "os_mkdir wd p f")
    case (Inr x)
    with "1.prems" have "f' = x" by (simp add: mkdir_p.simps [of wd p f])
    with Inr show ?thesis by (simp add: os_mkdir_adds)
  next
    case (Inl a)
    show ?thesis
    proof (cases "a = ENOENT \<and> parts p \<noteq> []")
      case True
      obtain r1 f1 where rec: "mkdir_p wd (parent p) f = (r1, f1)"
        by (cases "mkdir_p wd (parent p) f") blast
      from "1.IH" [OF Inl _ _ rec] True have a1: "only_adds_dirs f f1" by simp
      show ?thesis
      proof (cases r1)
        case (Inl e)
        with "1.prems" \<open>os_mkdir wd p f = Inl a\<close> True rec have "f' = f1"
          by (simp add: mkdir_p.simps [of wd p f])
        with a1 show ?thesis by simp
      next
        case (Inr u)
        with "1.prems" \<open>os_mkdir wd p f = Inl a\<close> True rec
        have "mkdir_exist_ok wd p f1 = (r, f')"
          by (simp add: mkdir_p.simps [of wd p f])
        then have "only_adds_dirs f1 f'" by (rule mkdir_exist_ok_adds)
        with a1 show ?thesis by (rule only_adds_dirs_trans)
      qed
    next
      case False
      with "1.prems" Inl have "f' = f"
        by (auto simp: mkdir_p.simps [of wd p f] split: oserror.splits if_splits)
      then show ?thesis by simp
    qed
  qed
qed

subsection \<open>The constructor and \<open>status\<close>\<close>

lemma open_append_result:
  assumes "open_append wd p f = Inr (q, f')"
  shows "q = parts (resolve wd p)"
    and "\<forall>x. x \<noteq> q \<longrightarrow> node_at f' x = node_at f x"
    and "node_at f q = None \<longrightarrow> node_at f' q = Some (File [])"
    and "node_at f q \<noteq> None \<longrightarrow> f' = f"
    and "node_at f q \<noteq> Some Dir"
proof -
  from assms obtain q0 where loc: "locate f wd (resolve wd p) = Inr q0"
    by (auto simp: open_append_def split: sum.splits)
  then have q0: "q0 = parts (resolve wd p)" by (rule locate_resolved)
  from assms loc have eq: "q = q0"
    by (auto simp: open_append_def split: option.splits node.splits)
  with q0 show "q = parts (resolve wd p)" by simp
  from assms loc eq show "\<forall>x. x \<noteq> q \<longrightarrow> node_at f' x = node_at f x"
    by (auto simp: open_append_def node_at_update split: option.splits node.splits)
  from assms loc eq show "node_at f q = None \<longrightarrow> node_at f' q = Some (File [])"
    by (auto simp: open_append_def node_at_update split: option.splits node.splits)
  from assms loc eq show "node_at f q \<noteq> None \<longrightarrow> f' = f"
    by (auto simp: open_append_def split: option.splits node.splits)
  from assms loc eq show "node_at f q \<noteq> Some Dir"
    by (auto simp: open_append_def split: option.splits node.splits)
qed

lemma not_attached_no_handler:
  "handler st = None \<Longrightarrow> fs (not_attached e err st) = fs st"
  by (simp add: not_attached_def emit_no_handler)

lemma emit_at_handler:
  "handler st = Some q \<Longrightarrow>
   node_at (fs (emit e l msg st)) q =
     (case node_at (fs st) q of
        Some (File b) \<Rightarrow> Some (File (b @ asctime e @ '' ['' @ level_name l @ ''] '' @ msg @ ''\<newline>''))
      | x \<Rightarrow> x)"
  by (auto simp: emit_def append_file_def node_at_update split: option.splits node.splits)

text \<open>
  What the constructor does to the file system of a fresh process: directories may
  appear, the log file may appear or grow, and nothing else changes.
\<close>

lemma attach_file_logger_frame:
  assumes "handler st = None"
  shows "(\<forall>q n. q \<noteq> log_path e c \<longrightarrow> node_at (fs st) q = Some n
            \<longrightarrow> node_at (fs (attach_file_logger e c st)) q = Some n)
       \<and> (\<forall>q b. node_at (fs (attach_file_logger e c st)) q = Some (File b)
            \<longrightarrow> node_at (fs st) q = None \<longrightarrow> q = log_path e c)
       \<and> (\<forall>b. node_at (fs st) (log_path e c) = Some (File b)
            \<longrightarrow> (\<exists>t. node_at (fs (attach_file_logger e c st)) (log_path e c)
                        = Some (File (b @ t))))"
proof -
  obtain r f1 where mk: "mkdir_p (cwd e) (sandbox c) (fs st) = (r, f1)"
    by (cases "mkdir_p (cwd e) (sandbox c) (fs st)") blast
  then have adds: "only_adds_dirs (fs st) f1" by (rule mkdir_p_adds)
  have up: "node_at f1 q = Some n" if "node_at (fs st) q = Some n" for q n
    using adds [unfolded only_adds_dirs_def, rule_format, of q] that by auto
  have down: "node_at (fs st) q \<noteq> None" if "node_at f1 q = Some (File b)" for q b
  proof
    assume "node_at (fs st) q = None"
    with adds [unfolded only_adds_dirs_def, rule_format, of q] that show False by simp
  qed
  let ?st1 = "st\<lparr>fs := f1\<rparr>"
  have h1: "handler ?st1 = None" using assms by simp
  have simple: ?thesis if same: "fs (attach_file_logger e c st) = f1"
  proof (intro conjI allI impI)
    fix q n
    assume "node_at (fs st) q = Some n"
    then show "node_at (fs (attach_file_logger e c st)) q = Some n"
      unfolding same by (rule up)
  next
    fix q b
    assume "node_at (fs (attach_file_logger e c st)) q = Some (File b)"
       and "node_at (fs st) q = None"
    with down [of q b] same show "q = log_path e c" by simp
  next
    fix b
    assume "node_at (fs st) (log_path e c) = Some (File b)"
    then have "node_at f1 (log_path e c) = Some (File (b @ []))"
      using up by simp
    then show "\<exists>t. node_at (fs (attach_file_logger e c st)) (log_path e c) = Some (File (b @ t))"
      unfolding same by (rule exI)
  qed
  show ?thesis
  proof (cases r)
    case (Inl err)
    with mk have "fs (attach_file_logger e c st) = f1"
      by (simp add: attach_file_logger_def not_attached_no_handler [OF h1])
    then show ?thesis by (rule simple)
  next
    case (Inr u)
    show ?thesis
    proof (cases "open_append (cwd e) (joinp (sandbox c) (logfile c)) f1")
      case (Inl err)
      with mk Inr have "fs (attach_file_logger e c st) = f1"
        by (simp add: attach_file_logger_def Let_def not_attached_no_handler [OF h1])
      then show ?thesis by (rule simple)
    next
      case opened: (Inr qf)
      obtain q f2 where qf: "qf = (q, f2)" by (cases qf) blast
      note res = open_append_result [OF opened [unfolded qf]]
      from res(1) have q: "q = log_path e c" by (simp add: log_path_def)
      let ?st2 = "st\<lparr>fs := f2, handler := Some q\<rparr>"
      let ?msg = "''Log file: '' @ path_str (joinp (sandbox c) (logfile c))"
      from mk Inr opened qf
      have final: "attach_file_logger e c st = emit e INFO ?msg ?st2"
        by (simp add: attach_file_logger_def Let_def)
      have other: "node_at (fs (emit e INFO ?msg ?st2)) x = node_at f1 x" if "x \<noteq> q" for x
      proof -
        from that have "handler ?st2 \<noteq> Some x" by simp
        then have "node_at (fs (emit e INFO ?msg ?st2)) x = node_at (fs ?st2) x"
          by (rule emit_node_other)
        with res(2) that show ?thesis by simp
      qed
      have at_log: "node_at (fs (emit e INFO ?msg ?st2)) q =
          (case node_at f2 q of
             Some (File b) \<Rightarrow> Some (File (b @ asctime e @ '' ['' @ level_name INFO @ ''] ''
                                        @ ?msg @ ''\<newline>''))
           | x \<Rightarrow> x)"
        using emit_at_handler [of ?st2 q e INFO ?msg] by simp
      show ?thesis
      proof (intro conjI allI impI)
        fix x n
        assume "x \<noteq> log_path e c" and "node_at (fs st) x = Some n"
        with q other [of x] up [of x n]
        show "node_at (fs (attach_file_logger e c st)) x = Some n"
          unfolding final by simp
      next
        fix x b
        assume a: "node_at (fs (attach_file_logger e c st)) x = Some (File b)"
           and n: "node_at (fs st) x = None"
        show "x = log_path e c"
        proof (rule ccontr)
          assume "x \<noteq> log_path e c"
          with q have "x \<noteq> q" by simp
          from a other [OF this] have "node_at f1 x = Some (File b)"
            unfolding final by simp
          from down [OF this] n show False by simp
        qed
      next
        fix b
        assume "node_at (fs st) (log_path e c) = Some (File b)"
        with q up have f1q: "node_at f1 q = Some (File b)" by simp
        with res(4) have "node_at f2 q = Some (File b)" by simp
        with at_log have "node_at (fs (emit e INFO ?msg ?st2)) q
            = Some (File (b @ asctime e @ '' ['' @ level_name INFO @ ''] '' @ ?msg @ ''\<newline>''))"
          by simp
        then show "\<exists>t. node_at (fs (attach_file_logger e c st)) (log_path e c)
                              = Some (File (b @ t))"
          unfolding final q [symmetric] by (rule exI)
      qed
    qed
  qed
qed

text \<open>\<open>status\<close> changes neither the file system nor the handler.\<close>

lemma io_bind_readonly:
  assumes "\<And>s. fs (snd (m s)) = fs s \<and> handler (snd (m s)) = handler s"
      and "\<And>x s. fs (snd (k x s)) = fs s \<and> handler (snd (k x s)) = handler s"
  shows "fs (snd (io_bind m k st)) = fs st \<and> handler (snd (io_bind m k st)) = handler st"
proof (cases "m st")
  case (Pair r s1)
  from assms(1) [of st] Pair have s1: "fs s1 = fs st \<and> handler s1 = handler st" by simp
  show ?thesis
  proof (cases r)
    case (Inl e)
    with Pair s1 show ?thesis by (simp add: io_bind_def)
  next
    case (Inr x)
    with Pair have "io_bind m k st = k x s1" by (simp add: io_bind_def)
    with assms(2) [of x s1] s1 show ?thesis by simp
  qed
qed

lemma io_then_readonly:
  assumes "\<And>s. fs (snd (m s)) = fs s \<and> handler (snd (m s)) = handler s"
      and "\<And>s. fs (snd (n s)) = fs s \<and> handler (snd (n s)) = handler s"
  shows "fs (snd (io_then m n st)) = fs st \<and> handler (snd (io_then m n st)) = handler st"
  unfolding io_then_def using assms by (intro io_bind_readonly) auto

lemma io_print_readonly:
  "fs (snd (io_print line s)) = fs s \<and> handler (snd (io_print line s)) = handler s"
  by (simp add: io_print_def print_def)

lemma fs_read_readonly:
  "fs (snd (fs_read g s)) = fs s \<and> handler (snd (fs_read g s)) = handler s"
  by (simp add: fs_read_def)

lemma print_copies_readonly:
  "fs (snd (print_copies e c ns s)) = fs s \<and> handler (snd (print_copies e c ns s)) = handler s"
proof (induction ns arbitrary: s)
  case Nil
  then show ?case by (simp add: io_ret_def)
next
  case (Cons n ns)
  show ?case
    unfolding print_copies.simps
    by (intro io_bind_readonly io_then_readonly fs_read_readonly io_print_readonly Cons.IH)
qed

lemma print_readonly [simp]: "fs (print line s) = fs s" "handler (print line s) = handler s"
  by (simp_all add: print_def)

lemma foldl_print_readonly:
  "fs (foldl (\<lambda>s h. print (g h) s) s0 hs) = fs s0
   \<and> handler (foldl (\<lambda>s h. print (g h) s) s0 hs) = handler s0"
  by (induction hs arbitrary: s0) simp_all

lemma host_lines_readonly:
  "fs (snd (if b then (Inr (), foldl (\<lambda>s h. print (g h) s) (print l0 s0) hs)
            else (Inr (), s0))) = fs s0
   \<and> handler (snd (if b then (Inr (), foldl (\<lambda>s h. print (g h) s) (print l0 s0) hs)
                 else (Inr (), s0))) = handler s0"
  by (simp add: foldl_print_readonly)

lemma status_report_readonly:
  "fs (snd (status_report e c copies s)) = fs s
   \<and> handler (snd (status_report e c copies s)) = handler s"
  unfolding status_report_def
  by (intro io_then_readonly io_print_readonly print_copies_readonly host_lines_readonly)

lemma snd_case_result:
  "snd (case x of (Inr u, s) \<Rightarrow> (a, s) | (Inl err, s) \<Rightarrow> (b err, s)) = snd x"
  by (cases x) (simp split: sum.splits)

lemma status_readonly:
  "fs (snd (status e c st)) = fs st \<and> handler (snd (status e c st)) = handler st"
  unfolding status_def Let_def
  by (simp add: snd_case_result status_report_readonly)

subsection \<open>Decimal rendering\<close>

lemma digit_char_inj:
  "m < 10 \<Longrightarrow> n < 10 \<Longrightarrow> ''0123456789'' ! m = ''0123456789'' ! n \<Longrightarrow> m = n"
proof -
  assume m: "m < 10" and n: "n < 10" and eq: "''0123456789'' ! m = ''0123456789'' ! n"
  have d: "distinct ''0123456789''" by simp
  from m n have "m < length ''0123456789''" "n < length ''0123456789''" by simp_all
  with d eq show "m = n" by (simp only: nth_eq_iff_index_eq)
qed

lemma digits_nonempty: "digits n \<noteq> []"
  by (subst digits.simps) simp

lemma digits_inj: "digits m = digits n \<Longrightarrow> m = n"
proof (induction m arbitrary: n rule: digits.induct)
  case (1 m)
  show ?case
  proof (cases "m < 10")
    case msmall: True
    show ?thesis
    proof (cases "n < 10")
      case True
      from "1.prems" have "[''0123456789'' ! m] = [''0123456789'' ! n]"
        by (simp only: digits_small [OF msmall] digits_small [OF True])
      then have "''0123456789'' ! m = ''0123456789'' ! n" by (simp only: list.inject)
      with msmall True show ?thesis by (rule digit_char_inj)
    next
      case False
      from "1.prems" have "[''0123456789'' ! m] = digits (n div 10) @ [''0123456789'' ! (n mod 10)]"
        by (simp only: digits_small [OF msmall] digits_large [OF False])
      then have "digits (n div 10) = []"
        by (metis append_Nil butlast.simps(2) butlast_snoc)
      with digits_nonempty show ?thesis by blast
    qed
  next
    case mlarge: False
    show ?thesis
    proof (cases "n < 10")
      case True
      from "1.prems" have "digits (m div 10) @ [''0123456789'' ! (m mod 10)] = [''0123456789'' ! n]"
        by (simp only: digits_small [OF True] digits_large [OF mlarge])
      then have "digits (m div 10) = []"
        by (metis append_Nil butlast.simps(2) butlast_snoc)
      with digits_nonempty show ?thesis by blast
    next
      case False
      from "1.prems" have "digits (m div 10) @ [''0123456789'' ! (m mod 10)]
                           = digits (n div 10) @ [''0123456789'' ! (n mod 10)]"
        by (simp only: digits_large [OF False] digits_large [OF mlarge])
      then have a: "digits (m div 10) = digits (n div 10)"
        and b: "''0123456789'' ! (m mod 10) = ''0123456789'' ! (n mod 10)"
        by (simp_all only: append1_eq_conv)
      from "1.IH" [OF mlarge a] have q: "m div 10 = n div 10" .
      have "m mod 10 < 10" "n mod 10 < 10" by simp_all
      then have r: "m mod 10 = n mod 10" using b by (rule digit_char_inj)
      from q r show ?thesis
        by (metis div_mult_mod_eq)
    qed
  qed
qed

lemma digits_chars: "c \<in> set (digits n) \<Longrightarrow> c \<in> set ''0123456789''"
proof (induction n rule: digits.induct)
  case (1 n)
  show ?case
  proof (cases "n < 10")
    case True
    then have "n < length ''0123456789''" by simp
    then have "''0123456789'' ! n \<in> set ''0123456789''"
      by (rule nth_mem)
    moreover from "1.prems" have "c = ''0123456789'' ! n"
      by (simp only: digits_small [OF True] list.set insert_iff empty_iff) blast
    ultimately show ?thesis by (simp only:)
  next
    case False
    have "n mod 10 < length ''0123456789''" by simp
    then have m: "''0123456789'' ! (n mod 10) \<in> set ''0123456789''"
      by (rule nth_mem)
    from "1.prems" have "c \<in> set (digits (n div 10)) \<or> c = ''0123456789'' ! (n mod 10)"
      by (simp only: digits_large [OF False] set_append list.set Un_iff insert_iff empty_iff) blast
    then show ?thesis
    proof
      assume "c \<in> set (digits (n div 10))"
      then show ?thesis by (rule "1.IH" [OF False])
    next
      assume "c = ''0123456789'' ! (n mod 10)"
      with m show ?thesis by (simp only:)
    qed
  qed
qed

lemma digits_no_newline: "CHR ''\<newline>'' \<notin> set (digits n)"
proof
  assume "CHR ''\<newline>'' \<in> set (digits n)"
  then have "CHR ''\<newline>'' \<in> set ''0123456789''" by (rule digits_chars)
  then show False by simp
qed

lemma make_polymorph_inj: "make_polymorph r1 b = make_polymorph r2 b \<longleftrightarrow> r1 = r2"
proof
  assume "make_polymorph r1 b = make_polymorph r2 b"
  then have eq: "digits r1 @ '' unused comment to vary hash\<newline>''
               = digits r2 @ '' unused comment to vary hash\<newline>''"
    by (simp add: make_polymorph_def)
  then have "digits r1 = digits r2" by (simp only: append_same_eq)
  then show "r1 = r2" by (rule digits_inj)
qed simp

subsection \<open>Sequencing\<close>

lemma io_bind_Inr:
  "io_bind m k st = (Inr y, st') \<Longrightarrow> \<exists>x s1. m st = (Inr x, s1) \<and> k x s1 = (Inr y, st')"
  by (auto simp: io_bind_def split: prod.splits sum.splits)

lemma io_then_Inr:
  "io_then m n st = (Inr y, st') \<Longrightarrow> \<exists>s1. m st = (Inr (), s1) \<and> n s1 = (Inr y, st')"
  unfolding io_then_def by (drule io_bind_Inr) auto

lemma fs_op_Inr:
  "fs_op g st = (Inr u, st') \<Longrightarrow> \<exists>f'. g (fs st) = Inr f' \<and> st' = st\<lparr>fs := f'\<rparr>"
  by (auto simp: fs_op_def split: sum.splits)

lemma fs_run_Inr:
  "fs_run g st = (Inr x, st') \<Longrightarrow> \<exists>f'. g (fs st) = (Inr x, f') \<and> st' = st\<lparr>fs := f'\<rparr>"
  by (auto simp: fs_run_def split: prod.splits)

lemma fs_read_Inr: "fs_read g st = (Inr x, st') \<Longrightarrow> g (fs st) = Inr x \<and> st' = st"
  by (auto simp: fs_read_def)

lemma log_result: "log e l msg st = (r, st') \<Longrightarrow> r = Inr () \<and> st' = emit e l msg st"
  by (auto simp: log_def)

subsection \<open>Names without separators\<close>

lemma split_sep_plain: "CHR ''/'' \<notin> set s \<Longrightarrow> split_sep acc s = [rev acc @ s]"
  by (induction s arbitrary: acc) auto

lemma Path_plain:
  assumes "CHR ''/'' \<notin> set s" and "s \<noteq> []" and "s \<noteq> ''.''"
  shows "Path s = PPath False [s]"
proof -
  from assms(2) have "hd s \<in> set s" by simp
  with assms(1) have "hd s \<noteq> CHR ''/''" by metis
  with assms show ?thesis by (simp add: Path_def split_sep_plain)
qed

lemma joinp_plain:
  assumes "CHR ''/'' \<notin> set s" and "s \<noteq> []" and "s \<noteq> ''.''"
  shows "joinp p s = PPath (is_abs p) (parts p @ [s])"
  by (simp add: joinp_def Path_plain [OF assms])

lemma digits_no_slash: "CHR ''/'' \<notin> set (digits n)"
proof
  assume "CHR ''/'' \<in> set (digits n)"
  then have "CHR ''/'' \<in> set ''0123456789''" by (rule digits_chars)
  then show False by simp
qed

lemma replica_name_plain:
  "CHR ''/'' \<notin> set (replica_name idx)" "replica_name idx \<noteq> []"
  "replica_name idx \<noteq> ''.''" "replica_name idx \<noteq> ''..''"
  using digits_no_slash [of idx] by (simp_all add: replica_name_def)

lemma tmp_replica_plain:
  "CHR ''/'' \<notin> set (''.tmp_replica_'' @ digits idx @ ''.py'')"
  "''.tmp_replica_'' @ digits idx @ ''.py'' \<noteq> ''..''"
  "''.tmp_replica_'' @ digits idx @ ''.py'' \<noteq> replica_name j"
  using digits_no_slash [of idx] by (simp_all add: replica_name_def)

lemma tmp_host_plain:
  "CHR ''/'' \<notin> set (''.tmp_host_'' @ digits i @ ''_'' @ digits idx @ ''.py'')"
  "''.tmp_host_'' @ digits i @ ''_'' @ digits idx @ ''.py'' \<noteq> ''..''"
  "''.tmp_host_'' @ digits i @ ''_'' @ digits idx @ ''.py'' \<noteq> replica_name j"
  using digits_no_slash [of idx] digits_no_slash [of i] by (simp_all add: replica_name_def)

lemma other_names_apart:
  "''tmp'' @ n \<noteq> replica_name j" "''tmp'' @ n \<noteq> ''..''"
  "''friendly_note.txt'' \<noteq> replica_name j"
  by (simp_all add: replica_name_def)

subsection \<open>Files\<close>

lemma locate_last:
  assumes "locate f wd p = Inr q" and "parts p = ps @ [n]" and "n \<noteq> ''..''"
  shows "q \<noteq> [] \<and> last q = n"
  using assms walk_last [of n f _ ps q] by (simp add: locate_def)

lemma locate_dirs_kept:
  "dirs_kept f f' \<Longrightarrow> locate f wd p = Inr q \<Longrightarrow> locate f' wd p = Inr q"
  unfolding locate_def by (rule walk_dirs_kept)

lemma write_file_result:
  assumes "write_file wd p d f = Inr f'"
  shows "\<exists>q. locate f wd p = Inr q \<and> node_at f q \<noteq> Some Dir \<and> q \<noteq> []
             \<and> f' = AList.update q (File d) f"
proof -
  from assms obtain q where q: "locate f wd p = Inr q" "node_at f q \<noteq> Some Dir"
      "f' = AList.update q (File d) f"
    by (auto simp: write_file_def split: sum.splits if_splits)
  from q(2) have "q \<noteq> []" by auto
  with q show ?thesis by blast
qed

lemma write_file_keeps:
  assumes "write_file wd p d f = Inr f'" and "parts p = ps @ [n]" and "n \<noteq> ''..''"
      and "n = rn \<longrightarrow> d = data"
  shows "keeps rn data f f'"
proof -
  from write_file_result [OF assms(1)] obtain q where
    q: "locate f wd p = Inr q" "node_at f q \<noteq> Some Dir" "f' = AList.update q (File d) f"
    by blast
  from locate_last [OF q(1) assms(2,3)] have "last q = n" by simp
  with assms(4) have "last q = rn \<longrightarrow> d = data" by simp
  with q(2) show ?thesis unfolding q(3) by (rule update_file_keeps)
qed

lemma write_file_read:
  assumes "write_file wd p d f = Inr f'"
  shows "read_file wd p f' = Inr d"
proof -
  from write_file_result [OF assms] obtain q where
    q: "locate f wd p = Inr q" "node_at f q \<noteq> Some Dir" "q \<noteq> []"
       "f' = AList.update q (File d) f"
    by blast
  from q(2) have "dirs_kept f f'" unfolding q(4) by (rule update_file_dirs_kept)
  from locate_dirs_kept [OF this q(1)] have "locate f' wd p = Inr q" .
  moreover from q(3) have "node_at f' q = Some (File d)"
    unfolding q(4) by (simp add: node_at_update)
  ultimately show ?thesis by (simp add: read_file_def)
qed

lemma unlink_keeps:
  assumes "unlink_missing_ok wd p f = Inr f'" and "parts p = ps @ [n]" and "n \<noteq> ''..''"
      and "n \<noteq> rn"
  shows "keeps rn data f f'"
proof (cases "f' = f")
  case True
  then show ?thesis by simp
next
  case False
  with assms(1) obtain q b where q: "locate f wd p = Inr q" "node_at f q = Some (File b)"
      "f' = AList.delete q f"
    by (auto simp: unlink_missing_ok_def split: sum.splits oserror.splits option.splits
        node.splits)
  from locate_last [OF q(1) assms(2,3)] assms(4) have "last q \<noteq> rn" by simp
  with q(2) show ?thesis unfolding q(3) by (rule delete_file_keeps)
qed

lemma read_file_extends:
  assumes "extends f f'" and "read_file wd p f = Inr b"
  shows "read_file wd p f' = Inr b"
proof -
  from assms(2) obtain q where q: "locate f wd p = Inr q" "node_at f q = Some (File b)"
    by (auto simp: read_file_def split: sum.splits option.splits node.splits)
  from assms(1) have "dirs_kept f f'" by (rule extends_dirs_kept)
  from locate_dirs_kept [OF this q(1)] have "locate f' wd p = Inr q" .
  moreover from assms(1) q(2) have "node_at f' q = Some (File b)"
    by (simp add: extends_def)
  ultimately show ?thesis by (simp add: read_file_def)
qed

lemma keeps_read:
  assumes "keeps rn data f f'" and "parts p = ps @ [rn]" and "rn \<noteq> ''..''"
      and "read_file wd p f = Inr data"
  shows "read_file wd p f' = Inr data"
proof -
  from assms(4) obtain q where q: "locate f wd p = Inr q" "node_at f q = Some (File data)"
    by (auto simp: read_file_def split: sum.splits option.splits node.splits)
  from locate_last [OF q(1) assms(2,3)] have l: "q \<noteq> []" "last q = rn" by simp_all
  from assms(1) have "dirs_kept f f'" by (simp add: keeps_def)
  from locate_dirs_kept [OF this q(1)] have "locate f' wd p = Inr q" .
  moreover from assms(1) l q(2) have "node_at f' q = Some (File data)"
    by (simp add: keeps_def)
  ultimately show ?thesis by (simp add: read_file_def)
qed

lemma mkstemp_extends: "mkstemp wd d ns f = (r, f') \<Longrightarrow> extends f f'"
proof (induction ns)
  case Nil
  then show ?case by simp
next
  case (Cons n ns)
  then show ?case
    by (auto simp: Let_def update_fresh_extends split: sum.splits if_splits)
qed

lemma mkstemp_result:
  "mkstemp wd d ns f = (Inr t, f') \<Longrightarrow> \<exists>n. parts t = parts d @ [''tmp'' @ n]"
proof (induction ns)
  case Nil
  then show ?case by simp
next
  case (Cons n ns)
  then show ?case
    by (auto simp: Let_def split: sum.splits if_splits)
qed

lemma os_replace_result:
  assumes "os_replace wd src dst f = Inr f'"
  shows "\<exists>qs qd b. locate f wd src = Inr qs \<and> node_at f qs = Some (File b)
           \<and> locate f wd dst = Inr qd \<and> node_at f qd \<noteq> Some Dir
           \<and> (if qd = qs then f' = f else f' = AList.update qd (File b) (AList.delete qs f))"
  using assms
  by (auto simp: os_replace_def split: sum.splits option.splits node.splits if_splits)

lemma os_replace_effect:
  assumes "os_replace wd src dst f = Inr f'" and "read_file wd src f = Inr b"
      and "parts src = ps @ [tn]" and "tn \<noteq> ''..''" and "tn \<noteq> rn"
  shows "read_file wd dst f' = Inr b" and "b = data \<longrightarrow> keeps rn data f f'"
proof -
  from os_replace_result [OF assms(1)] obtain qs qd b' where
    r: "locate f wd src = Inr qs" "node_at f qs = Some (File b')"
       "locate f wd dst = Inr qd" "node_at f qd \<noteq> Some Dir"
       "if qd = qs then f' = f else f' = AList.update qd (File b') (AList.delete qs f)"
    by blast
  from assms(2) r(1,2) have b: "b' = b" by (simp add: read_file_def)
  from r(4) have qd: "qd \<noteq> []" by auto
  from locate_last [OF r(1) assms(3,4)] assms(5) have qs: "last qs \<noteq> rn" by simp
  show "read_file wd dst f' = Inr b"
  proof (cases "qd = qs")
    case True
    with r b show ?thesis by (simp add: read_file_def)
  next
    case False
    with r(5) have f': "f' = AList.update qd (File b') (AList.delete qs f)" by simp
    have "dirs_kept f f'"
      unfolding dirs_kept_def f' using r(2,4) by (auto simp: node_at_update node_at_delete)
    from locate_dirs_kept [OF this r(3)] have "locate f' wd dst = Inr qd" .
    moreover from qd have "node_at f' qd = Some (File b)"
      unfolding f' b by (simp add: node_at_update)
    ultimately show ?thesis by (simp add: read_file_def)
  qed
  show "b = data \<longrightarrow> keeps rn data f f'"
  proof (cases "qd = qs")
    case True
    with r(5) show ?thesis by simp
  next
    case False
    with r(5) have f': "f' = AList.update qd (File b') (AList.delete qs f)" by simp
    show ?thesis
      unfolding keeps_def dirs_kept_def f' using r(2,4) qs b
      by (auto simp: node_at_update node_at_delete)
  qed
qed

subsection \<open>Logging and the payload\<close>

lemma emit_keeps:
  assumes "log_apart rn st"
  shows "keeps rn data (fs st) (fs (emit e l msg st))"
proof (cases "handler st")
  case None
  then show ?thesis by (simp add: emit_no_handler)
next
  case (Some q)
  show ?thesis
  proof (cases "node_at (fs st) q")
    case None
    with Some show ?thesis by (simp add: emit_def append_file_def)
  next
    case (Some nd)
    show ?thesis
    proof (cases nd)
      case Dir
      with Some \<open>handler st = Some q\<close> show ?thesis by (simp add: emit_def append_file_def)
    next
      case (File b)
      with Some have nd: "node_at (fs st) q \<noteq> Some Dir" by simp
      then have "q \<noteq> []" by auto
      with assms \<open>handler st = Some q\<close> have "last q \<noteq> rn" by (simp add: log_apart_def)
      then have "last q = rn \<longrightarrow> b @ asctime e @ '' ['' @ level_name l @ ''] '' @ msg @ ''\<newline>'' = data"
        by simp
      from update_file_keeps [OF nd this] File Some \<open>handler st = Some q\<close>
      show ?thesis by (simp add: emit_def append_file_def)
    qed
  qed
qed

lemma log_apart_emit [simp]: "log_apart rn (emit e l msg st) = log_apart rn st"
  by (simp add: log_apart_def)

lemma log_apart_fs [simp]: "log_apart rn (st\<lparr>fs := f\<rparr>) = log_apart rn st"
  by (simp add: log_apart_def)

lemma payload_keeps:
  assumes "log_apart (replica_name idx) st"
  shows "keeps (replica_name idx) data (fs st) (fs (payload e t st))"
    and "handler (payload e t st) = handler st"
proof -
  let ?p = "joinp t ''friendly_note.txt''"
  have parts: "parts ?p = parts t @ [''friendly_note.txt'']"
    by (simp add: joinp_plain)
  show "handler (payload e t st) = handler st"
    by (simp add: payload_def split: sum.splits)
  show "keeps (replica_name idx) data (fs st) (fs (payload e t st))"
  proof (cases "write_file (cwd e) ?p payload_text (fs st)")
    case (Inl err)
    with emit_keeps [OF assms] show ?thesis by (simp add: payload_def)
  next
    case (Inr f')
    have "''friendly_note.txt'' = replica_name idx \<longrightarrow> payload_text = data"
      using other_names_apart(3) [of idx] by simp
    from write_file_keeps [OF Inr parts _ this]
    have k1: "keeps (replica_name idx) data (fs st) f'" by simp
    from assms have "log_apart (replica_name idx) (st\<lparr>fs := f'\<rparr>)" by simp
    from emit_keeps [OF this]
    have "keeps (replica_name idx) data f'
            (fs (emit e INFO (''Payload note written at '' @ path_str ?p) (st\<lparr>fs := f'\<rparr>)))"
      by simp
    with k1 Inr show ?thesis by (simp add: payload_def keeps_trans)
  qed
qed

subsection \<open>\<open>_atomic_write\<close> and the loop over the hosts\<close>

lemma atomic_write_Inr:
  assumes run: "atomic_write e src dst st = (Inr u, st')"
      and src: "read_file (cwd e) src (fs st) = Inr data"
  shows "keeps (replica_name idx) data (fs st) (fs st')"
    and "handler st' = handler st"
    and "read_file (cwd e) dst (fs st') = Inr data"
proof -
  let ?rn = "replica_name idx"
  from run [unfolded atomic_write_def] obtain s1 where
    a1: "fs_run (mkdir_p (cwd e) (parent dst)) st = (Inr (), s1)" and
    r1: "io_bind (fs_run (mkstemp (cwd e) (parent dst) (tmp_names e))) (\<lambda>tmp.
           io_bind (fs_read (read_file (cwd e) src)) (\<lambda>b.
           io_then (fs_op (write_file (cwd e) tmp b))
                   (fs_op (os_replace (cwd e) tmp dst)))) s1 = (Inr u, st')"
    by (blast dest: io_then_Inr)
  from io_bind_Inr [OF r1] obtain tmp s2 where
    a2: "fs_run (mkstemp (cwd e) (parent dst) (tmp_names e)) s1 = (Inr tmp, s2)" and
    r2: "io_bind (fs_read (read_file (cwd e) src)) (\<lambda>b.
           io_then (fs_op (write_file (cwd e) tmp b))
                   (fs_op (os_replace (cwd e) tmp dst))) s2 = (Inr u, st')"
    by blast
  from io_bind_Inr [OF r2] obtain b s3 where
    a3: "fs_read (read_file (cwd e) src) s2 = (Inr b, s3)" and
    r3: "io_then (fs_op (write_file (cwd e) tmp b))
                 (fs_op (os_replace (cwd e) tmp dst)) s3 = (Inr u, st')"
    by blast
  from io_then_Inr [OF r3] obtain s4 where
    a4: "fs_op (write_file (cwd e) tmp b) s3 = (Inr (), s4)" and
    a5: "fs_op (os_replace (cwd e) tmp dst) s4 = (Inr u, st')"
    by blast
  from fs_run_Inr [OF a1] obtain f1 where
    f1: "mkdir_p (cwd e) (parent dst) (fs st) = (Inr (), f1)" "s1 = st\<lparr>fs := f1\<rparr>"
    by blast
  from fs_run_Inr [OF a2] f1(2) obtain f2 where
    f2: "mkstemp (cwd e) (parent dst) (tmp_names e) f1 = (Inr tmp, f2)" "s2 = st\<lparr>fs := f2\<rparr>"
    by auto
  from fs_read_Inr [OF a3] f2(2) have
    f3: "read_file (cwd e) src f2 = Inr b" "s3 = st\<lparr>fs := f2\<rparr>"
    by auto
  from fs_op_Inr [OF a4] f3(2) obtain f4 where
    f4: "write_file (cwd e) tmp b f2 = Inr f4" "s4 = st\<lparr>fs := f4\<rparr>"
    by auto
  from fs_op_Inr [OF a5] f4(2) obtain f5 where
    f5: "os_replace (cwd e) tmp dst f4 = Inr f5" "st' = st\<lparr>fs := f5\<rparr>"
    by auto
  from f5(2) show "handler st' = handler st" by simp
  have e1: "extends (fs st) f1"
    using f1(1) by (intro only_adds_dirs_extends mkdir_p_adds)
  have e2: "extends f1 f2" using f2(1) by (rule mkstemp_extends)
  from read_file_extends [OF e2 read_file_extends [OF e1 src]] f3(1) have b: "b = data"
    by simp
  from mkstemp_result [OF f2(1)] obtain n where
    tmp: "parts tmp = parts (parent dst) @ [''tmp'' @ n]" by blast
  have apart: "''tmp'' @ n \<noteq> ''..''" "''tmp'' @ n \<noteq> ?rn"
    by (rule other_names_apart)+
  from apart(2) have "''tmp'' @ n = ?rn \<longrightarrow> b = data" by simp
  from write_file_keeps [OF f4(1) tmp apart(1) this]
  have k4: "keeps ?rn data f2 f4" .
  from write_file_read [OF f4(1)] have rd: "read_file (cwd e) tmp f4 = Inr b" .
  note eff = os_replace_effect [OF f5(1) rd tmp apart]
  from eff(2) [of data] b have k5: "keeps ?rn data f4 f5" by simp
  from eff(1) b f5(2) show "read_file (cwd e) dst (fs st') = Inr data" by simp
  have "keeps ?rn data (fs st) f2"
    using e1 e2 by (intro extends_keeps) (rule extends_trans)
  with k4 k5 have "keeps ?rn data (fs st) f5" by (blast intro: keeps_trans)
  with f5(2) show "keeps ?rn data (fs st) (fs st')" by simp
qed

text \<open>Writing the staging file and copying it atomically: the sequence used for the
  primary replica and for every host.\<close>

lemma stage_and_write:
  assumes w: "fs_op (write_file (cwd e) tmp_src data) st = (Inr (), s1)"
      and a: "atomic_write e tmp_src dst s1 = (Inr (), s2)"
      and u: "fs_op (unlink_missing_ok (cwd e) tmp_src) s2 = (Inr (), s3)"
      and tmp: "parts tmp_src = ps @ [tn]" "tn \<noteq> ''..''" "tn \<noteq> replica_name idx"
      and dst: "parts dst = ds @ [replica_name idx]"
  shows "keeps (replica_name idx) data (fs st) (fs s3)"
    and "handler s3 = handler st"
    and "read_file (cwd e) dst (fs s3) = Inr data"
proof -
  let ?rn = "replica_name idx"
  from fs_op_Inr [OF w] obtain f1 where
    f1: "write_file (cwd e) tmp_src data (fs st) = Inr f1" "s1 = st\<lparr>fs := f1\<rparr>" by blast
  from tmp(3) have "tn = ?rn \<longrightarrow> data = data" by simp
  from write_file_keeps [OF f1(1) tmp(1,2) this] f1(2)
  have k1: "keeps ?rn data (fs st) (fs s1)" by simp
  from write_file_read [OF f1(1)] f1(2)
  have "read_file (cwd e) tmp_src (fs s1) = Inr data" by simp
  note aw = atomic_write_Inr [OF a this]
  from fs_op_Inr [OF u] obtain f3 where
    f3: "unlink_missing_ok (cwd e) tmp_src (fs s2) = Inr f3" "s3 = s2\<lparr>fs := f3\<rparr>" by blast
  from unlink_keeps [OF f3(1) tmp] f3(2)
  have k3: "keeps ?rn data (fs s2) (fs s3)" by simp
  from f3(2) aw(2) f1(2) show "handler s3 = handler st" by simp
  from k1 aw(1) k3 show "keeps ?rn data (fs st) (fs s3)"
    by (blast intro: keeps_trans)
  from keeps_read [OF k3 dst replica_name_plain(4) aw(3)]
  show "read_file (cwd e) dst (fs s3) = Inr data" .
qed

lemma spread_host_Inr:
  assumes run: "spread_host e c idx data with_payload i st = (Inr u, st')"
      and apart: "log_apart (replica_name idx) st"
  shows "keeps (replica_name idx) data (fs st) (fs st')"
    and "handler st' = handler st"
    and "is_within (cwd e) (resolve (cwd e) (host_dir c i)) (sandbox c) \<longrightarrow>
         read_file (cwd e) (joinp (resolve (cwd e) (host_dir c i)) (replica_name idx)) (fs st')
           = Inr data"
proof -
  let ?rn = "replica_name idx"
  let ?dir = "resolve (cwd e) (host_dir c i)"
  let ?dst = "joinp ?dir ?rn"
  let ?tn = "''.tmp_host_'' @ digits i @ ''_'' @ digits idx @ ''.py''"
  let ?tmp = "joinp (sandbox c) ?tn"
  have "keeps ?rn data (fs st) (fs st')
      \<and> handler st' = handler st
      \<and> (is_within (cwd e) ?dir (sandbox c) \<longrightarrow> read_file (cwd e) ?dst (fs st') = Inr data)"
  proof (cases "is_within (cwd e) ?dir (sandbox c)")
    case False
    with run have "log e WARNING ''Host path escaped sandbox; skipping.'' st = (Inr u, st')"
      by (simp add: spread_host_def Let_def)
    from log_result [OF this] have "st' = emit e WARNING ''Host path escaped sandbox; skipping.'' st"
      by simp
    with False emit_keeps [OF apart] show ?thesis by simp
  next
    case True
    with run have body:
      "io_then (fs_op (write_file (cwd e) ?tmp data))
        (io_then (atomic_write e ?tmp ?dst)
        (io_then (fs_op (unlink_missing_ok (cwd e) ?tmp))
        (io_then (log e INFO (''(simulated) spread -> host_'' @ digits i @ ''/''
                              @ replica_dir c @ ''/'' @ path_name ?dst))
                 (io_when with_payload (\<lambda>st. (Inr (), payload e ?dir st)))))) st = (Inr u, st')"
      by (simp add: spread_host_def Let_def)
    from io_then_Inr [OF body] obtain s1 where
      a1: "fs_op (write_file (cwd e) ?tmp data) st = (Inr (), s1)" and
      r1: "io_then (atomic_write e ?tmp ?dst)
        (io_then (fs_op (unlink_missing_ok (cwd e) ?tmp))
        (io_then (log e INFO (''(simulated) spread -> host_'' @ digits i @ ''/''
                              @ replica_dir c @ ''/'' @ path_name ?dst))
                 (io_when with_payload (\<lambda>st. (Inr (), payload e ?dir st))))) s1 = (Inr u, st')"
      by blast
    from io_then_Inr [OF r1] obtain s2 where
      a2: "atomic_write e ?tmp ?dst s1 = (Inr (), s2)" and
      r2: "io_then (fs_op (unlink_missing_ok (cwd e) ?tmp))
        (io_then (log e INFO (''(simulated) spread -> host_'' @ digits i @ ''/''
                              @ replica_dir c @ ''/'' @ path_name ?dst))
                 (io_when with_payload (\<lambda>st. (Inr (), payload e ?dir st)))) s2 = (Inr u, st')"
      by blast
    from io_then_Inr [OF r2] obtain s3 where
      a3: "fs_op (unlink_missing_ok (cwd e) ?tmp) s2 = (Inr (), s3)" and
      r3: "io_then (log e INFO (''(simulated) spread -> host_'' @ digits i @ ''/''
                              @ replica_dir c @ ''/'' @ path_name ?dst))
                 (io_when with_payload (\<lambda>st. (Inr (), payload e ?dir st))) s3 = (Inr u, st')"
      by blast
    from io_then_Inr [OF r3] obtain s4 where
      a4: "log e INFO (''(simulated) spread -> host_'' @ digits i @ ''/''
                              @ replica_dir c @ ''/'' @ path_name ?dst) s3 = (Inr (), s4)" and
      a5: "io_when with_payload (\<lambda>st. (Inr (), payload e ?dir st)) s4 = (Inr u, st')"
      by blast
    have tmp: "parts ?tmp = parts (sandbox c) @ [?tn]"
      using tmp_host_plain(1) [of i idx] by (simp add: joinp_plain)
    have dst: "parts ?dst = parts ?dir @ [?rn]"
      by (simp add: joinp_plain replica_name_plain)
    note st = stage_and_write [OF a1 a2 a3 tmp tmp_host_plain(2,3) dst]
    from st(2) apart have ap3: "log_apart ?rn s3" by (simp add: log_apart_def)
    from log_result [OF a4] have s4: "s4 = emit e INFO (''(simulated) spread -> host_''
        @ digits i @ ''/'' @ replica_dir c @ ''/'' @ path_name ?dst) s3"
      by simp
    from emit_keeps [OF ap3] s4 have k4: "keeps ?rn data (fs s3) (fs s4)" by simp
    from ap3 s4 have ap4: "log_apart ?rn s4" by simp
    have k5: "keeps ?rn data (fs s4) (fs st') \<and> handler st' = handler s4"
    proof (cases with_payload)
      case True
      with a5 have "st' = payload e ?dir s4" by (simp add: io_when_def)
      with payload_keeps [OF ap4] show ?thesis by simp
    next
      case False
      with a5 have "st' = s4" by (simp add: io_when_def io_ret_def)
      then show ?thesis by simp
    qed
    from st(1) k4 k5 have k: "keeps ?rn data (fs st) (fs st')"
      by (blast intro: keeps_trans)
    from k4 k5 have "keeps ?rn data (fs s3) (fs st')" by (blast intro: keeps_trans)
    from keeps_read [OF this dst replica_name_plain(4) st(3)]
    have rd: "read_file (cwd e) ?dst (fs st') = Inr data" .
    from k5 s4 st(2) have "handler st' = handler st" by simp
    with k rd show ?thesis by simp
  qed
  then show "keeps ?rn data (fs st) (fs st')" and "handler st' = handler st"
    and "is_within (cwd e) ?dir (sandbox c) \<longrightarrow> read_file (cwd e) ?dst (fs st') = Inr data"
    by simp_all
qed

lemma spread_hosts_Inr:
  assumes "spread_hosts e c idx data with_payload hs st = (Inr u, st')"
      and "log_apart (replica_name idx) st"
  shows "keeps (replica_name idx) data (fs st) (fs st')
       \<and> handler st' = handler st
       \<and> (\<forall>i \<in> set hs. is_within (cwd e) (resolve (cwd e) (host_dir c i)) (sandbox c) \<longrightarrow>
            read_file (cwd e) (joinp (resolve (cwd e) (host_dir c i)) (replica_name idx)) (fs st')
              = Inr data)"
  using assms
proof (induction hs arbitrary: st)
  case Nil
  then show ?case by (simp add: io_ret_def)
next
  case (Cons h hs)
  let ?rn = "replica_name idx"
  from Cons.prems(1) obtain s1 where
    a1: "spread_host e c idx data with_payload h st = (Inr (), s1)" and
    a2: "spread_hosts e c idx data with_payload hs s1 = (Inr u, st')"
    by (auto dest: io_then_Inr)
  note h = spread_host_Inr [OF a1 Cons.prems(2)]
  from h(2) Cons.prems(2) have ap1: "log_apart ?rn s1" by (simp add: log_apart_def)
  note rest = Cons.IH [OF a2 ap1]
  from h(1) rest have k: "keeps ?rn data (fs st) (fs st')" by (blast intro: keeps_trans)
  from h(2) rest have hd: "handler st' = handler st" by simp
  have first: "read_file (cwd e) (joinp (resolve (cwd e) (host_dir c h)) ?rn) (fs st') = Inr data"
    if "is_within (cwd e) (resolve (cwd e) (host_dir c h)) (sandbox c)"
  proof -
    from h(3) that have rd: "read_file (cwd e) (joinp (resolve (cwd e) (host_dir c h)) ?rn) (fs s1)
                               = Inr data" by simp
    have dst: "parts (joinp (resolve (cwd e) (host_dir c h)) ?rn)
                 = parts (resolve (cwd e) (host_dir c h)) @ [?rn]"
      by (simp add: joinp_plain replica_name_plain)
    from rest have "keeps ?rn data (fs s1) (fs st')" by simp
    from keeps_read [OF this dst replica_name_plain(4) rd] show ?thesis .
  qed
  from k hd first rest show ?case by simp
qed

subsection \<open>Sequencing laws and runs that end with an error\<close>

lemma io_bind_cases:
  "io_bind m k st = (r, st') \<Longrightarrow>
     (\<exists>err. m st = (Inl err, st') \<and> r = Inl err) \<or> (\<exists>x s1. m st = (Inr x, s1) \<and> k x s1 = (r, st'))"
  by (auto simp: io_bind_def split: prod.splits sum.splits)

lemma io_then_cases:
  "io_then m n st = (r, st') \<Longrightarrow>
     (\<exists>err. m st = (Inl err, st') \<and> r = Inl err) \<or> (\<exists>s1. m st = (Inr (), s1) \<and> n s1 = (r, st'))"
  unfolding io_then_def by (drule io_bind_cases) auto

lemma io_bind_assoc: "io_bind (io_bind m k) h = io_bind m (\<lambda>x. io_bind (k x) h)"
  by (rule ext) (simp add: io_bind_def split: prod.splits sum.splits)

lemma io_then_assoc: "io_then (io_then m n) h = io_then m (io_then n h)"
  by (simp add: io_then_def io_bind_assoc)

lemma io_bind_then_assoc: "io_then (io_bind m k) h = io_bind m (\<lambda>x. io_then (k x) h)"
  by (simp add: io_then_def io_bind_assoc)

lemma io_ret_then: "io_then (io_ret ()) n = n"
  by (rule ext) (simp add: io_then_def io_bind_def io_ret_def)

lemma io_then_ret: "io_then m (io_ret ()) = m"
  by (rule ext) (simp add: io_then_def io_bind_def io_ret_def split: prod.splits sum.splits)

lemma log_then: "io_then (log e l msg) n st = n (emit e l msg st)"
  by (simp add: io_then_def io_bind_def log_def)

lemma spread_hosts_append:
  "spread_hosts e c idx data with_payload (xs @ ys)
     = io_then (spread_hosts e c idx data with_payload xs)
               (spread_hosts e c idx data with_payload ys)"
  by (induction xs) (simp_all add: io_ret_then io_then_assoc)

text \<open>No statement of \<open>demo\<close> changes the handler.\<close>

lemma io_bind_handler:
  assumes "\<And>s. handler (snd (m s)) = handler s"
      and "\<And>x s. handler (snd (k x s)) = handler s"
  shows "handler (snd (io_bind m k st)) = handler st"
proof (cases "m st")
  case (Pair r s1)
  from assms(1) [of st] Pair have s1: "handler s1 = handler st" by simp
  show ?thesis
  proof (cases r)
    case (Inl err)
    with Pair s1 show ?thesis by (simp add: io_bind_def)
  next
    case (Inr x)
    with Pair have "io_bind m k st = k x s1" by (simp add: io_bind_def)
    with assms(2) [of x s1] s1 show ?thesis by simp
  qed
qed

lemma io_then_handler:
  assumes "\<And>s. handler (snd (m s)) = handler s"
      and "\<And>s. handler (snd (n s)) = handler s"
  shows "handler (snd (io_then m n st)) = handler st"
  unfolding io_then_def using assms by (rule io_bind_handler)

lemma fs_op_handler: "handler (snd (fs_op g st)) = handler st"
  by (simp add: fs_op_def split: sum.splits)

lemma fs_run_handler: "handler (snd (fs_run g st)) = handler st"
  by (simp add: fs_run_def split: prod.splits)

lemma fs_read_handler: "handler (snd (fs_read g st)) = handler st"
  by (simp add: fs_read_def)

lemma log_handler: "handler (snd (log e l msg st)) = handler st"
  by (simp add: log_def)

lemma payload_handler: "handler (payload e t st) = handler st"
  by (simp add: payload_def split: sum.splits)

lemma io_when_payload_handler:
  "handler (snd (io_when b (\<lambda>st. (Inr (), payload e t st)) st)) = handler st"
  by (simp add: io_when_def io_ret_def payload_handler)

lemma atomic_write_handler: "handler (snd (atomic_write e src dst st)) = handler st"
  unfolding atomic_write_def
  by (intro io_then_handler io_bind_handler fs_op_handler fs_run_handler fs_read_handler)

lemma spread_host_handler:
  "handler (snd (spread_host e c idx data with_payload i st)) = handler st"
proof (cases "is_within (cwd e) (resolve (cwd e) (host_dir c i)) (sandbox c)")
  case False
  then show ?thesis by (simp add: spread_host_def Let_def log_handler)
next
  case True
  then show ?thesis
    unfolding spread_host_def Let_def
    by (simp only: not_True_eq_False if_False)
       (intro io_then_handler fs_op_handler atomic_write_handler log_handler
              io_when_payload_handler)
qed

lemma spread_hosts_handler:
  "handler (snd (spread_hosts e c idx data with_payload hs st)) = handler st"
proof (induction hs arbitrary: st)
  case Nil
  then show ?case by (simp add: io_ret_def)
next
  case (Cons h hs)
  show ?case
    unfolding spread_hosts.simps
    by (rule io_then_handler) (rule spread_host_handler, rule Cons.IH)
qed

lemma demo_body_handler:
  "handler (snd (demo_body e c polymorph simulate_spread with_payload idx st)) = handler st"
proof (cases "is_within (cwd e) (resolve (cwd e) (joinp (replicas c) (replica_name idx)))
                (sandbox c)")
  case False
  then show ?thesis by (simp add: demo_body_def Let_def log_handler)
next
  case True
  have spread: "handler (snd (io_when b (spread_hosts e c idx data with_payload hs) s))
                  = handler s" for b data hs s
    by (simp add: io_when_def io_ret_def spread_hosts_handler)
  from True show ?thesis
    unfolding demo_body_def Let_def
    by (simp only: if_True)
       (intro io_then_handler io_bind_handler fs_op_handler fs_read_handler
              atomic_write_handler log_handler io_when_payload_handler spread)
qed

text \<open>The body of \<open>demo\<close> is the body without the loop over the hosts, followed by the loop.\<close>

lemma demo_body_split:
  assumes "is_within (cwd e) (resolve (cwd e) (joinp (replicas c) (replica_name idx)))
             (sandbox c)"
  shows "demo_body e c polymorph simulate_spread with_payload idx
           = io_then (demo_body e c polymorph False with_payload idx)
               (io_when (simulate_spread \<and> host_count c > 0)
                  (spread_hosts e c idx (replica_data e polymorph) with_payload
                     (host_indices c)))"
  using assms
  by (simp add: demo_body_def Let_def io_then_assoc io_bind_then_assoc io_then_ret
        io_when_def [of False])

lemma primary_dst_parts:
  "parts (resolve (cwd e) (joinp (replicas c) (replica_name idx)))
     = normalize (if is_abs (joinp (replicas c) (replica_name idx)) then parts (replicas c)
                  else cwd e @ parts (replicas c)) @ [replica_name idx]"
proof -
  have "parts (joinp (replicas c) (replica_name idx)) = parts (replicas c) @ [replica_name idx]"
    by (simp add: joinp_plain replica_name_plain)
  then show ?thesis
    using replica_name_plain(4) [of idx]
      normalize_snoc [of "parts (replicas c)" "replica_name idx"]
      normalize_snoc [of "cwd e @ parts (replicas c)" "replica_name idx"]
    by (simp add: resolve_def)
qed

text \<open>A replica that is on disk stays there whatever the outcome of \<open>_atomic_write\<close> and
  of one round of the loop.\<close>

lemma atomic_write_trace:
  assumes "atomic_write e src dst st = (r, st')"
  shows "\<exists>r1 f1 r2 f2.
           mkdir_p (cwd e) (parent dst) (fs st) = (r1, f1) \<and>
           mkstemp (cwd e) (parent dst) (tmp_names e) f1 = (r2, f2) \<and>
           (st' = st\<lparr>fs := f1\<rparr> \<or> st' = st\<lparr>fs := f2\<rparr> \<or>
            (\<exists>tmp b f4. r2 = Inr tmp \<and> read_file (cwd e) src f2 = Inr b \<and>
                 write_file (cwd e) tmp b f2 = Inr f4 \<and>
                 (st' = st\<lparr>fs := f4\<rparr> \<or>
                  (\<exists>f5. os_replace (cwd e) tmp dst f4 = Inr f5 \<and> st' = st\<lparr>fs := f5\<rparr>))))"
proof -
  obtain r1 f1 where m1: "mkdir_p (cwd e) (parent dst) (fs st) = (r1, f1)"
    by (cases "mkdir_p (cwd e) (parent dst) (fs st)") blast
  obtain r2 f2 where m2: "mkstemp (cwd e) (parent dst) (tmp_names e) f1 = (r2, f2)"
    by (cases "mkstemp (cwd e) (parent dst) (tmp_names e) f1") blast
  from assms m1 m2 have
    "st' = st\<lparr>fs := f1\<rparr> \<or> st' = st\<lparr>fs := f2\<rparr> \<or>
       (\<exists>tmp b f4. r2 = Inr tmp \<and> read_file (cwd e) src f2 = Inr b \<and>
            write_file (cwd e) tmp b f2 = Inr f4 \<and>
            (st' = st\<lparr>fs := f4\<rparr> \<or>
             (\<exists>f5. os_replace (cwd e) tmp dst f4 = Inr f5 \<and> st' = st\<lparr>fs := f5\<rparr>)))"
    by (auto simp: atomic_write_def io_then_def io_bind_def fs_run_def fs_op_def fs_read_def
             split: sum.splits)
  with m1 m2 show ?thesis by blast
qed

lemma atomic_write_keeps:
  assumes run: "atomic_write e src dst st = (r, st')"
      and src: "read_file (cwd e) src (fs st) = Inr data"
  shows "keeps (replica_name idx) data (fs st) (fs st')"
proof -
  let ?rn = "replica_name idx"
  from atomic_write_trace [OF run] obtain r1 f1 r2 f2 where
    m1: "mkdir_p (cwd e) (parent dst) (fs st) = (r1, f1)" and
    m2: "mkstemp (cwd e) (parent dst) (tmp_names e) f1 = (r2, f2)" and
    tr: "st' = st\<lparr>fs := f1\<rparr> \<or> st' = st\<lparr>fs := f2\<rparr> \<or>
         (\<exists>tmp b f4. r2 = Inr tmp \<and> read_file (cwd e) src f2 = Inr b \<and>
              write_file (cwd e) tmp b f2 = Inr f4 \<and>
              (st' = st\<lparr>fs := f4\<rparr> \<or>
               (\<exists>f5. os_replace (cwd e) tmp dst f4 = Inr f5 \<and> st' = st\<lparr>fs := f5\<rparr>)))"
    by blast
  have e1: "extends (fs st) f1"
    using m1 by (intro only_adds_dirs_extends mkdir_p_adds)
  have e2: "extends f1 f2" using m2 by (rule mkstemp_extends)
  from e1 have k1: "keeps ?rn data (fs st) f1" by (rule extends_keeps)
  have k2: "keeps ?rn data (fs st) f2"
    using e1 e2 by (intro extends_keeps) (rule extends_trans)
  from tr consider
      (a) "st' = st\<lparr>fs := f1\<rparr>"
    | (b) "st' = st\<lparr>fs := f2\<rparr>"
    | (c) tmp b f4 where "r2 = Inr tmp" "read_file (cwd e) src f2 = Inr b"
          "write_file (cwd e) tmp b f2 = Inr f4"
          "st' = st\<lparr>fs := f4\<rparr> \<or>
             (\<exists>f5. os_replace (cwd e) tmp dst f4 = Inr f5 \<and> st' = st\<lparr>fs := f5\<rparr>)"
    by blast
  then show ?thesis
  proof cases
    case a
    with k1 show ?thesis by simp
  next
    case b
    with k2 show ?thesis by simp
  next
    case c
    from read_file_extends [OF e2 read_file_extends [OF e1 src]] c(2) have b: "b = data"
      by simp
    from m2 c(1) have "mkstemp (cwd e) (parent dst) (tmp_names e) f1 = (Inr tmp, f2)" by simp
    from mkstemp_result [OF this] obtain n where
      tmp: "parts tmp = parts (parent dst) @ [''tmp'' @ n]" by blast
    have apart: "''tmp'' @ n \<noteq> ''..''" "''tmp'' @ n \<noteq> ?rn"
      by (rule other_names_apart)+
    from apart(2) have "''tmp'' @ n = ?rn \<longrightarrow> b = data" by simp
    from write_file_keeps [OF c(3) tmp apart(1) this]
    have k4: "keeps ?rn data f2 f4" .
    with k2 have k24: "keeps ?rn data (fs st) f4" by (blast intro: keeps_trans)
    from c(4) show ?thesis
    proof
      assume "st' = st\<lparr>fs := f4\<rparr>"
      with k24 show ?thesis by simp
    next
      assume "\<exists>f5. os_replace (cwd e) tmp dst f4 = Inr f5 \<and> st' = st\<lparr>fs := f5\<rparr>"
      then obtain f5 where f5: "os_replace (cwd e) tmp dst f4 = Inr f5" "st' = st\<lparr>fs := f5\<rparr>"
        by blast
      from write_file_read [OF c(3)] have rd: "read_file (cwd e) tmp f4 = Inr b" .
      note eff = os_replace_effect [OF f5(1) rd tmp apart]
      from eff(2) [of data] b have "keeps ?rn data f4 f5" by simp
      with k24 f5(2) show ?thesis by (auto intro: keeps_trans)
    qed
  qed
qed

lemma spread_host_keeps:
  assumes run: "spread_host e c idx data with_payload i st = (r, st')"
      and apart: "log_apart (replica_name idx) st"
  shows "keeps (replica_name idx) data (fs st) (fs st')"
proof (cases r)
  case (Inr u)
  with run have "spread_host e c idx data with_payload i st = (Inr u, st')" by simp
  from spread_host_Inr(1) [OF this apart] show ?thesis .
next
  case (Inl err)
  let ?rn = "replica_name idx"
  let ?dir = "resolve (cwd e) (host_dir c i)"
  let ?dst = "joinp ?dir ?rn"
  let ?tn = "''.tmp_host_'' @ digits i @ ''_'' @ digits idx @ ''.py''"
  let ?tmp = "joinp (sandbox c) ?tn"
  let ?tail = "io_then (log e INFO (''(simulated) spread -> host_'' @ digits i @ ''/''
                              @ replica_dir c @ ''/'' @ path_name ?dst))
                 (io_when with_payload (\<lambda>st. (Inr (), payload e ?dir st)))"
  have within: "is_within (cwd e) ?dir (sandbox c)"
  proof (rule ccontr)
    assume "\<not> is_within (cwd e) ?dir (sandbox c)"
    with run Inl show False by (simp add: spread_host_def Let_def log_def)
  qed
  with run Inl have body:
    "io_then (fs_op (write_file (cwd e) ?tmp data))
      (io_then (atomic_write e ?tmp ?dst)
      (io_then (fs_op (unlink_missing_ok (cwd e) ?tmp)) ?tail)) st = (Inl err, st')"
    by (simp add: spread_host_def Let_def)
  have tmp: "parts ?tmp = parts (sandbox c) @ [?tn]"
    using tmp_host_plain(1) [of i idx] by (simp add: joinp_plain)
  from io_then_cases [OF body] show ?thesis
  proof (elim disjE exE conjE)
    fix err1 assume "fs_op (write_file (cwd e) ?tmp data) st = (Inl err1, st')"
    then have "st' = st" by (auto simp: fs_op_def split: sum.splits)
    then show ?thesis by simp
  next
    fix s1
    assume a1: "fs_op (write_file (cwd e) ?tmp data) st = (Inr (), s1)"
       and r1: "io_then (atomic_write e ?tmp ?dst)
                  (io_then (fs_op (unlink_missing_ok (cwd e) ?tmp)) ?tail) s1 = (Inl err, st')"
    from fs_op_Inr [OF a1] obtain f1 where
      f1: "write_file (cwd e) ?tmp data (fs st) = Inr f1" "s1 = st\<lparr>fs := f1\<rparr>" by blast
    have "?tn = ?rn \<longrightarrow> data = data" by simp
    from write_file_keeps [OF f1(1) tmp tmp_host_plain(2) this] f1(2)
    have k1: "keeps ?rn data (fs st) (fs s1)" by simp
    from write_file_read [OF f1(1)] f1(2)
    have rd1: "read_file (cwd e) ?tmp (fs s1) = Inr data" by simp
    from io_then_cases [OF r1] show ?thesis
    proof (elim disjE exE conjE)
      fix err2 assume "atomic_write e ?tmp ?dst s1 = (Inl err2, st')"
      from atomic_write_keeps [OF this rd1] k1 show ?thesis by (blast intro: keeps_trans)
    next
      fix s2
      assume a2: "atomic_write e ?tmp ?dst s1 = (Inr (), s2)"
         and r2: "io_then (fs_op (unlink_missing_ok (cwd e) ?tmp)) ?tail s2 = (Inl err, st')"
      from atomic_write_keeps [OF a2 rd1] k1 have k2: "keeps ?rn data (fs st) (fs s2)"
        by (blast intro: keeps_trans)
      from io_then_cases [OF r2] show ?thesis
      proof (elim disjE exE conjE)
        fix err3 assume "fs_op (unlink_missing_ok (cwd e) ?tmp) s2 = (Inl err3, st')"
        then have "st' = s2" by (auto simp: fs_op_def split: sum.splits)
        with k2 show ?thesis by simp
      next
        fix s3
        assume "?tail s3 = (Inl err, st')"
        then have False
          by (cases with_payload) (simp_all add: log_then io_when_def io_ret_def)
        then show ?thesis ..
      qed
    qed
  qed
qed

subsection \<open>The body of \<open>demo\<close> when it returns\<close>

lemma host_indices_positive: "i \<in> set (host_indices c) \<Longrightarrow> host_count c > 0"
  by (auto simp: host_indices_def)

lemma demo_body_Inr:
  assumes run: "demo_body e c polymorph simulate_spread with_payload idx st = (Inr u, st')"
      and within: "is_within (cwd e) (resolve (cwd e) (joinp (replicas c) (replica_name idx)))
                     (sandbox c)"
      and apart: "log_apart (replica_name idx) st"
  shows "read_file (cwd e) (resolve (cwd e) (joinp (replicas c) (replica_name idx))) (fs st')
           = Inr (replica_data e polymorph)"
    and "\<forall>i \<in> set (host_indices c). simulate_spread \<longrightarrow>
           is_within (cwd e) (resolve (cwd e) (host_dir c i)) (sandbox c) \<longrightarrow>
           read_file (cwd e) (joinp (resolve (cwd e) (host_dir c i)) (replica_name idx)) (fs st')
             = Inr (replica_data e polymorph)"
proof -
  let ?rn = "replica_name idx"
  let ?data = "replica_data e polymorph"
  let ?dst = "resolve (cwd e) (joinp (replicas c) ?rn)"
  let ?tn = "''.tmp_replica_'' @ digits idx @ ''.py''"
  let ?tmp = "joinp (sandbox c) ?tn"
  let ?spread = "io_when (simulate_spread \<and> host_count c > 0)
                   (spread_hosts e c idx ?data with_payload (host_indices c))"
  let ?pay = "io_when with_payload (\<lambda>st. (Inr (), payload e (replicas c) st))"
  from run within have body:
    "io_then (fs_op (write_file (cwd e) ?tmp ?data))
      (io_then (atomic_write e ?tmp ?dst)
      (io_then (fs_op (unlink_missing_ok (cwd e) ?tmp))
      (io_then (log e INFO (''Replicated -> '' @ path_name ?dst))
      (io_bind (fs_read (read_file (cwd e) ?dst)) (\<lambda>b.
       io_then (log e INFO (''src sha256='' @ sha256 e (script e)
                            @ ''   dst sha256='' @ sha256 e b))
      (io_then ?pay ?spread)))))) st = (Inr u, st')"
    by (simp add: demo_body_def Let_def)
  from io_then_Inr [OF body] obtain s1 where
    a1: "fs_op (write_file (cwd e) ?tmp ?data) st = (Inr (), s1)" and
    r1: "io_then (atomic_write e ?tmp ?dst)
      (io_then (fs_op (unlink_missing_ok (cwd e) ?tmp))
      (io_then (log e INFO (''Replicated -> '' @ path_name ?dst))
      (io_bind (fs_read (read_file (cwd e) ?dst)) (\<lambda>b.
       io_then (log e INFO (''src sha256='' @ sha256 e (script e)
                            @ ''   dst sha256='' @ sha256 e b))
      (io_then ?pay ?spread))))) s1 = (Inr u, st')"
    by blast
  from io_then_Inr [OF r1] obtain s2 where
    a2: "atomic_write e ?tmp ?dst s1 = (Inr (), s2)" and
    r2: "io_then (fs_op (unlink_missing_ok (cwd e) ?tmp))
      (io_then (log e INFO (''Replicated -> '' @ path_name ?dst))
      (io_bind (fs_read (read_file (cwd e) ?dst)) (\<lambda>b.
       io_then (log e INFO (''src sha256='' @ sha256 e (script e)
                            @ ''   dst sha256='' @ sha256 e b))
      (io_then ?pay ?spread)))) s2 = (Inr u, st')"
    by blast
  from io_then_Inr [OF r2] obtain s3 where
    a3: "fs_op (unlink_missing_ok (cwd e) ?tmp) s2 = (Inr (), s3)" and
    r3: "io_then (log e INFO (''Replicated -> '' @ path_name ?dst))
      (io_bind (fs_read (read_file (cwd e) ?dst)) (\<lambda>b.
       io_then (log e INFO (''src sha256='' @ sha256 e (script e)
                            @ ''   dst sha256='' @ sha256 e b))
      (io_then ?pay ?spread))) s3 = (Inr u, st')"
    by blast
  from io_then_Inr [OF r3] obtain s4 where
    a4: "log e INFO (''Replicated -> '' @ path_name ?dst) s3 = (Inr (), s4)" and
    r4: "io_bind (fs_read (read_file (cwd e) ?dst)) (\<lambda>b.
       io_then (log e INFO (''src sha256='' @ sha256 e (script e)
                            @ ''   dst sha256='' @ sha256 e b))
      (io_then ?pay ?spread)) s4 = (Inr u, st')"
    by blast
  from io_bind_Inr [OF r4] obtain b s5 where
    a5: "fs_read (read_file (cwd e) ?dst) s4 = (Inr b, s5)" and
    r5: "io_then (log e INFO (''src sha256='' @ sha256 e (script e)
                            @ ''   dst sha256='' @ sha256 e b))
      (io_then ?pay ?spread) s5 = (Inr u, st')"
    by blast
  from io_then_Inr [OF r5] obtain s6 where
    a6: "log e INFO (''src sha256='' @ sha256 e (script e)
                     @ ''   dst sha256='' @ sha256 e b) s5 = (Inr (), s6)" and
    r6: "io_then ?pay ?spread s6 = (Inr u, st')"
    by blast
  from io_then_Inr [OF r6] obtain s7 where
    a7: "?pay s6 = (Inr (), s7)" and
    a8: "?spread s7 = (Inr u, st')"
    by blast
  have tmp: "parts ?tmp = parts (sandbox c) @ [?tn]"
    using tmp_replica_plain(1) [of idx] by (simp add: joinp_plain)
  have "parts (joinp (replicas c) ?rn) = parts (replicas c) @ [?rn]"
    by (simp add: joinp_plain replica_name_plain)
  then have dst: "parts ?dst
      = normalize (if is_abs (joinp (replicas c) ?rn) then parts (replicas c)
                   else cwd e @ parts (replicas c)) @ [?rn]"
    using replica_name_plain(4) [of idx] normalize_snoc [of "parts (replicas c)" ?rn]
      normalize_snoc [of "cwd e @ parts (replicas c)" ?rn]
    by (simp add: resolve_def)
  note st = stage_and_write [OF a1 a2 a3 tmp tmp_replica_plain(2,3) dst]
  from st(2) apart have ap3: "log_apart ?rn s3" by (simp add: log_apart_def)
  from log_result [OF a4] have s4: "s4 = emit e INFO (''Replicated -> '' @ path_name ?dst) s3"
    by simp
  from emit_keeps [OF ap3] s4 have k4: "keeps ?rn ?data (fs s3) (fs s4)" by simp
  from ap3 s4 have ap4: "log_apart ?rn s4" by simp
  from fs_read_Inr [OF a5] have s5: "s5 = s4" by simp
  from log_result [OF a6] s5 have s6: "s6 = emit e INFO (''src sha256='' @ sha256 e (script e)
                     @ ''   dst sha256='' @ sha256 e b) s4"
    by simp
  from emit_keeps [OF ap4] s6 have k6: "keeps ?rn ?data (fs s4) (fs s6)" by simp
  from ap4 s6 have ap6: "log_apart ?rn s6" by simp
  have k7: "keeps ?rn ?data (fs s6) (fs s7) \<and> handler s7 = handler s6"
  proof (cases with_payload)
    case True
    with a7 have "s7 = payload e (replicas c) s6" by (simp add: io_when_def)
    with payload_keeps [OF ap6] show ?thesis by simp
  next
    case False
    with a7 have "s7 = s6" by (simp add: io_when_def io_ret_def)
    then show ?thesis by simp
  qed
  with ap6 have ap7: "log_apart ?rn s7" by (simp add: log_apart_def)
  have k8: "keeps ?rn ?data (fs s7) (fs st')
          \<and> (simulate_spread \<and> host_count c > 0 \<longrightarrow>
              (\<forall>i \<in> set (host_indices c).
                 is_within (cwd e) (resolve (cwd e) (host_dir c i)) (sandbox c) \<longrightarrow>
                 read_file (cwd e) (joinp (resolve (cwd e) (host_dir c i)) ?rn) (fs st')
                   = Inr ?data))"
  proof (cases "simulate_spread \<and> host_count c > 0")
    case True
    with a8 have "spread_hosts e c idx ?data with_payload (host_indices c) s7 = (Inr u, st')"
      by (simp add: io_when_def)
    from spread_hosts_Inr [OF this ap7] True show ?thesis by simp
  next
    case False
    with a8 have "st' = s7" by (auto simp: io_when_def io_ret_def)
    with False show ?thesis by auto
  qed
  from k4 k6 k7 k8 have "keeps ?rn ?data (fs s3) (fs st')"
    by (blast intro: keeps_trans)
  from keeps_read [OF this dst replica_name_plain(4) st(3)]
  show "read_file (cwd e) ?dst (fs st') = Inr ?data" .
  from k8 host_indices_positive [of _ c]
  show "\<forall>i \<in> set (host_indices c). simulate_spread \<longrightarrow>
           is_within (cwd e) (resolve (cwd e) (host_dir c i)) (sandbox c) \<longrightarrow>
           read_file (cwd e) (joinp (resolve (cwd e) (host_dir c i)) ?rn) (fs st') = Inr ?data"
    by blast
qed

section \<open>C1: confinement of writes\<close>

text \<open>
  C1. The claim: no file is ever created outside the sandbox root, whatever the
  configuration and the operations. The run below contradicts it. The configuration
  names the sandbox \<open>w_copy_2.py\<close> and the replica directory \<open>..\<close>; \<open>validate_cfg\<close> accepts it
  (there is no separator in either name). In an empty working directory \<open>/work\<close>,
  \<open>--demo\<close> makes the sandbox (the constructor does), finds one entry matching
  \<open>w_copy_*.py\<close> in the replica directory \<open>/work\<close> (the sandbox itself), and so computes the
  destination \<open>/work/w_copy_2.py\<close>, which is the sandbox root: \<open>is_within\<close> holds by equality.
  \<open>_atomic_write\<close> then creates its temporary file in the destination's parent, \<open>/work\<close>,
  copies the replica's bytes into it, and fails to rename it onto the directory. The
  run ends with exit status 4 and leaves \<open>/work/tmpabc\<close>, which holds the replica's bytes
  and is not within the sandbox.
\<close>

theorem temp_file_written_outside_sandbox:
  "validate_cfg escape_cfg = Inr ()
   \<and> main example_env escape_cfg demo_args (start fresh_fs) =
       (Exit 4,
        \<lparr>fs = [([''work''], Dir),
                ([''work'', ''w_copy_2.py''], Dir),
                ([''work'', ''w_copy_2.py'', ''w_demo.log''],
                 File (''12:00 [INFO] Log file: w_copy_2.py/w_demo.log\<newline>''
                       @ ''12:00 [ERROR] Replication failed: [Errno 21] Is a directory\<newline>'')),
                ([''work'', ''w_copy_2.py'', ''.tmp_replica_2.py''], File ''main()\<newline>''),
                ([''work'', ''tmpabc''], File ''main()\<newline>'')],
          handler = Some [''work'', ''w_copy_2.py'', ''w_demo.log''],
          out = [''[INFO] Log file: w_copy_2.py/w_demo.log'',
                 ''[ERROR] Replication failed: [Errno 21] Is a directory'']\<rparr>)
   \<and> \<not> is_within [''work''] (PPath True [''work'', ''tmpabc'']) (Path ''w_copy_2.py'')"
proof -
  have run: "main example_env escape_cfg demo_args (start fresh_fs) =
       (Exit 4,
        \<lparr>fs = [([''work''], Dir),
                ([''work'', ''w_copy_2.py''], Dir),
                ([''work'', ''w_copy_2.py'', ''w_demo.log''],
                 File (''12:00 [INFO] Log file: w_copy_2.py/w_demo.log\<newline>''
                       @ ''12:00 [ERROR] Replication failed: [Errno 21] Is a directory\<newline>'')),
                ([''work'', ''w_copy_2.py'', ''.tmp_replica_2.py''], File ''main()\<newline>''),
                ([''work'', ''tmpabc''], File ''main()\<newline>'')],
          handler = Some [''work'', ''w_copy_2.py'', ''w_demo.log''],
          out = [''[INFO] Log file: w_copy_2.py/w_demo.log'',
                 ''[ERROR] Replication failed: [Errno 21] Is a directory'']\<rparr>)"
    unfolding main_valid [OF escape_cfg_valid] by (simp add: run_eval)
  have outside: "\<not> is_within [''work''] (PPath True [''work'', ''tmpabc'']) (Path ''w_copy_2.py'')"
    by (simp add: path_eval)
  show ?thesis
    by (rule conjI [OF escape_cfg_valid(1) conjI [OF run outside]])
qed

theorem temp_file_written_outside_sandbox_witness:
  "fst (main example_env escape_cfg demo_args (start fresh_fs)) = Exit 4
   \<and> node_at (fs (snd (main example_env escape_cfg demo_args (start fresh_fs))))
        [''work'', ''tmpabc''] = Some (File ''main()\<newline>'')
   \<and> node_at fresh_fs [''work'', ''tmpabc''] = None"
proof -
  have "node_at fresh_fs [''work'', ''tmpabc''] = None"
    by (simp add: node_at_def fresh_fs_def)
  with temp_file_written_outside_sandbox show ?thesis
    by (simp add: node_at_def)
qed

text \<open>
  The same gap for directories: with \<open>hosts_root\<close> set to \<open>..\<close>, which \<open>validate_cfg\<close> accepts,
  \<open>--init\<close> makes the host directories in the working directory, next to the sandbox;
  \<open>init\<close> calls \<open>is_within\<close> nowhere.
\<close>

lemma init_makes_directories_outside_sandbox:
  "main example_env dotdot_hosts_cfg init_args (start fresh_fs) =
     (Returned,
      \<lparr>fs = [([''work''], Dir),
              ([''work'', ''sandbox_w''], Dir),
              ([''work'', ''sandbox_w'', ''w_demo.log''], File log_after_init),
              ([''work'', ''sandbox_w'', ''manifest.json''],
               File (manifest example_env (default_config\<lparr>hosts_root_name := ''..''\<rparr>))),
              ([''work'', ''sandbox_w'', ''STOP''], File (stop_text default_config)),
              ([''work'', ''host_1''], Dir),
              ([''work'', ''host_1'', ''replicas''], Dir),
              ([''work'', ''host_2''], Dir),
              ([''work'', ''host_2'', ''replicas''], Dir),
              ([''work'', ''host_3''], Dir),
              ([''work'', ''host_3'', ''replicas''], Dir)],
        handler = Some [''work'', ''sandbox_w'', ''w_demo.log''],
        out = [''[INFO] Log file: sandbox_w/w_demo.log'',
               ''[INFO] Sandbox ready at ./sandbox_w. STOP present.'']\<rparr>)"
  unfolding main_valid [OF dotdot_hosts_cfg_valid] by (simp add: run_eval stop_text_def)

section \<open>C2: the replication limit\<close>

text \<open>
  C2. The claim: with limit \<open>L\<close>, the call after the \<open>L\<close>-th success is a no-op reported as
  "limit reached". \<open>demo\<close> of \<open>replicant_v1.2.py\<close> never reads \<open>cfg["limit"]\<close>: with the limit
  set to 1, after \<open>--init\<close> and the removal of \<open>STOP\<close>, the first \<open>--demo\<close> writes
  \<open>w_copy_1.py\<close> (\<open>first_demo_on_armed\<close>) and the second one, run below, writes
  \<open>w_copy_2.py\<close> and reports "Replicated". Revision 1.1 compares the index with the limit
  and stops (\<open>cmd_demo_v11_limit_reached\<close>).
\<close>

theorem second_replica_written_beyond_limit:
  "read_cfg limit1_cfg = Some (default_config\<lparr>limit := PyInt 1\<rparr>)
   \<and> node_at one_replica_fs [''work'', ''sandbox_w'', ''replicas'', ''w_copy_1.py'']
       = Some (File ''main()\<newline>'')
   \<and> node_at one_replica_fs [''work'', ''sandbox_w'', ''replicas'', ''w_copy_2.py''] = None
   \<and> fst (main example_env limit1_cfg demo_args (start one_replica_fs)) = Returned
   \<and> node_at (fs (snd (main example_env limit1_cfg demo_args (start one_replica_fs))))
        [''work'', ''sandbox_w'', ''replicas'', ''w_copy_2.py''] = Some (File ''main()\<newline>'')
   \<and> out (snd (main example_env limit1_cfg demo_args (start one_replica_fs)))
       = [''[INFO] Log file: sandbox_w/w_demo.log'',
          ''[INFO] Replicated -> w_copy_2.py'',
          ''[INFO] src sha256=main()\<newline>   dst sha256=main()\<newline>'']"
  unfolding second_demo_beyond_limit
  by (simp add: limit1_cfg_valid node_at_def one_replica_fs_def host_tree_def)

theorem second_replica_written_beyond_limit_witness:
  "fst (main example_env limit1_cfg demo_args (start one_replica_fs)) = Returned
   \<and> int_of (limit (default_config\<lparr>limit := PyInt 1\<rparr>)) = 1"
  using second_replica_written_beyond_limit by simp

text \<open>The limit is not an input of \<open>demo\<close> at all.\<close>

lemma demo_ignores_limit:
  "demo e (c\<lparr>limit := l\<rparr>) polymorph simulate_spread with_payload st
     = demo e c polymorph simulate_spread with_payload st"
proof -
  have paths: "sandbox (c\<lparr>limit := l\<rparr>) = sandbox c" "replicas (c\<lparr>limit := l\<rparr>) = replicas c"
    "marker (c\<lparr>limit := l\<rparr>) = marker c" "hosts_root (c\<lparr>limit := l\<rparr>) = hosts_root c"
    by (simp_all add: sandbox_def replicas_def marker_def hosts_root_def)
  have hd: "host_dir (c\<lparr>limit := l\<rparr>) = host_dir c"
    by (rule ext) (simp add: host_dir_def paths)
  have sh: "spread_host e (c\<lparr>limit := l\<rparr>) idx data w i = spread_host e c idx data w i"
    for idx data w i
    by (simp add: spread_host_def paths hd Let_def)
  have shs: "spread_hosts e (c\<lparr>limit := l\<rparr>) idx data w is = spread_hosts e c idx data w is"
    for idx data w "is"
    by (induction "is") (simp_all add: sh)
  have body: "demo_body e (c\<lparr>limit := l\<rparr>) polymorph simulate_spread with_payload idx
                = demo_body e c polymorph simulate_spread with_payload idx" for idx
    by (simp add: demo_body_def paths shs host_indices_def Let_def)
  show ?thesis
    by (simp add: demo_def paths body next_index_def)
qed

section \<open>C3: the kill switch\<close>

text \<open>
  C3. Whenever the sandbox exists and the marker file exists in it, \<open>demo\<close> returns
  normally for every combination of \<open>polymorph\<close>, \<open>simulate_spread\<close> and \<open>payload\<close>, its only
  message is the \<open>INFO\<close> line "STOP present; replication blocked.", and no path other
  than the log file of the attached handler changes. In particular, when the log file
  lies neither under the replica directory nor under the hosts root, nothing under
  these directories is created or modified.
\<close>

theorem kill_switch_blocks_replication:
  assumes "path_exists (fs st) (cwd e) (sandbox c)"
      and "path_exists (fs st) (cwd e) (marker c)"
  shows "fst (demo e c polymorph simulate_spread with_payload st) = Returned
       \<and> out (snd (demo e c polymorph simulate_spread with_payload st))
           = out st @ [''[INFO] STOP present; replication blocked.'']
       \<and> (\<forall>q. handler st \<noteq> Some q \<longrightarrow>
              node_at (fs (snd (demo e c polymorph simulate_spread with_payload st))) q
                = node_at (fs st) q)
       \<and> ((\<forall>l. handler st = Some l \<longrightarrow>
               \<not> prefix (parts (resolve (cwd e) (replicas c))) l
             \<and> \<not> prefix (parts (resolve (cwd e) (hosts_root c))) l) \<longrightarrow>
           (\<forall>q. prefix (parts (resolve (cwd e) (replicas c))) q
                \<or> prefix (parts (resolve (cwd e) (hosts_root c))) q \<longrightarrow>
                node_at (fs (snd (demo e c polymorph simulate_spread with_payload st))) q
                  = node_at (fs st) q))"
proof -
  have d: "demo e c polymorph simulate_spread with_payload st
             = (Returned, emit e INFO ''STOP present; replication blocked.'' st)"
    using assms by (simp add: demo_def)
  have frame: "\<And>q. handler st \<noteq> Some q \<Longrightarrow>
      node_at (fs (emit e INFO ''STOP present; replication blocked.'' st)) q = node_at (fs st) q"
    by (rule emit_node_other)
  have under: "node_at (fs (emit e INFO ''STOP present; replication blocked.'' st)) q
                 = node_at (fs st) q"
    if "\<forall>l. handler st = Some l \<longrightarrow> \<not> prefix r l \<and> \<not> prefix h l"
       and "prefix r q \<or> prefix h q" for q r h
  proof -
    from that have "handler st \<noteq> Some q" by auto
    then show ?thesis by (rule frame)
  qed
  show ?thesis
    unfolding d using frame under by (simp add: emit_out level_name_def)
qed

theorem kill_switch_blocks_replication_witness:
  "path_exists (fs stopped_state) (cwd example_env) (sandbox default_config)
   \<and> path_exists (fs stopped_state) (cwd example_env) (marker default_config)
   \<and> fst (demo example_env default_config True True True stopped_state) = Returned
   \<and> node_at (fs (snd (demo example_env default_config True True True stopped_state)))
        [''work'', ''sandbox_w'', ''replicas'', ''w_copy_1.py'']
      = node_at (fs stopped_state) [''work'', ''sandbox_w'', ''replicas'', ''w_copy_1.py'']"
proof -
  have h1: "path_exists (fs stopped_state) (cwd example_env) (sandbox default_config)"
    by (simp add: stopped_state_def path_eval fs_eval example_eval)
  have h2: "path_exists (fs stopped_state) (cwd example_env) (marker default_config)"
    by (simp add: stopped_state_def path_eval fs_eval example_eval)
  have h3: "handler stopped_state \<noteq> Some [''work'', ''sandbox_w'', ''replicas'', ''w_copy_1.py'']"
    by (simp add: stopped_state_def)
  from kill_switch_blocks_replication [OF h1 h2, of True True True] h1 h2 h3
  show ?thesis by blast
qed

section \<open>C4: the uninitialised sandbox\<close>

text \<open>
  C4. When the sandbox directory does not exist at the call of \<open>demo\<close>, the call ends with
  exit status 2 and the \<open>ERROR\<close> "Sandbox not initialized. Run --init first.", and it
  replicates nothing: apart from the log record, which goes to the attached log file if
  there is one, every path holds what it held. Exit status 2 is this branch's own: \<open>demo\<close>
  ends with it exactly when the sandbox is absent.
\<close>

theorem demo_without_sandbox_is_not_initialised:
  "(fst (demo e c polymorph simulate_spread with_payload st) = Exit 2)
     = (\<not> path_exists (fs st) (cwd e) (sandbox c))
   \<and> (\<not> path_exists (fs st) (cwd e) (sandbox c) \<longrightarrow>
        demo e c polymorph simulate_spread with_payload st
          = (Exit 2, emit e ERROR ''Sandbox not initialized. Run --init first.'' st)
        \<and> (\<forall>p. handler st \<noteq> Some p \<longrightarrow>
              node_at (fs (snd (demo e c polymorph simulate_spread with_payload st))) p
                = node_at (fs st) p))"
proof (intro conjI impI allI)
  show "(fst (demo e c polymorph simulate_spread with_payload st) = Exit 2)
          = (\<not> path_exists (fs st) (cwd e) (sandbox c))"
    by (simp add: demo_def split: prod.splits sum.splits)
next
  assume "\<not> path_exists (fs st) (cwd e) (sandbox c)"
  then show "demo e c polymorph simulate_spread with_payload st
          = (Exit 2, emit e ERROR ''Sandbox not initialized. Run --init first.'' st)"
    by (simp add: demo_def)
next
  fix p
  assume "\<not> path_exists (fs st) (cwd e) (sandbox c)" and "handler st \<noteq> Some p"
  then show "node_at (fs (snd (demo e c polymorph simulate_spread with_payload st))) p
                = node_at (fs st) p"
    by (simp add: demo_def emit_node_other)
qed

text \<open>The branch is reached from \<open>main\<close>: when the constructor cannot make the sandbox
  directory, \<open>_attach_file_logger\<close> catches the exception and warns twice, and \<open>--demo\<close>
  then finds no sandbox.\<close>

lemma attach_on_blocked_cwd:
  "attach_file_logger example_env default_config (start blocked_cwd_fs)
     = \<lparr>fs = blocked_cwd_fs, handler = None,
        out = [''[WARNING] File logger not attached: [Errno 20] Not a directory'',
               ''[WARNING] File logger not attached: [Errno 20] Not a directory'']\<rparr>"
  by (simp add: run_eval blocked_cwd_fs_def)

theorem demo_without_sandbox_is_not_initialised_witness:
  "\<not> path_exists (fs (attach_file_logger example_env default_config (start blocked_cwd_fs)))
        (cwd example_env) (sandbox default_config)
   \<and> main example_env CFG demo_args (start blocked_cwd_fs)
       = (Exit 2,
          \<lparr>fs = blocked_cwd_fs, handler = None,
            out = [''[WARNING] File logger not attached: [Errno 20] Not a directory'',
                   ''[WARNING] File logger not attached: [Errno 20] Not a directory'',
                   ''[ERROR] Sandbox not initialized. Run --init first.'']\<rparr>)"
proof -
  let ?st = "attach_file_logger example_env default_config (start blocked_cwd_fs)"
  have absent: "\<not> path_exists (fs ?st) (cwd example_env) (sandbox default_config)"
    unfolding attach_on_blocked_cwd by (simp add: run_eval blocked_cwd_fs_def)
  have m: "main example_env CFG demo_args (start blocked_cwd_fs)
             = demo example_env default_config False False False ?st"
    unfolding main_valid [OF CFG_valid] by (simp add: demo_args_def no_args_def)
  from demo_without_sandbox_is_not_initialised
         [of example_env default_config False False False ?st] absent
  have "demo example_env default_config False False False ?st
          = (Exit 2, emit example_env ERROR ''Sandbox not initialized. Run --init first.'' ?st)"
    by blast
  then have "main example_env CFG demo_args (start blocked_cwd_fs)
       = (Exit 2,
          \<lparr>fs = blocked_cwd_fs, handler = None,
            out = [''[WARNING] File logger not attached: [Errno 20] Not a directory'',
                   ''[WARNING] File logger not attached: [Errno 20] Not a directory'',
                   ''[ERROR] Sandbox not initialized. Run --init first.'']\<rparr>)"
    unfolding m attach_on_blocked_cwd by (simp add: emit_def level_name_def)
  with absent show ?thesis by (rule conjI)
qed

text \<open>In a working directory where the constructor succeeds, the sandbox exists by the
  time \<open>demo\<close> looks for it: \<open>--demo\<close> in an empty directory writes the first replica.\<close>

lemma demo_in_empty_directory:
  "main example_env CFG demo_args (start fresh_fs) =
       (Returned,
        \<lparr>fs = [([''work''], Dir),
                ([''work'', ''sandbox_w''], Dir),
                ([''work'', ''sandbox_w'', ''w_demo.log''],
                 File (''12:00 [INFO] Log file: sandbox_w/w_demo.log\<newline>''
                       @ ''12:00 [INFO] Replicated -> w_copy_1.py\<newline>''
                       @ ''12:00 [INFO] src sha256=main()\<newline>   dst sha256=main()\<newline>\<newline>'')),
                ([''work'', ''sandbox_w'', ''replicas''], Dir),
                ([''work'', ''sandbox_w'', ''replicas'', ''w_copy_1.py''], File ''main()\<newline>'')],
          handler = Some [''work'', ''sandbox_w'', ''w_demo.log''],
          out = [''[INFO] Log file: sandbox_w/w_demo.log'',
                 ''[INFO] Replicated -> w_copy_1.py'',
                 ''[INFO] src sha256=main()\<newline>   dst sha256=main()\<newline>'']\<rparr>)"
  unfolding main_valid [OF CFG_valid] by (simp add: run_eval)

section \<open>C5: a destination outside the sandbox\<close>

text \<open>
  C5. The claim: a failed confinement check for the primary destination ends the
  operation with an error of its own exit status. With the replica directory set to
  \<open>..\<close> the destination is \<open>/work/w_copy_1.py\<close>, outside the sandbox; \<open>demo\<close> of
  \<open>replicant_v1.2.py\<close> writes nothing and logs the \<open>ERROR\<close> "Replica destination escaped
  sandbox; replication aborted.", but then returns normally: there is no \<open>sys.exit\<close> in
  that branch, and the process ends with the status of a successful run. Revision 1.1
  ends with exit status 3 there (\<open>cmd_demo_v11_refuses_escape\<close>).
\<close>

theorem escape_logged_but_returns_normally:
  "main example_env dotdot_replicas_cfg demo_args (start armed_fs) =
     (Returned,
      \<lparr>fs = [([''work''], Dir),
              ([''work'', ''sandbox_w''], Dir),
              ([''work'', ''sandbox_w'', ''w_demo.log''],
               File (log_after_init
                     @ ''12:00 [INFO] Log file: sandbox_w/w_demo.log\<newline>''
                     @ ''12:00 [ERROR] Replica destination escaped sandbox; replication aborted.\<newline>'')),
              ([''work'', ''sandbox_w'', ''manifest.json''],
               File (manifest example_env default_config))]
             @ host_tree,
        handler = Some [''work'', ''sandbox_w'', ''w_demo.log''],
        out = [''[INFO] Log file: sandbox_w/w_demo.log'',
               ''[ERROR] Replica destination escaped sandbox; replication aborted.'']\<rparr>)"
  unfolding main_valid [OF dotdot_replicas_cfg_valid] by (simp add: run_eval)

theorem escape_logged_but_returns_normally_witness:
  "fst (main example_env dotdot_replicas_cfg demo_args (start armed_fs)) = Returned
   \<and> fst (cmd_demo_v11 example_env (default_config\<lparr>replica_dir := ''..''\<rparr>) (start armed_fs))
       = Exit 3"
  using escape_logged_but_returns_normally cmd_demo_v11_refuses_escape by simp

section \<open>C6: failures during the simulated spread\<close>

lemma spread_on_blocked_host:
  "main example_env two_hosts_cfg spread_args (start blocked_host_fs) =
     (Exit 4,
      \<lparr>fs = [([''work''], Dir),
              ([''work'', ''sandbox_w''], Dir),
              ([''work'', ''sandbox_w'', ''hosts''], Dir),
              ([''work'', ''sandbox_w'', ''hosts'', ''host_1''], File ''x''),
              ([''work'', ''sandbox_w'', ''hosts'', ''host_2''], Dir),
              ([''work'', ''sandbox_w'', ''hosts'', ''host_2'', ''replicas''], Dir),
              ([''work'', ''sandbox_w'', ''w_demo.log''],
               File (''12:00 [INFO] Log file: sandbox_w/w_demo.log\<newline>''
                     @ ''12:00 [INFO] Replicated -> w_copy_1.py\<newline>''
                     @ ''12:00 [INFO] src sha256=main()\<newline>   dst sha256=main()\<newline>\<newline>''
                     @ ''12:00 [ERROR] Replication failed: [Errno 20] Not a directory\<newline>'')),
              ([''work'', ''sandbox_w'', ''replicas''], Dir),
              ([''work'', ''sandbox_w'', ''replicas'', ''w_copy_1.py''], File ''main()\<newline>''),
              ([''work'', ''sandbox_w'', ''.tmp_host_1_1.py''], File ''main()\<newline>'')],
        handler = Some [''work'', ''sandbox_w'', ''w_demo.log''],
        out = [''[INFO] Log file: sandbox_w/w_demo.log'',
               ''[INFO] Replicated -> w_copy_1.py'',
               ''[INFO] src sha256=main()\<newline>   dst sha256=main()\<newline>'',
               ''[ERROR] Replication failed: [Errno 20] Not a directory'']\<rparr>)"
  unfolding main_valid [OF two_hosts_cfg_valid] by (simp add: run_eval)

text \<open>
  C6, the claim: an I/O error while writing to one host is logged and that host is
  skipped, the remaining hosts and the operation go on. The counterexample: two hosts,
  of which \<open>hosts/host_1\<close> is a regular file, so that making \<open>host_1/replicas\<close> raises
  \<open>NotADirectoryError\<close>. The run with \<open>--simulate-spread\<close> writes the primary replica and
  then ends with exit status 4 and "Replication failed"; \<open>host_2\<close>, whose directory is
  in place, gets no replica.
\<close>

theorem spread_io_error_ends_the_run:
  "node_at blocked_host_fs [''work'', ''sandbox_w'', ''hosts'', ''host_2'', ''replicas''] = Some Dir
   \<and> fst (main example_env two_hosts_cfg spread_args (start blocked_host_fs)) = Exit 4
   \<and> node_at (fs (snd (main example_env two_hosts_cfg spread_args (start blocked_host_fs))))
        [''work'', ''sandbox_w'', ''replicas'', ''w_copy_1.py''] = Some (File ''main()\<newline>'')
   \<and> node_at (fs (snd (main example_env two_hosts_cfg spread_args (start blocked_host_fs))))
        [''work'', ''sandbox_w'', ''hosts'', ''host_2'', ''replicas'', ''w_copy_1.py''] = None
   \<and> last (out (snd (main example_env two_hosts_cfg spread_args (start blocked_host_fs))))
       = ''[ERROR] Replication failed: [Errno 20] Not a directory''"
  unfolding spread_on_blocked_host by (simp add: node_at_def blocked_host_fs_def)

text \<open>
  C6 as amended. Take a call of \<open>demo\<close> with \<open>simulate_spread\<close> that is neither blocked by
  the marker nor refused by the confinement check, whose statements before the loop
  succeed and leave the state \<open>s\<close> (this is the call without \<open>simulate_spread\<close> returning
  normally with \<open>s\<close>), and whose loop has come to the host \<open>i\<close> in the state \<open>s1\<close>, the hosts
  before it having been written or skipped. Then:

  \<^item> the outcome of the call is the outcome of the rest of the loop: a normal return if the
    loop ends, exit status 4 and the \<open>ERROR\<close> "Replication failed" if it raises;
  \<^item> the primary replica holds the data when the loop comes to \<open>i\<close>;
  \<^item> if the directory of \<open>i\<close> fails the confinement check, the host costs one \<open>WARNING\<close>
    and the loop goes on with the next host;
  \<^item> if writing to \<open>i\<close> raises an \<open>OSError\<close>, the call ends there with exit status 4, in the
    state in which the host raised, so that no later host is attempted; the primary
    replica still holds the data.

  As in C10, the hypothesis on the handler says that the log file is not named like the
  replica being written.
\<close>

theorem spread_host_failures:
  assumes idx: "idx = next_index e c (fs st)"
      and data: "data = replica_data e polymorph"
      and dst: "dst = resolve (cwd e) (joinp (replicas c) (replica_name idx))"
      and nomarker: "\<not> path_exists (fs st) (cwd e) (marker c)"
      and within: "is_within (cwd e) dst (sandbox c)"
      and apart: "\<forall>l. handler st = Some l \<longrightarrow> l = [] \<or> last l \<noteq> replica_name idx"
      and primary: "demo e c polymorph False with_payload st = (Returned, s)"
      and hosts: "host_indices c = before @ i # rest"
      and earlier: "spread_hosts e c idx data with_payload before s = (Inr (), s1)"
  shows "demo e c polymorph True with_payload st
           = (case spread_hosts e c idx data with_payload (i # rest) s1 of
                (Inr u, s') \<Rightarrow> (Returned, s')
              | (Inl err, s') \<Rightarrow>
                  (Exit 4, emit e ERROR (''Replication failed: '' @ strerror err) s'))
       \<and> read_file (cwd e) dst (fs s1) = Inr data
       \<and> (\<not> is_within (cwd e) (resolve (cwd e) (host_dir c i)) (sandbox c) \<longrightarrow>
            spread_hosts e c idx data with_payload (i # rest) s1
              = spread_hosts e c idx data with_payload rest
                  (emit e WARNING ''Host path escaped sandbox; skipping.'' s1))
       \<and> (\<forall>err s2. spread_host e c idx data with_payload i s1 = (Inl err, s2) \<longrightarrow>
            demo e c polymorph True with_payload st
              = (Exit 4, emit e ERROR (''Replication failed: '' @ strerror err) s2)
            \<and> read_file (cwd e) dst
                (fs (emit e ERROR (''Replication failed: '' @ strerror err) s2)) = Inr data)"
proof -
  let ?rn = "replica_name idx"
  let ?loop = "spread_hosts e c idx data with_payload"
  from primary have ex: "path_exists (fs st) (cwd e) (sandbox c)"
    by (auto simp: demo_def split: if_splits)
  obtain r0 s0 where b0: "demo_body e c polymorph False with_payload idx st = (r0, s0)"
    by (cases "demo_body e c polymorph False with_payload idx st") blast
  with primary nomarker ex idx have "r0 = Inr () \<and> s0 = s"
    by (cases r0) (simp_all add: demo_def)
  with b0 have body0: "demo_body e c polymorph False with_payload idx st = (Inr (), s)"
    by simp
  from within dst have within': "is_within (cwd e)
      (resolve (cwd e) (joinp (replicas c) (replica_name idx))) (sandbox c)" by simp
  from hosts have "i \<in> set (host_indices c)" by simp
  then have pos: "host_count c > 0" by (auto simp: host_indices_def)
  have "demo_body e c polymorph True with_payload idx st
          = io_then (demo_body e c polymorph False with_payload idx)
              (io_when (True \<and> host_count c > 0) (?loop (host_indices c))) st"
    unfolding demo_body_split [OF within', of polymorph True with_payload] data ..
  also from body0 pos have "\<dots> = ?loop (host_indices c) s"
    by (simp add: io_then_def io_bind_def io_when_def)
  also from earlier have "\<dots> = ?loop (i # rest) s1"
    unfolding hosts spread_hosts_append by (simp add: io_then_def io_bind_def)
  finally have body: "demo_body e c polymorph True with_payload idx st = ?loop (i # rest) s1" .
  have "demo e c polymorph True with_payload st
           = (case demo_body e c polymorph True with_payload idx st of
                (Inr u, s') \<Rightarrow> (Returned, s')
              | (Inl err, s') \<Rightarrow>
                  (Exit 4, emit e ERROR (''Replication failed: '' @ strerror err) s'))"
    using ex nomarker unfolding idx by (simp add: demo_def)
  then have run: "demo e c polymorph True with_payload st
           = (case ?loop (i # rest) s1 of
                (Inr u, s') \<Rightarrow> (Returned, s')
              | (Inl err, s') \<Rightarrow>
                  (Exit 4, emit e ERROR (''Replication failed: '' @ strerror err) s'))"
    unfolding body .
  from apart have ap: "log_apart ?rn st" by (simp add: log_apart_def)
  from demo_body_Inr(1) [OF body0 within' ap] dst data
  have rd0: "read_file (cwd e) dst (fs s) = Inr data" by simp
  from demo_body_handler [of e c polymorph False with_payload idx st] body0
  have "handler s = handler st" by simp
  with ap have ap_s: "log_apart ?rn s" by (simp add: log_apart_def)
  from spread_hosts_Inr [OF earlier ap_s]
  have k1: "keeps ?rn data (fs s) (fs s1)" and h1: "handler s1 = handler s" by simp_all
  from h1 ap_s have ap1: "log_apart ?rn s1" by (simp add: log_apart_def)
  have parts: "parts dst
     = normalize (if is_abs (joinp (replicas c) ?rn) then parts (replicas c)
                  else cwd e @ parts (replicas c)) @ [?rn]"
    unfolding dst by (rule primary_dst_parts)
  from keeps_read [OF k1 parts replica_name_plain(4) rd0]
  have rd1: "read_file (cwd e) dst (fs s1) = Inr data" .
  have skip: "?loop (i # rest) s1
                = ?loop rest (emit e WARNING ''Host path escaped sandbox; skipping.'' s1)"
    if "\<not> is_within (cwd e) (resolve (cwd e) (host_dir c i)) (sandbox c)"
  proof -
    from that have "spread_host e c idx data with_payload i
               = log e WARNING ''Host path escaped sandbox; skipping.''"
      by (simp add: spread_host_def Let_def)
    then show ?thesis by (simp add: log_then)
  qed
  have fail: "demo e c polymorph True with_payload st
              = (Exit 4, emit e ERROR (''Replication failed: '' @ strerror err) s2)
            \<and> read_file (cwd e) dst
                (fs (emit e ERROR (''Replication failed: '' @ strerror err) s2)) = Inr data"
    if f: "spread_host e c idx data with_payload i s1 = (Inl err, s2)" for err s2
  proof -
    from f have "?loop (i # rest) s1 = (Inl err, s2)"
      by (simp add: io_then_def io_bind_def)
    with run have out: "demo e c polymorph True with_payload st
              = (Exit 4, emit e ERROR (''Replication failed: '' @ strerror err) s2)"
      by simp
    from spread_host_keeps [OF f ap1] have k2: "keeps ?rn data (fs s1) (fs s2)" .
    from spread_host_handler [of e c idx data with_payload i s1] f
    have "handler s2 = handler s1" by simp
    with ap1 have ap2: "log_apart ?rn s2" by (simp add: log_apart_def)
    from emit_keeps [OF ap2]
    have k3: "keeps ?rn data (fs s2)
                (fs (emit e ERROR (''Replication failed: '' @ strerror err) s2))" .
    from k2 k3 have "keeps ?rn data (fs s1)
                (fs (emit e ERROR (''Replication failed: '' @ strerror err) s2))"
      by (rule keeps_trans)
    from keeps_read [OF this parts replica_name_plain(4) rd1] out show ?thesis by simp
  qed
  from run rd1 skip fail show ?thesis by blast
qed

lemma primary_on_blocked_host:
  "demo example_env (default_config\<lparr>host_count := 2\<rparr>) False False False blocked_attached
     = (Returned, primary_done)"
  by (simp add: run_eval blocked_attached_def primary_done_def)

lemma host_1_raises:
  "spread_host example_env (default_config\<lparr>host_count := 2\<rparr>) 1 ''main()\<newline>'' False 1
     primary_done = (Inl ENOTDIR, host_1_failed)"
  by (simp add: run_eval primary_done_def host_1_failed_def)

lemma primary_with_escaping_hosts:
  "demo example_env (default_config\<lparr>host_count := 2, hosts_root_name := ''..''\<rparr>)
     False False False blocked_attached = (Returned, primary_done)"
  by (simp add: run_eval blocked_attached_def primary_done_def)

theorem spread_host_failures_witness:
  "demo example_env (default_config\<lparr>host_count := 2\<rparr>) False False False blocked_attached
     = (Returned, primary_done)
   \<and> spread_host example_env (default_config\<lparr>host_count := 2\<rparr>) 1 ''main()\<newline>'' False 1
       primary_done = (Inl ENOTDIR, host_1_failed)
   \<and> demo example_env (default_config\<lparr>host_count := 2\<rparr>) False True False blocked_attached
       = (Exit 4, emit example_env ERROR (''Replication failed: '' @ strerror ENOTDIR)
                    host_1_failed)
   \<and> read_file [''work''] (PPath True [''work'', ''sandbox_w'', ''replicas'', ''w_copy_1.py''])
       (fs (emit example_env ERROR (''Replication failed: '' @ strerror ENOTDIR) host_1_failed))
       = Inr ''main()\<newline>''
   \<and> \<not> is_within (cwd example_env)
         (resolve (cwd example_env)
            (host_dir (default_config\<lparr>host_count := 2, hosts_root_name := ''..''\<rparr>) 1))
         (sandbox (default_config\<lparr>host_count := 2, hosts_root_name := ''..''\<rparr>))
   \<and> spread_hosts example_env (default_config\<lparr>host_count := 2, hosts_root_name := ''..''\<rparr>)
       1 ''main()\<newline>'' False [1, 2] primary_done
       = spread_hosts example_env (default_config\<lparr>host_count := 2, hosts_root_name := ''..''\<rparr>)
           1 ''main()\<newline>'' False [2]
           (emit example_env WARNING ''Host path escaped sandbox; skipping.'' primary_done)"
proof -
  let ?two = "default_config\<lparr>host_count := 2\<rparr>"
  let ?esc = "default_config\<lparr>host_count := 2, hosts_root_name := ''..''\<rparr>"
  let ?dst = "PPath True [''work'', ''sandbox_w'', ''replicas'', ''w_copy_1.py'']"
  have cw: "cwd example_env = [''work'']" by (simp add: example_env_def)
  have idx2: "1 = next_index example_env ?two (fs blocked_attached)"
    by (simp add: run_eval blocked_attached_def)
  have idxe: "1 = next_index example_env ?esc (fs blocked_attached)"
    by (simp add: run_eval blocked_attached_def)
  have data: "''main()\<newline>'' = replica_data example_env False"
    by (simp add: replica_data_def example_env_def)
  have dst2: "?dst = resolve (cwd example_env) (joinp (replicas ?two) (replica_name 1))"
    by (simp add: path_eval example_env_def default_config_def digits_small)
  have dste: "?dst = resolve (cwd example_env) (joinp (replicas ?esc) (replica_name 1))"
    by (simp add: path_eval example_env_def default_config_def digits_small)
  have nm2: "\<not> path_exists (fs blocked_attached) (cwd example_env) (marker ?two)"
    by (simp add: run_eval blocked_attached_def)
  have nme: "\<not> path_exists (fs blocked_attached) (cwd example_env) (marker ?esc)"
    by (simp add: run_eval blocked_attached_def)
  have w2: "is_within (cwd example_env) ?dst (sandbox ?two)"
    by (simp add: path_eval example_env_def default_config_def)
  have we: "is_within (cwd example_env) ?dst (sandbox ?esc)"
    by (simp add: path_eval example_env_def default_config_def)
  have rn: "replica_name 1 = ''w_copy_1.py''"
    by (simp add: replica_name_def digits_small)
  have ap: "\<forall>l. handler blocked_attached = Some l \<longrightarrow> l = [] \<or> last l \<noteq> replica_name 1"
    unfolding rn by (simp add: blocked_attached_def)
  have h2: "host_indices ?two = [] @ 1 # [2]"
    by (simp add: host_indices_def default_config_def upto_rec1)
  have he: "host_indices ?esc = [] @ 1 # [2]"
    by (simp add: host_indices_def default_config_def upto_rec1)
  have e2: "spread_hosts example_env ?two 1 ''main()\<newline>'' False [] primary_done
              = (Inr (), primary_done)"
    by (simp add: io_ret_def)
  have ee: "spread_hosts example_env ?esc 1 ''main()\<newline>'' False [] primary_done
              = (Inr (), primary_done)"
    by (simp add: io_ret_def)
  have esc: "\<not> is_within (cwd example_env) (resolve (cwd example_env) (host_dir ?esc 1))
               (sandbox ?esc)"
    by (simp add: path_eval example_env_def default_config_def digits_small)
  note fail = spread_host_failures
      [OF idx2 data dst2 nm2 w2 ap primary_on_blocked_host h2 e2]
  note skip = spread_host_failures
      [OF idxe data dste nme we ap primary_with_escaping_hosts he ee]
  from fail host_1_raises
  have c3: "demo example_env ?two False True False blocked_attached
       = (Exit 4, emit example_env ERROR (''Replication failed: '' @ strerror ENOTDIR)
                    host_1_failed)
     \<and> read_file (cwd example_env) ?dst
         (fs (emit example_env ERROR (''Replication failed: '' @ strerror ENOTDIR)
                host_1_failed)) = Inr ''main()\<newline>''"
    by blast
  from skip esc
  have c6: "spread_hosts example_env ?esc 1 ''main()\<newline>'' False [1, 2] primary_done
       = spread_hosts example_env ?esc 1 ''main()\<newline>'' False [2]
           (emit example_env WARNING ''Host path escaped sandbox; skipping.'' primary_done)"
    by blast
  from c3 [unfolded cw] have c3a: "demo example_env ?two False True False blocked_attached
       = (Exit 4, emit example_env ERROR (''Replication failed: '' @ strerror ENOTDIR)
                    host_1_failed)"
    and c3b: "read_file [''work''] ?dst
         (fs (emit example_env ERROR (''Replication failed: '' @ strerror ENOTDIR)
                host_1_failed)) = Inr ''main()\<newline>''"
    by (rule conjunct1, rule conjunct2)
  show ?thesis
    by (rule conjI [OF primary_on_blocked_host conjI [OF host_1_raises
          conjI [OF c3a conjI [OF c3b conjI [OF esc c6]]]]])
qed

section \<open>C7: \<open>status\<close>\<close>

lemma status_on_fresh:
  "main example_env CFG status_args (start fresh_fs) =
     (Returned,
      \<lparr>fs = [([''work''], Dir),
              ([''work'', ''sandbox_w''], Dir),
              ([''work'', ''sandbox_w'', ''w_demo.log''],
               File ''12:00 [INFO] Log file: sandbox_w/w_demo.log\<newline>'')],
        handler = Some [''work'', ''sandbox_w'', ''w_demo.log''],
        out = [''[INFO] Log file: sandbox_w/w_demo.log'',
               ''=== STATUS ==='',
               ''sandbox: /work/sandbox_w'',
               ''STOP present: False'',
               ''limit: 3'',
               ''replicas: 0'']\<rparr>)"
  unfolding main_valid [OF CFG_valid]
  by (simp add: run_eval status_def status_report_def io_print_def py_bool_def)

text \<open>
  C7, the claim: running \<open>status\<close> creates, modifies and deletes nothing, the sandbox root
  and the log file included. The counterexample: \<open>--status\<close> in an empty working
  directory. Before the run neither the sandbox nor the log file exists; after it both
  do, made by the constructor's \<open>_attach_file_logger\<close>, and the report says "STOP present:
  False" instead of "sandbox not initialized".
\<close>

theorem status_run_creates_sandbox_and_log:
  "node_at fresh_fs [''work'', ''sandbox_w''] = None
   \<and> node_at fresh_fs [''work'', ''sandbox_w'', ''w_demo.log''] = None
   \<and> node_at (fs (snd (main example_env CFG status_args (start fresh_fs))))
        [''work'', ''sandbox_w''] = Some Dir
   \<and> node_at (fs (snd (main example_env CFG status_args (start fresh_fs))))
        [''work'', ''sandbox_w'', ''w_demo.log'']
       = Some (File ''12:00 [INFO] Log file: sandbox_w/w_demo.log\<newline>'')"
  unfolding status_on_fresh by (simp add: node_at_def fresh_fs_def)

text \<open>
  C7 as amended. The method \<open>status\<close> leaves the file system as it is. A run of the
  \<open>--status\<close> command changes it only through the constructor's logger: every file and
  directory that exists, the log file apart, is there unchanged afterwards; no file other
  than the log file is created; and a log file that exists is only appended to. (What
  directories the run makes is left open here.)
\<close>

theorem status_run_touches_only_the_log_file:
  assumes "handler st = None" and "read_cfg raw = Some c"
      and "arg_status a" and "\<not> arg_init a" and "\<not> arg_demo a"
  shows "fs (snd (status e c s)) = fs s
       \<and> (\<forall>q n. q \<noteq> log_path e c \<longrightarrow> node_at (fs st) q = Some n
              \<longrightarrow> node_at (fs (snd (main e raw a st))) q = Some n)
       \<and> (\<forall>q b. node_at (fs (snd (main e raw a st))) q = Some (File b)
              \<longrightarrow> node_at (fs st) q = None \<longrightarrow> q = log_path e c)
       \<and> (\<forall>b. node_at (fs st) (log_path e c) = Some (File b)
              \<longrightarrow> (\<exists>t. node_at (fs (snd (main e raw a st))) (log_path e c)
                          = Some (File (b @ t))))"
proof -
  have m: "fs (snd (status e c s)) = fs s"
    by (simp add: status_readonly)
  show ?thesis
  proof (cases "validate_cfg raw")
    case (Inl msg)
    then have same: "fs (snd (main e raw a st)) = fs st"
      using assms(1) by (simp add: main_def emit_no_handler)
    have grow: "\<exists>t. node_at (fs st) (log_path e c) = Some (File (b @ t))"
      if "node_at (fs st) (log_path e c) = Some (File b)" for b
    proof
      from that show "node_at (fs st) (log_path e c) = Some (File (b @ []))" by simp
    qed
    show ?thesis
      unfolding same using m grow by simp
  next
    case (Inr u)
    then have "validate_cfg raw = Inr ()" by simp
    from main_valid [OF this assms(2)] assms(3-5)
    have "main e raw a st = status e c (attach_file_logger e c st)" by simp
    then have same: "fs (snd (main e raw a st)) = fs (attach_file_logger e c st)"
      by (simp add: status_readonly)
    show ?thesis
      unfolding same by (rule conjI [OF m attach_file_logger_frame [OF assms(1)]])
  qed
qed

theorem status_run_touches_only_the_log_file_witness:
  "handler (start fresh_fs) = None
   \<and> read_cfg CFG = Some default_config
   \<and> arg_status status_args \<and> \<not> arg_init status_args \<and> \<not> arg_demo status_args
   \<and> [''work''] \<noteq> log_path example_env default_config
   \<and> node_at (fs (start fresh_fs)) [''work''] = Some Dir
   \<and> node_at (fs (snd (main example_env CFG status_args (start fresh_fs)))) [''work'']
       = Some Dir"
proof -
  have h1: "handler (start fresh_fs) = None" by (simp add: start_def)
  have h3: "arg_status status_args" and h4: "\<not> arg_init status_args"
    and h5: "\<not> arg_demo status_args"
    by (simp_all add: status_args_def no_args_def)
  have p: "[''work''] \<noteq> log_path example_env default_config"
    by (simp add: log_path_def path_eval example_env_def default_config_def)
  have n: "node_at (fs (start fresh_fs)) [''work''] = Some Dir"
    by (simp add: start_def fresh_fs_def node_at_def)
  from status_run_touches_only_the_log_file
         [OF h1 CFG_valid(2) h3 h4 h5, of example_env]
  have "\<forall>q n. q \<noteq> log_path example_env default_config
              \<longrightarrow> node_at (fs (start fresh_fs)) q = Some n
              \<longrightarrow> node_at (fs (snd (main example_env CFG status_args (start fresh_fs)))) q
                    = Some n"
    by blast
  with p n have "node_at (fs (snd (main example_env CFG status_args (start fresh_fs))))
                   [''work''] = Some Dir"
    by blast
  with h1 CFG_valid(2) h3 h4 h5 p n show ?thesis by blast
qed

section \<open>C8: what \<open>validate_cfg\<close> accepts\<close>

lemma check_names_ok:
  "check_names c ks = Inr () \<longleftrightarrow> (\<forall>k \<in> set ks. check_name c k = Inr ())"
  by (induction ks) (auto split: sum.splits)

lemma check_name_ok:
  "check_name c k = Inr () \<longleftrightarrow>
     (\<exists>v. cfg_get c k = PyStr v \<and> v \<notin> set RESERVED_NAMES
          \<and> CHR ''/'' \<notin> set v \<and> CHR 0x5C \<notin> set v)"
  by (auto simp: check_name_def separators_def split: pyval.splits)

text \<open>
  The exact set of accepted configurations: both numbers are ints in range and each of
  the five names is a string that is not reserved and has no separator. Nothing asks
  for the string to be non-empty.
\<close>

lemma validate_cfg_accepts:
  "validate_cfg c = Inr () \<longleftrightarrow>
     is_int (cfg_get c ''limit'') \<and> 0 \<le> int_of (cfg_get c ''limit'')
   \<and> is_int (cfg_get c ''host_count'') \<and> 0 \<le> int_of (cfg_get c ''host_count'')
   \<and> int_of (cfg_get c ''host_count'') \<le> 10
   \<and> (\<forall>k \<in> set name_keys. \<exists>v. cfg_get c k = PyStr v \<and> v \<notin> set RESERVED_NAMES
          \<and> CHR ''/'' \<notin> set v \<and> CHR 0x5C \<notin> set v)"
  by (auto simp: validate_cfg_def check_names_ok check_name_ok)

text \<open>
  C8. The claim: validation succeeds if and only if (among the other conditions) every
  name is a non-empty string. \<open>validate_cfg\<close> of \<open>replicant_v1.2.py\<close> accepts the
  configuration whose sandbox name is the empty string; \<open>validate_config\<close> of revision
  1.1 rejects it through \<open>not val\<close>.
\<close>

theorem validate_cfg_accepts_empty_name:
  "cfg_get empty_name_cfg ''sandbox'' = PyStr []
   \<and> validate_cfg empty_name_cfg = Inr ()
   \<and> validate_config_v11 empty_name_cfg
       = Inl ''Config 'sandbox' must be a simple name without path separators.''"
  by (simp add: cfg_eval empty_name_cfg_def)

theorem validate_cfg_accepts_empty_name_witness:
  "validate_cfg empty_name_cfg = Inr ()"
  using validate_cfg_accepts_empty_name by simp

section \<open>C9: checksums with and without mutation\<close>

text \<open>
  C9, the claim: with \<open>polymorph\<close> two replicas of the same source always have different
  checksums. The counterexample: two runs of \<open>--demo --polymorph\<close> in which
  \<open>random.randint(10000, 99999)\<close> draws 12345 both times. The first gives
  \<open>one_polymorph_fs\<close> (\<open>first_polymorph_on_armed\<close>); after the second, \<open>w_copy_1.py\<close> and
  \<open>w_copy_2.py\<close> hold the same bytes, so every digest of them is the same.
\<close>

theorem polymorph_same_draw_same_bytes:
  "token example_env = 12345
   \<and> fst (main example_env CFG polymorph_args (start one_polymorph_fs)) = Returned
   \<and> read_file [''work''] (Path ''sandbox_w/replicas/w_copy_1.py'')
        (fs (snd (main example_env CFG polymorph_args (start one_polymorph_fs))))
      = Inr (make_polymorph 12345 ''main()\<newline>'')
   \<and> read_file [''work''] (Path ''sandbox_w/replicas/w_copy_2.py'')
        (fs (snd (main example_env CFG polymorph_args (start one_polymorph_fs))))
      = Inr (make_polymorph 12345 ''main()\<newline>'')"
  unfolding second_polymorph_same_token
  by (simp add: example_env_def read_file_def locate_def Path_def node_at_def step_def
      host_tree_def)

text \<open>
  C9 as amended. For two runs on the same source: without \<open>polymorph\<close> the bytes written
  are the source's, so the replicas and all their digests are equal; with \<open>polymorph\<close>
  the bytes are the source followed by one line, \<open># POLY:<draw> unused comment to vary hash\<close>,
  which starts with \<open>#\<close> and has no line break inside, and the replicas of the two runs
  are equal exactly when the two draws are equal.
\<close>

theorem polymorph_replicas_differ_iff_draws_differ:
  assumes "script e1 = script e2"
  shows "replica_data e1 False = script e1
       \<and> replica_data e2 False = replica_data e1 False
       \<and> H (replica_data e2 False) = H (replica_data e1 False)
       \<and> replica_data e1 True
           = script e1 @ ''\<newline>'' @ ''# POLY:'' @ digits (token e1)
             @ '' unused comment to vary hash'' @ ''\<newline>''
       \<and> CHR ''\<newline>'' \<notin> set (''# POLY:'' @ digits (token e1) @ '' unused comment to vary hash'')
       \<and> (replica_data e1 True = replica_data e2 True \<longleftrightarrow> token e1 = token e2)"
proof -
  have inj: "make_polymorph (token e1) (script e2) = make_polymorph (token e2) (script e2)
               \<longleftrightarrow> token e1 = token e2"
    by (rule make_polymorph_inj)
  have nl: "CHR ''\<newline>'' \<notin> set (''# POLY:'' @ digits (token e1) @ '' unused comment to vary hash'')"
    using digits_no_newline [of "token e1"] by simp
  have shape: "replica_data e1 True
           = script e1 @ ''\<newline>'' @ ''# POLY:'' @ digits (token e1)
             @ '' unused comment to vary hash'' @ ''\<newline>''"
    by (simp add: replica_data_def make_polymorph_def)
  have plain: "replica_data e1 False = script e1" "replica_data e2 False = replica_data e1 False"
    using assms by (simp_all add: replica_data_def)
  have iff: "replica_data e1 True = replica_data e2 True \<longleftrightarrow> token e1 = token e2"
    using assms inj by (simp add: replica_data_def)
  from plain nl shape iff show ?thesis by (simp only: simp_thms)
qed

theorem polymorph_replicas_differ_iff_draws_differ_witness:
  "script example_env = script (example_env\<lparr>token := 54321\<rparr>)
   \<and> replica_data example_env False = replica_data (example_env\<lparr>token := 54321\<rparr>) False
   \<and> replica_data example_env True \<noteq> replica_data (example_env\<lparr>token := 54321\<rparr>) True"
proof -
  have h: "script example_env = script (example_env\<lparr>token := 54321\<rparr>)" by simp
  have t: "token example_env \<noteq> token (example_env\<lparr>token := 54321\<rparr>)"
    by (simp add: example_env_def)
  note inst = polymorph_replicas_differ_iff_draws_differ [OF h, where H = "\<lambda>b. b"]
  from inst have same: "replica_data example_env False
                         = replica_data (example_env\<lparr>token := 54321\<rparr>) False"
    by (elim conjE) (rule sym)
  from inst have "replica_data example_env True = replica_data (example_env\<lparr>token := 54321\<rparr>) True
                   \<longleftrightarrow> token example_env = token (example_env\<lparr>token := 54321\<rparr>)"
    by (elim conjE)
  with t have differ: "replica_data example_env True
                         \<noteq> replica_data (example_env\<lparr>token := 54321\<rparr>) True"
    by (simp only: simp_thms not_False_eq_True)
  show ?thesis by (rule conjI [OF h conjI [OF same differ]])
qed

section \<open>C10: the replicas of one call\<close>

text \<open>
  C10. When a call of \<open>demo\<close> passes the kill switch and the confinement check of the
  primary destination and returns normally, the primary replica holds the bytes computed
  once at the start of the call (\<open>replica_data\<close>: the source, or the source with the one
  banner of this call), and so does the replica of every host whose directory passed
  its confinement check, when \<open>simulate_spread\<close> was asked for. The files are read back
  from the final file system, so their digests under any digest function are equal.

  The hypothesis on the handler says that the log file is not named like the replica being
  written. The \<open>FileHandler\<close> writes through the stream it opened; the model writes a log
  record to the file at the handler's path, which is the same file as long as no
  \<open>os.replace\<close> puts another file at that path. The hypothesis keeps the theorem to the
  runs where the two agree.
\<close>

theorem replicas_of_one_call_hold_the_same_bytes:
  assumes "demo e c polymorph simulate_spread with_payload st = (Returned, st')"
      and "\<not> path_exists (fs st) (cwd e) (marker c)"
      and "is_within (cwd e)
             (resolve (cwd e) (joinp (replicas c) (replica_name (next_index e c (fs st)))))
             (sandbox c)"
      and "\<forall>l. handler st = Some l \<longrightarrow> l = [] \<or> last l \<noteq> replica_name (next_index e c (fs st))"
  shows "read_file (cwd e)
           (resolve (cwd e) (joinp (replicas c) (replica_name (next_index e c (fs st)))))
           (fs st') = Inr (replica_data e polymorph)
       \<and> (\<forall>i \<in> set (host_indices c). simulate_spread \<longrightarrow>
            is_within (cwd e) (resolve (cwd e) (host_dir c i)) (sandbox c) \<longrightarrow>
            read_file (cwd e)
              (joinp (resolve (cwd e) (host_dir c i)) (replica_name (next_index e c (fs st))))
              (fs st') = Inr (replica_data e polymorph))"
proof -
  let ?idx = "next_index e c (fs st)"
  from assms(4) have apart: "log_apart (replica_name ?idx) st"
    by (simp add: log_apart_def)
  from assms(1,2) have ex: "path_exists (fs st) (cwd e) (sandbox c)"
    by (auto simp: demo_def split: if_splits)
  obtain r s where body: "demo_body e c polymorph simulate_spread with_payload ?idx st = (r, s)"
    by (cases "demo_body e c polymorph simulate_spread with_payload ?idx st") blast
  with assms(1,2) ex have "r = Inr () \<and> s = st'"
    by (cases r) (simp_all add: demo_def)
  with body have "demo_body e c polymorph simulate_spread with_payload ?idx st = (Inr (), st')"
    by simp
  from demo_body_Inr [OF this assms(3) apart] show ?thesis by blast
qed

lemma spread_on_armed:
  "demo example_env default_config False True False armed_state = (Returned, after_spread)"
  by (simp add: run_eval armed_state_def after_spread_def)

theorem replicas_of_one_call_hold_the_same_bytes_witness:
  "demo example_env default_config False True False armed_state = (Returned, after_spread)
   \<and> \<not> path_exists (fs armed_state) (cwd example_env) (marker default_config)
   \<and> handler armed_state = Some [''work'', ''sandbox_w'', ''w_demo.log'']
   \<and> read_file [''work''] (PPath True [''work'', ''sandbox_w'', ''replicas'', ''w_copy_1.py''])
        (fs after_spread) = Inr ''main()\<newline>''
   \<and> read_file [''work'']
        (PPath True [''work'', ''sandbox_w'', ''hosts'', ''host_2'', ''replicas'', ''w_copy_1.py''])
        (fs after_spread) = Inr ''main()\<newline>''"
proof -
  have idx: "next_index example_env default_config (fs armed_state) = 1"
    by (simp add: run_eval armed_state_def)
  have h2: "\<not> path_exists (fs armed_state) (cwd example_env) (marker default_config)"
    by (simp add: run_eval armed_state_def)
  have h3: "is_within (cwd example_env)
             (resolve (cwd example_env)
                (joinp (replicas default_config)
                   (replica_name (next_index example_env default_config (fs armed_state)))))
             (sandbox default_config)"
    unfolding idx by (simp add: path_eval example_env_def default_config_def digits_small)
  have h0: "handler armed_state = Some [''work'', ''sandbox_w'', ''w_demo.log'']"
    by (simp add: armed_state_def)
  have "replica_name 1 = ''w_copy_1.py''"
    by (simp add: replica_name_def digits_small)
  with h0 have h4: "\<forall>l. handler armed_state = Some l \<longrightarrow> l = [] \<or>
      last l \<noteq> replica_name (next_index example_env default_config (fs armed_state))"
    unfolding idx by simp
  have p1: "resolve (cwd example_env) (joinp (replicas default_config) (replica_name 1))
              = PPath True [''work'', ''sandbox_w'', ''replicas'', ''w_copy_1.py'']"
    by (simp add: path_eval example_env_def default_config_def digits_small)
  have p2: "joinp (resolve (cwd example_env) (host_dir default_config 2)) (replica_name 1)
              = PPath True [''work'', ''sandbox_w'', ''hosts'', ''host_2'', ''replicas'',
                            ''w_copy_1.py'']"
    by (simp add: path_eval example_env_def default_config_def digits_small)
  have w2: "is_within (cwd example_env) (resolve (cwd example_env) (host_dir default_config 2))
              (sandbox default_config)"
    by (simp add: path_eval example_env_def default_config_def digits_small)
  have m2: "2 \<in> set (host_indices default_config)"
    by (simp add: host_indices_def default_config_def upto_rec1)
  have d: "replica_data example_env False = ''main()\<newline>''"
    by (simp add: replica_data_def example_env_def)
  have cw: "cwd example_env = [''work'']" by (simp add: example_env_def)
  note inst = replicas_of_one_call_hold_the_same_bytes [OF spread_on_armed h2 h3 h4,
      unfolded idx p1 d, unfolded cw]
  from inst have c1: "read_file [''work'']
      (PPath True [''work'', ''sandbox_w'', ''replicas'', ''w_copy_1.py'']) (fs after_spread)
        = Inr ''main()\<newline>''"
    by (rule conjunct1)
  from inst have "\<forall>i \<in> set (host_indices default_config). True \<longrightarrow>
      is_within [''work''] (resolve [''work''] (host_dir default_config i)) (sandbox default_config) \<longrightarrow>
      read_file [''work''] (joinp (resolve [''work''] (host_dir default_config i)) (replica_name 1))
        (fs after_spread) = Inr ''main()\<newline>''"
    by (rule conjunct2)
  with m2 w2 [unfolded cw] have "read_file [''work'']
      (joinp (resolve [''work''] (host_dir default_config 2)) (replica_name 1))
        (fs after_spread) = Inr ''main()\<newline>''"
    by blast
  then have c2: "read_file [''work'']
        (PPath True [''work'', ''sandbox_w'', ''hosts'', ''host_2'', ''replicas'', ''w_copy_1.py''])
        (fs after_spread) = Inr ''main()\<newline>''"
    unfolding p2 [unfolded cw] .
  show ?thesis
    by (rule conjI [OF spread_on_armed conjI [OF h2 conjI [OF h0 conjI [OF c1 c2]]]])
qed

end
